theory Spec2Isabelle
  imports Main "HOL-Library.Word"
begin

section \<open>Timestamps (Go's \<open>time.Time\<close>) and the DateTime sanitizer\<close>

text \<open>
  A \<open>time.Time\<close> is an instant together with a location. The instant is kept the way Go
  keeps it: whole seconds since January 1 of year 1, 00:00:00 UTC, plus nanoseconds.
  Of the location only the offset (seconds east of UTC) in force at that instant
  matters to the calendar year. The monotonic clock reading is not part of the model.
\<close>

record Time =
  sec :: int
  nsec :: int
  offset :: int

text \<open>\<open>t.IsZero()\<close>: the instant is January 1, year 1, 00:00:00 UTC, whatever the location.\<close>

definition IsZero :: "Time \<Rightarrow> bool" where
  "IsZero t = (sec t = 0 \<and> nsec t = 0)"

text \<open>
  \<open>t.Year()\<close>: the proleptic Gregorian year of the instant seen in the value's location.
  Days are counted from January 1 of year 1 and split into cycles of 400, 100, 4 and 1
  years; a quotient of 4 in the 100-year and the 1-year step belongs to the last day of
  a leap cycle and is cut back to 3 (Go writes \<open>n -= n >> 2\<close>).
\<close>

definition Year :: "Time \<Rightarrow> int" where
  "Year t =
     (let d = (sec t + offset t) div 86400;
          n400 = d div 146097;
          d1 = d - 146097 * n400;
          n100 = d1 div 36524;
          n100' = n100 - n100 div 4;
          d2 = d1 - 36524 * n100';
          n4 = d2 div 1461;
          d3 = d2 - 1461 * n4;
          n1 = d3 div 365;
          n1' = n1 - n1 div 4
      in 1 + 400 * n400 + 100 * n100' + 4 * n4 + n1')"

text \<open>\<open>time.Unix(s, 0).UTC()\<close>: Unix seconds shifted to the internal epoch.\<close>

definition unixToInternal :: int where
  "unixToInternal = 62135596800"

definition Unix :: "int \<Rightarrow> Time" where
  "Unix s = \<lparr>sec = s + unixToInternal, nsec = 0, offset = 0\<rparr>"

text \<open>The zero value of \<open>time.Time\<close>.\<close>

definition zeroTime :: Time where
  "zeroTime = \<lparr>sec = 0, nsec = 0, offset = 0\<rparr>"

text \<open>
  \<open>validateDateTime\<close> (main.go, 137-144). The result \<open>*time.Time\<close> is an option:
  \<open>nil\<close> is \<open>None\<close>, \<open>&t\<close> is \<open>Some t\<close>.
\<close>

definition validateDateTime :: "Time \<Rightarrow> Time option" where
  "validateDateTime t =
     (if IsZero t \<or> Year t < 1970 \<or> Year t > 2100 \<or> Year t = 0 then None else Some t)"

section \<open>Values of the source store\<close>

text \<open>
  A \<open>primitive.ObjectID\<close> is twelve bytes; the migrators only ever render it with
  \<open>Hex()\<close>, two lower-case hexadecimal digits per byte.
\<close>

type_synonym ObjectID = "8 word list"

definition hexDigit :: "nat \<Rightarrow> char" where
  "hexDigit n = ''0123456789abcdef'' ! (n mod 16)"

definition Hex :: "ObjectID \<Rightarrow> string" where
  "Hex oid = concat (map (\<lambda>b. [hexDigit (unat b div 16), hexDigit (unat b mod 16)]) oid)"

text \<open>A \<open>float64\<close> is only ever copied from a document to a row: it is kept as its 64 bits.\<close>

type_synonym float64 = "64 word"

text \<open>
  The dynamic values an \<open>interface{}\<close> can hold after a document was decoded into a
  \<open>map[string]interface{}\<close>. The charge migrator distinguishes \<open>string\<close> and
  \<open>time.Time\<close> by type assertion; every other dynamic type fails both assertions.
\<close>

datatype bson_value =
    VString string
  | VTime Time
  | VDateTime int
  | VObjectID ObjectID
  | VInt int
  | VDouble float64
  | VBool bool
  | VNull

type_synonym bson_M = "string \<Rightarrow> bson_value option"

text \<open>\<open>v, ok := m[key].(string)\<close> and \<open>v, ok := m[key].(time.Time)\<close>; a missing key gives the
  nil interface, on which every assertion fails.\<close>

fun assertString :: "bson_value option \<Rightarrow> string option" where
  "assertString (Some (VString s)) = Some s"
| "assertString _ = None"

fun assertTime :: "bson_value option \<Rightarrow> Time option" where
  "assertTime (Some (VTime t)) = Some t"
| "assertTime _ = None"

section \<open>Errors\<close>

text \<open>
  An error is what the source driver reported (\<open>Find\<close> or \<open>Decode\<close>), what the
  destination store reported (a violated primary key or unique index, or any other
  failure of the statement), or \<open>fmt.Errorf\<close> of a format, its arguments and the
  wrapped cause. \<open>NilDereference\<close> is the run-time panic of \<open>*p\<close> on a nil pointer.
\<close>

datatype arg = S string | D int

datatype error =
    SourceError string
  | StoreFault string
  | DuplicateEntry string
  | NilDereference
  | Errorf string "arg list" error

section \<open>Destination rows (models.go)\<close>

record Service =
  Service_ID :: string
  Service_CreatedAt :: Time
  Service_Name :: string
  Service_Code :: string

record Organization =
  Organization_ID :: string
  Organization_CreatedAt :: Time
  Organization_UpdatedAt :: Time
  Organization_DeletedAt :: "Time option"
  Organization_IsDeleted :: bool
  Organization_Name :: string
  Organization_Inn :: "string option"
  Organization_Pinfl :: "string option"
  Organization_Balance :: float64
  Organization_FiscalizationBalance :: float64
  Organization_ReservedFiscalizationBalance :: float64
  Organization_TotalPayments :: float64
  Organization_CreditAmount :: float64
  Organization_OrganizationCode :: string
  Organization_ReferralAgentCode :: "string option"
  Organization_WhiteLabel :: string
  Organization_OfferNumber :: string
  Organization_OfferDate :: "Time option"

record OrganizationServiceDemoUses =
  DemoUses_OrganizationId :: string
  DemoUses_ServiceCode :: string
  DemoUses_UsedAt :: Time

record Package =
  Package_ID :: string
  Package_CreatedAt :: Time
  Package_IsDeleted :: bool
  Package_Name :: string
  Package_Price :: float64
  Package_BRVRate :: float64
  Package_DurationDays :: int
  Package_DurationMonths :: int
  Package_IsDemo :: bool
  Package_IsPublic :: bool
  Package_ServiceCode :: string
  Package_DefaultSetOnNewOrganization :: bool

record PackageItem =
  PackageItem_ID :: string
  PackageItem_PackageId :: string
  PackageItem_Name :: string
  PackageItem_Code :: int
  PackageItem_IsOverLimitAllowed :: bool
  PackageItem_OverLimitPrice :: float64
  PackageItem_BRVRate :: float64
  PackageItem_IsUnlimited :: bool
  PackageItem_Limit :: int

record PackageActivationBonusPackage =
  Bonus_PackageId :: string
  Bonus_BonusPackageId :: string

record BoughtPackage =
  BoughtPackage_ID :: string
  BoughtPackage_OrganizationId :: string
  BoughtPackage_PackageId :: string
  BoughtPackage_BoughtAt :: Time
  BoughtPackage_ExpiresAt :: Time
  BoughtPackage_IsAutoExtend :: bool
  BoughtPackage_IsActive :: bool
  BoughtPackage_Price :: float64

record BoughtPackageItem =
  BoughtPackageItem_ID :: string
  BoughtPackageItem_BoughtPackageId :: string
  BoughtPackageItem_Name :: string
  BoughtPackageItem_Code :: int
  BoughtPackageItem_IsOverLimitAllowed :: bool
  BoughtPackageItem_OverLimitPrice :: float64
  BoughtPackageItem_IsUnlimited :: bool
  BoughtPackageItem_LimitValue :: int
  BoughtPackageItem_UsedCount :: int

record Charge =
  Charge_ID :: string
  Charge_CreatedAt :: Time
  Charge_IsDeleted :: bool
  Charge_OrganizationId :: string
  Charge_Price :: float64
  Charge_Type :: int
  Charge_BoughtPackageID :: string
  Charge_BoughtPackageItemCode :: int
  Charge_ServiceCode :: string
  Charge_ObjectId :: string
  Charge_Number :: string
  Charge_Date1 :: "Time option"
  Charge_Date2 :: "Time option"

record Payment =
  Payment_ID :: string
  Payment_CreatedAt :: Time
  Payment_Amount :: float64
  Payment_OrganizationID :: string
  Payment_AccountID :: string
  Payment_Method :: int
  Payment_BankTransactionID :: "string option"

record PaymeTransaction =
  PaymeTransaction_ID :: string
  PaymeTransaction_CreatedAt :: Time
  PaymeTransaction_PaymeTransactionID :: string
  PaymeTransaction_PaymeCreatedAt :: Time
  PaymeTransaction_SystemCompletedAt :: "Time option"
  PaymeTransaction_State :: int
  PaymeTransaction_Amount :: float64
  PaymeTransaction_PaymentId :: "string option"
  PaymeTransaction_OrganizationID :: string
  PaymeTransaction_Reason :: int
  PaymeTransaction_SystemCanceledAt :: "Time option"

record OrganizationBalanceBinding =
  Binding_ID :: string
  Binding_CreatedAt :: Time
  Binding_DeletedAt :: "Time option"
  Binding_IsDeleted :: bool
  Binding_PayerOrganizationID :: string
  Binding_TargetOrganizationID :: string
  Binding_PayerOrganizationName :: string
  Binding_TargetOrganizationName :: string

record CreditUpdates =
  CreditUpdates_ID :: string
  CreditUpdates_CreatedAt :: Time
  CreditUpdates_OrganizationID :: string
  CreditUpdates_Amount :: float64
  CreditUpdates_AccountID :: string

record BankPaymentAutoApplyError =
  AutoApplyError_ID :: string
  AutoApplyError_CreatedAt :: Time
  AutoApplyError_ErrorMessage :: string
  AutoApplyError_Amount :: float64
  AutoApplyError_TransactionID :: string
  AutoApplyError_PayerInn :: string
  AutoApplyError_PayerName :: string
  AutoApplyError_Description :: "string option"
  AutoApplyError_Resolved :: bool

text \<open>The \<open>TableName()\<close> methods.\<close>

definition Service_TableName :: string where
  "Service_TableName = ''services''"

definition Organization_TableName :: string where
  "Organization_TableName = ''organizations''"

definition OrganizationServiceDemoUses_TableName :: string where
  "OrganizationServiceDemoUses_TableName = ''organization_service_demo_uses''"

definition Package_TableName :: string where
  "Package_TableName = ''packages''"

definition PackageItem_TableName :: string where
  "PackageItem_TableName = ''package_items''"

definition PackageActivationBonusPackage_TableName :: string where
  "PackageActivationBonusPackage_TableName = ''package_activation_bonus_packages''"

definition BoughtPackage_TableName :: string where
  "BoughtPackage_TableName = ''bought_packages''"

definition BoughtPackageItem_TableName :: string where
  "BoughtPackageItem_TableName = ''bought_package_items''"

definition Charge_TableName :: string where
  "Charge_TableName = ''charges''"

definition Payment_TableName :: string where
  "Payment_TableName = ''payments''"

definition PaymeTransaction_TableName :: string where
  "PaymeTransaction_TableName = ''payme_transactions''"

definition OrganizationBalanceBinding_TableName :: string where
  "OrganizationBalanceBinding_TableName = ''organization_balance_bindings''"

definition CreditUpdates_TableName :: string where
  "CreditUpdates_TableName = ''credit_updates''"

definition BankPaymentAutoApplyError_TableName :: string where
  "BankPaymentAutoApplyError_TableName = ''bank_payments_auto_apply_errors''"

section \<open>The destination store\<close>

text \<open>
  The environment of a run: whether the n-th statement sent to the destination store
  fails for a reason of the store's own (connection lost, statement rejected), what the
  n-th call of \<open>time.Now()\<close> and of \<open>primitive.NewObjectID()\<close> returns, and
  \<open>time.Parse(time.RFC3339, s)\<close> (\<open>None\<close> when it returns an error).
\<close>

record env =
  store_fault :: "nat \<Rightarrow> bool"
  time_Now :: "nat \<Rightarrow> Time"
  NewObjectID :: "nat \<Rightarrow> ObjectID"
  time_Parse_RFC3339 :: "string \<Rightarrow> Time option"

text \<open>
  The state a run changes: the rows of the fourteen destination tables, in insertion
  order, and how many store statements, clock readings and fresh identifiers the run
  has used so far. The tables hold the struct values handed to the store.
\<close>

record world =
  services :: "Service list"
  organizations :: "Organization list"
  organization_service_demo_uses :: "OrganizationServiceDemoUses list"
  packages :: "Package list"
  package_items :: "PackageItem list"
  package_activation_bonus_packages :: "PackageActivationBonusPackage list"
  bought_packages :: "BoughtPackage list"
  bought_package_items :: "BoughtPackageItem list"
  charges :: "Charge list"
  payments :: "Payment list"
  payme_transactions :: "PaymeTransaction list"
  organization_balance_bindings :: "OrganizationBalanceBinding list"
  credit_updates :: "CreditUpdates list"
  bank_payments_auto_apply_errors :: "BankPaymentAutoApplyError list"
  statements :: nat
  clock_readings :: nat
  ids_minted :: nat

definition sent :: "world \<Rightarrow> world" where
  "sent w = w\<lparr>statements := Suc (statements w)\<rparr>"

definition faulty :: "env \<Rightarrow> world \<Rightarrow> bool" where
  "faulty e w = store_fault e (statements w)"

text \<open>
  A row collides with a table when one of the table's unique keys (its primary key and
  its unique indexes, from the \<open>gorm\<close> tags) has the row's value in some stored row.
\<close>

definition duplicate_key :: "('r \<Rightarrow> string) list \<Rightarrow> 'r \<Rightarrow> 'r list \<Rightarrow> bool" where
  "duplicate_key keys r rows = list_ex (\<lambda>k. list_ex (\<lambda>r'. k r' = k r) rows) keys"

text \<open>\<open>db.Create(&row)\<close>: a plain insert, refused on a collision.\<close>

definition insert_row ::
  "bool \<Rightarrow> string \<Rightarrow> ('r \<Rightarrow> string) list \<Rightarrow> 'r \<Rightarrow> 'r list \<Rightarrow> error option \<times> 'r list" where
  "insert_row fault table keys r rows =
     (if fault then (Some (StoreFault table), rows)
      else if duplicate_key keys r rows then (Some (DuplicateEntry table), rows)
      else (None, rows @ [r]))"

text \<open>\<open>db.Clauses(clause.OnConflict{DoNothing: true}).Create(&row)\<close>: insert-or-ignore, a
  collision is absorbed and leaves the table as it is.\<close>

definition insert_row_ignore ::
  "bool \<Rightarrow> string \<Rightarrow> ('r \<Rightarrow> string) list \<Rightarrow> 'r \<Rightarrow> 'r list \<Rightarrow> error option \<times> 'r list" where
  "insert_row_ignore fault table keys r rows =
     (if fault then (Some (StoreFault table), rows)
      else if duplicate_key keys r rows then (None, rows)
      else (None, rows @ [r]))"

text \<open>The unique keys of each table: \<open>primaryKey\<close> and \<open>uniqueIndex\<close> tags of models.go.
  \<open>OrganizationServiceDemoUses\<close> and \<open>PackageActivationBonusPackage\<close> carry neither tag
  and have no field named \<open>ID\<close>, so their tables have no unique key.\<close>

definition Service_keys :: "(Service \<Rightarrow> string) list" where
  "Service_keys = [Service_ID, Service_Code]"

definition OrganizationServiceDemoUses_keys :: "(OrganizationServiceDemoUses \<Rightarrow> string) list" where
  "OrganizationServiceDemoUses_keys = []"

definition PackageItem_keys :: "(PackageItem \<Rightarrow> string) list" where
  "PackageItem_keys = [PackageItem_ID]"

definition PackageActivationBonusPackage_keys :: "(PackageActivationBonusPackage \<Rightarrow> string) list" where
  "PackageActivationBonusPackage_keys = []"

definition Create_Service :: "env \<Rightarrow> Service \<Rightarrow> world \<Rightarrow> error option \<times> world" where
  "Create_Service e r w =
     (case insert_row (faulty e w) Service_TableName Service_keys r (services w) of
        (err, rows) \<Rightarrow> (err, sent (w\<lparr>services := rows\<rparr>)))"

definition Create_Organization :: "env \<Rightarrow> Organization \<Rightarrow> world \<Rightarrow> error option \<times> world" where
  "Create_Organization e r w =
     (case insert_row (faulty e w) Organization_TableName [Organization_ID] r (organizations w) of
        (err, rows) \<Rightarrow> (err, sent (w\<lparr>organizations := rows\<rparr>)))"

definition CreateOnConflictDoNothing_OrganizationServiceDemoUses ::
  "env \<Rightarrow> OrganizationServiceDemoUses \<Rightarrow> world \<Rightarrow> error option \<times> world" where
  "CreateOnConflictDoNothing_OrganizationServiceDemoUses e r w =
     (case insert_row_ignore (faulty e w) OrganizationServiceDemoUses_TableName
             OrganizationServiceDemoUses_keys r (organization_service_demo_uses w) of
        (err, rows) \<Rightarrow> (err, sent (w\<lparr>organization_service_demo_uses := rows\<rparr>)))"

definition Create_Package :: "env \<Rightarrow> Package \<Rightarrow> world \<Rightarrow> error option \<times> world" where
  "Create_Package e r w =
     (case insert_row (faulty e w) Package_TableName [Package_ID] r (packages w) of
        (err, rows) \<Rightarrow> (err, sent (w\<lparr>packages := rows\<rparr>)))"

definition CreateOnConflictDoNothing_PackageItem ::
  "env \<Rightarrow> PackageItem \<Rightarrow> world \<Rightarrow> error option \<times> world" where
  "CreateOnConflictDoNothing_PackageItem e r w =
     (case insert_row_ignore (faulty e w) PackageItem_TableName PackageItem_keys r
             (package_items w) of
        (err, rows) \<Rightarrow> (err, sent (w\<lparr>package_items := rows\<rparr>)))"

definition CreateOnConflictDoNothing_PackageActivationBonusPackage ::
  "env \<Rightarrow> PackageActivationBonusPackage \<Rightarrow> world \<Rightarrow> error option \<times> world" where
  "CreateOnConflictDoNothing_PackageActivationBonusPackage e r w =
     (case insert_row_ignore (faulty e w) PackageActivationBonusPackage_TableName
             PackageActivationBonusPackage_keys r (package_activation_bonus_packages w) of
        (err, rows) \<Rightarrow> (err, sent (w\<lparr>package_activation_bonus_packages := rows\<rparr>)))"

definition Create_BoughtPackage :: "env \<Rightarrow> BoughtPackage \<Rightarrow> world \<Rightarrow> error option \<times> world" where
  "Create_BoughtPackage e r w =
     (case insert_row (faulty e w) BoughtPackage_TableName [BoughtPackage_ID] r
             (bought_packages w) of
        (err, rows) \<Rightarrow> (err, sent (w\<lparr>bought_packages := rows\<rparr>)))"

definition Create_BoughtPackageItem ::
  "env \<Rightarrow> BoughtPackageItem \<Rightarrow> world \<Rightarrow> error option \<times> world" where
  "Create_BoughtPackageItem e r w =
     (case insert_row (faulty e w) BoughtPackageItem_TableName [BoughtPackageItem_ID] r
             (bought_package_items w) of
        (err, rows) \<Rightarrow> (err, sent (w\<lparr>bought_package_items := rows\<rparr>)))"

definition Create_Charge :: "env \<Rightarrow> Charge \<Rightarrow> world \<Rightarrow> error option \<times> world" where
  "Create_Charge e r w =
     (case insert_row (faulty e w) Charge_TableName [Charge_ID] r (charges w) of
        (err, rows) \<Rightarrow> (err, sent (w\<lparr>charges := rows\<rparr>)))"

definition Create_Payment :: "env \<Rightarrow> Payment \<Rightarrow> world \<Rightarrow> error option \<times> world" where
  "Create_Payment e r w =
     (case insert_row (faulty e w) Payment_TableName [Payment_ID] r (payments w) of
        (err, rows) \<Rightarrow> (err, sent (w\<lparr>payments := rows\<rparr>)))"

definition Create_PaymeTransaction ::
  "env \<Rightarrow> PaymeTransaction \<Rightarrow> world \<Rightarrow> error option \<times> world" where
  "Create_PaymeTransaction e r w =
     (case insert_row (faulty e w) PaymeTransaction_TableName [PaymeTransaction_ID] r
             (payme_transactions w) of
        (err, rows) \<Rightarrow> (err, sent (w\<lparr>payme_transactions := rows\<rparr>)))"

definition Create_OrganizationBalanceBinding ::
  "env \<Rightarrow> OrganizationBalanceBinding \<Rightarrow> world \<Rightarrow> error option \<times> world" where
  "Create_OrganizationBalanceBinding e r w =
     (case insert_row (faulty e w) OrganizationBalanceBinding_TableName [Binding_ID] r
             (organization_balance_bindings w) of
        (err, rows) \<Rightarrow> (err, sent (w\<lparr>organization_balance_bindings := rows\<rparr>)))"

definition Create_CreditUpdates :: "env \<Rightarrow> CreditUpdates \<Rightarrow> world \<Rightarrow> error option \<times> world" where
  "Create_CreditUpdates e r w =
     (case insert_row (faulty e w) CreditUpdates_TableName [CreditUpdates_ID] r
             (credit_updates w) of
        (err, rows) \<Rightarrow> (err, sent (w\<lparr>credit_updates := rows\<rparr>)))"

definition Create_BankPaymentAutoApplyError ::
  "env \<Rightarrow> BankPaymentAutoApplyError \<Rightarrow> world \<Rightarrow> error option \<times> world" where
  "Create_BankPaymentAutoApplyError e r w =
     (case insert_row (faulty e w) BankPaymentAutoApplyError_TableName [AutoApplyError_ID] r
             (bank_payments_auto_apply_errors w) of
        (err, rows) \<Rightarrow> (err, sent (w\<lparr>bank_payments_auto_apply_errors := rows\<rparr>)))"

text \<open>The values of column \<open>id\<close> of a table, by table name; \<open>None\<close> for a table without
  that column (and for a name that is no table), on which the query is an error.\<close>

definition id_column :: "world \<Rightarrow> string \<Rightarrow> string list option" where
  "id_column w table =
     (if table = Service_TableName then Some (map Service_ID (services w))
      else if table = Organization_TableName then Some (map Organization_ID (organizations w))
      else if table = Package_TableName then Some (map Package_ID (packages w))
      else if table = PackageItem_TableName then Some (map PackageItem_ID (package_items w))
      else if table = BoughtPackage_TableName
        then Some (map BoughtPackage_ID (bought_packages w))
      else if table = BoughtPackageItem_TableName
        then Some (map BoughtPackageItem_ID (bought_package_items w))
      else if table = Charge_TableName then Some (map Charge_ID (charges w))
      else if table = Payment_TableName then Some (map Payment_ID (payments w))
      else if table = PaymeTransaction_TableName
        then Some (map PaymeTransaction_ID (payme_transactions w))
      else if table = OrganizationBalanceBinding_TableName
        then Some (map Binding_ID (organization_balance_bindings w))
      else if table = CreditUpdates_TableName
        then Some (map CreditUpdates_ID (credit_updates w))
      else if table = BankPaymentAutoApplyError_TableName
        then Some (map AutoApplyError_ID (bank_payments_auto_apply_errors w))
      else None)"

text \<open>
  \<open>checkRecordExists\<close> (main.go, 127-135): count the rows with the given id; a failed
  query is logged and answered \<open>false\<close>.
\<close>

definition checkRecordExists :: "env \<Rightarrow> world \<Rightarrow> string \<Rightarrow> string \<Rightarrow> bool \<times> world" where
  "checkRecordExists e w table id' =
     (if faulty e w then (False, sent w)
      else (case id_column w table of
              None \<Rightarrow> (False, sent w)
            | Some ids \<Rightarrow> (0 < length (filter (\<lambda>x. x = id') ids), sent w)))"

section \<open>Source documents\<close>

text \<open>
  The structs the documents are decoded into. \<open>mongoService\<close>, \<open>mongoOrganization\<close> and
  \<open>mongoPackage\<close> are declared in models.go; the other seven are the anonymous structs of
  their migrators, named here after the loop variable (\<open>bp\<close>, \<open>c\<close>, \<open>p\<close>, \<open>pt\<close>,
  \<open>obb\<close>, \<open>cu\<close>, \<open>bpae\<close>). A field missing from a document decodes to the zero value of
  its type, a pointer to \<open>None\<close>, a slice to the empty list.
\<close>

record serviceRef =
  serviceRef_ID :: ObjectID
  serviceRef_Name :: string
  serviceRef_Code :: string

record organizationRef =
  organizationRef_ID :: ObjectID
  organizationRef_Name :: string
  organizationRef_Inn :: string

record accountRef =
  accountRef_ID :: ObjectID
  accountRef_Name :: string
  accountRef_Username :: string

record mongoService =
  s_ID :: ObjectID
  s_CreatedAt :: Time
  s_Name :: string
  s_Code :: string

record mongoPackageItem =
  item_Name :: string
  item_Code :: int
  item_IsOverLimitAllowed :: bool
  item_OverLimitPrice :: float64
  item_BRVRate :: float64
  item_IsUnlimited :: bool
  item_Limit :: int

text \<open>An entry of \<open>OnActivationBonusPackages\<close> is a struct of the one field \<open>ID\<close>: it is
  kept as that identifier.\<close>

record mongoPackage =
  p_ID :: ObjectID
  p_CreatedAt :: Time
  p_UpdatedAt :: Time
  p_DeletedAt :: "Time option"
  p_IsDeleted :: bool
  p_Name :: string
  p_Price :: float64
  p_BRVRate :: float64
  p_DurationDays :: int
  p_DurationMonths :: int
  p_IsDemo :: bool
  p_IsPublic :: bool
  p_Service :: serviceRef
  p_Items :: "mongoPackageItem list"
  p_DefaultSetOnNewOrganization :: bool
  p_OnActivationBonusPackages :: "ObjectID list"

record offerInfo =
  OfferInfo_Number :: string
  OfferInfo_Date :: "Time option"

record activePackage =
  active_ID :: string
  active_BoughtAt :: Time
  active_ExpiresAt :: Time
  active_IsAutoExtend :: bool
  active_Package :: mongoPackage

record mongoOrganization =
  o_ID :: ObjectID
  o_CreatedAt :: Time
  o_UpdatedAt :: Time
  o_DeletedAt :: "Time option"
  o_IsDeleted :: bool
  o_Name :: string
  o_Inn :: "string option"
  o_Pinfl :: "string option"
  o_Balance :: float64
  o_FiscalizationBalance :: float64
  o_ReservedFiscalizationBalance :: float64
  o_TotalPayments :: float64
  o_CreditAmount :: float64
  o_OrganizationCode :: string
  o_ReferralAgentCode :: "string option"
  o_WhiteLabel :: string
  o_OfferInfo :: offerInfo
  o_ActivePackages :: "activePackage list"
  o_ServiceDemoUses :: "serviceRef list"

record boughtItem =
  boughtItem_Name :: string
  boughtItem_Code :: int
  boughtItem_IsOverLimitAllowed :: bool
  boughtItem_OverLimitPrice :: float64
  boughtItem_IsUnlimited :: bool
  boughtItem_LimitValue :: int
  boughtItem_UsedCount :: int

record boughtPackageRef =
  bpPackage_ID :: ObjectID
  bpPackage_Name :: string
  bpPackage_Price :: float64
  bpPackage_IsDemo :: bool
  bpPackage_PackageItems :: "boughtItem list"

record mongoBoughtPackage =
  bp_ID :: ObjectID
  bp_Organization :: organizationRef
  bp_Package :: boughtPackageRef
  bp_BoughtAt :: Time
  bp_ExpiresAt :: Time
  bp_IsAutoExtend :: bool
  bp_IsDeleted :: bool
  bp_Price :: float64

record chargePackageRef =
  cPackage_ID :: ObjectID
  cPackage_Name :: string
  cPackage_Code :: int

record chargeItem =
  cItem_Name :: string
  cItem_Code :: int
  cItem_IsOverLimitAllowed :: bool
  cItem_OverLimitPrice :: float64
  cItem_IsUnlimited :: bool
  cItem_Limit :: int

text \<open>The eight optional sub-objects of a charge are \<open>*map[string]interface{}\<close>: \<open>None\<close>
  is the nil pointer of an absent or null field. \<open>c_Service_Code\<close> is the one field of
  the embedded \<open>Service\<close> struct.\<close>

record mongoCharge =
  c_ID :: ObjectID
  c_CreatedAt :: Time
  c_IsDeleted :: bool
  c_Organization :: organizationRef
  c_Price :: float64
  c_Package :: chargePackageRef
  c_Service_Code :: string
  c_Item :: chargeItem
  c_EDIReturnInvoice :: "bson_M option"
  c_EDIAttorney :: "bson_M option"
  c_RoamingInvoice :: "bson_M option"
  c_RoamingContract :: "bson_M option"
  c_RoamingWaybill :: "bson_M option"
  c_RoamingAct :: "bson_M option"
  c_RoamingVerificationAct :: "bson_M option"
  c_RoamingEmpowerment :: "bson_M option"

record mongoPayment =
  pay_ID :: ObjectID
  pay_CreatedAt :: Time
  pay_Amount :: float64
  pay_Organization :: organizationRef
  pay_Account :: accountRef
  pay_Method :: int
  pay_BankTransactionID :: "string option"

record mongoPaymeTransaction =
  pt_ID :: ObjectID
  pt_CreatedAt :: Time
  pt_PaymeTransactionID :: string
  pt_PaymeCreatedAt :: Time
  pt_SystemCompletedAt :: "Time option"
  pt_State :: int
  pt_Amount :: float64
  pt_PaymentId :: "string option"
  pt_Organization :: organizationRef
  pt_Reason :: int
  pt_SystemCanceledAt :: "Time option"

record mongoBalanceBinding =
  obb_ID :: ObjectID
  obb_CreatedAt :: Time
  obb_DeletedAt :: "Time option"
  obb_IsDeleted :: bool
  obb_PayerOrganization :: organizationRef
  obb_TargetOrganization :: organizationRef

record mongoCreditUpdate =
  cu_ID :: ObjectID
  cu_CreatedAt :: Time
  cu_Organization :: organizationRef
  cu_Amount :: float64
  cu_Account :: accountRef

record mongoAutoApplyError =
  bpae_ID :: ObjectID
  bpae_CreatedAt :: Time
  bpae_ErrorMessage :: string
  bpae_Amount :: float64
  bpae_TransactionID :: string
  bpae_PayerInn :: string
  bpae_PayerName :: string
  bpae_Description :: "string option"
  bpae_Resolved :: bool

text \<open>
  What \<open>coll.Find(ctx, bson.M{})\<close> and the cursor deliver for one collection: \<open>Find\<close> fails
  with an error, or the cursor yields documents, each of which decodes or fails to.
  The source database is that for each of the ten collections.
\<close>

type_synonym 'd collection = "error + (error + 'd) list"

record mongoDatabase =
  coll_services :: "mongoService collection"
  coll_organizations :: "mongoOrganization collection"
  coll_packages :: "mongoPackage collection"
  coll_boughtPackages :: "mongoBoughtPackage collection"
  coll_charges :: "mongoCharge collection"
  coll_payments :: "mongoPayment collection"
  coll_paymeTransactions :: "mongoPaymeTransaction collection"
  coll_organizationBalanceBindings :: "mongoBalanceBinding collection"
  coll_creditUpdates :: "mongoCreditUpdate collection"
  coll_bankPaymentsAutoApplyErrors :: "mongoAutoApplyError collection"

section \<open>The loops of a migrator\<close>

text \<open>
  The counters a migrator keeps and logs when its stream is exhausted. Each migrator
  uses the ones it declares (\<open>moved\<close> and \<open>skipped\<close> everywhere, \<open>demoUsesMoved\<close> for
  organizations, \<open>itemsMoved\<close> and \<open>bonusMoved\<close> for packages and bought packages).
\<close>

record counters =
  moved :: nat
  skipped :: nat
  demoUsesMoved :: nat
  itemsMoved :: nat
  bonusMoved :: nat

definition no_counts :: counters where
  "no_counts = \<lparr>moved = 0, skipped = 0, demoUsesMoved = 0, itemsMoved = 0, bonusMoved = 0\<rparr>"

type_synonym outcome = "(error + counters) \<times> world"

text \<open>\<open>for cur.Next(ctx) { if err := cur.Decode(&d); err != nil { return err }; body }\<close>: a
  decode failure and a failing body end the migrator with that error; \<open>continue\<close> and the
  end of the body go on with the next document.\<close>

fun cursor_loop ::
  "('d \<Rightarrow> counters \<Rightarrow> world \<Rightarrow> outcome) \<Rightarrow> (error + 'd) list \<Rightarrow> counters \<Rightarrow> world \<Rightarrow> outcome" where
  "cursor_loop body [] k w = (Inr k, w)"
| "cursor_loop body (Inl err # rest) k w = (Inl err, w)"
| "cursor_loop body (Inr d # rest) k w =
     (case body d k w of
        (Inl err, w') \<Rightarrow> (Inl err, w')
      | (Inr k', w') \<Rightarrow> cursor_loop body rest k' w')"

text \<open>\<open>for _, x := range xs { body }\<close> over an embedded array.\<close>

fun range_loop ::
  "('a \<Rightarrow> counters \<Rightarrow> world \<Rightarrow> outcome) \<Rightarrow> 'a list \<Rightarrow> counters \<Rightarrow> world \<Rightarrow> outcome" where
  "range_loop body [] k w = (Inr k, w)"
| "range_loop body (x # xs) k w =
     (case body x k w of
        (Inl err, w') \<Rightarrow> (Inl err, w')
      | (Inr k', w') \<Rightarrow> range_loop body xs k' w')"

text \<open>A migrator as the orchestrator sees it: it returns an error or nil.\<close>

type_synonym migration = "env \<Rightarrow> mongoDatabase \<Rightarrow> world \<Rightarrow> error option \<times> world"

text \<open>\<open>cur, err := coll.Find(...); if err != nil { return err }\<close>, then the loop from zeroed
  counters; the counters are logged and dropped.\<close>

definition find_and_loop ::
  "'d collection \<Rightarrow> ('d \<Rightarrow> counters \<Rightarrow> world \<Rightarrow> outcome) \<Rightarrow> world \<Rightarrow> error option \<times> world" where
  "find_and_loop coll body w =
     (case coll of
        Inl err \<Rightarrow> (Some err, w)
      | Inr cur \<Rightarrow>
          (case cursor_loop body cur no_counts w of
             (Inl err, w') \<Rightarrow> (Some err, w')
           | (Inr k, w') \<Rightarrow> (None, w')))"

section \<open>The migrators (main.go)\<close>

text \<open>
  Each migrator is its loop body, a function of one decoded document, run by
  \<open>cursor_loop\<close>. The row counts taken before and after the loop are only logged and are
  left out, as is every other log line.

  The closure \<open>func() *time.Time { if p != nil { return validateDateTime(*p) }; return nil }()\<close>
  that fills the nullable timestamp columns:
\<close>

definition validatePtr :: "Time option \<Rightarrow> Time option" where
  "validatePtr p = (case p of Some t \<Rightarrow> validateDateTime t | None \<Rightarrow> None)"

subsection \<open>migrateServices (146-193)\<close>

text \<open>The struct literal of each migrator is a function of its own, named after the row.\<close>

definition serviceRow :: "string \<Rightarrow> mongoService \<Rightarrow> Service" where
  "serviceRow serviceID s =
     \<lparr>Service_ID = serviceID,
      Service_CreatedAt = s_CreatedAt s,
      Service_Name = s_Name s,
      Service_Code = s_Code s\<rparr>"

definition migrateServices_body :: "env \<Rightarrow> mongoService \<Rightarrow> counters \<Rightarrow> world \<Rightarrow> outcome" where
  "migrateServices_body e s k w =
     (let serviceID = Hex (s_ID s) in
      case checkRecordExists e w Service_TableName serviceID of
        (found, w1) \<Rightarrow>
          if found then (Inr (k\<lparr>skipped := skipped k + 1\<rparr>), w1)
          else
            (case Create_Service e (serviceRow serviceID s) w1 of
               (Some err, w2) \<Rightarrow>
                 (Inl (Errorf ''service %s insert failed: %w'' [S serviceID] err), w2)
             | (None, w2) \<Rightarrow> (Inr (k\<lparr>moved := moved k + 1\<rparr>), w2)))"

definition migrateServices :: migration where
  "migrateServices e mdb w = find_and_loop (coll_services mdb) (migrateServices_body e) w"

subsection \<open>migrateOrganizations (195-299)\<close>

text \<open>The body of the loop over \<open>o.ServiceDemoUses\<close>; the source has it twice, word for
  word, once for an existing and once for a new organization.\<close>

definition serviceDemoUseRow :: "string \<Rightarrow> Time \<Rightarrow> serviceRef \<Rightarrow> OrganizationServiceDemoUses" where
  "serviceDemoUseRow orgID createdAt s =
     \<lparr>DemoUses_OrganizationId = orgID,
      DemoUses_ServiceCode = serviceRef_Code s,
      DemoUses_UsedAt = createdAt\<rparr>"

definition serviceDemoUse_body ::
  "env \<Rightarrow> string \<Rightarrow> Time \<Rightarrow> serviceRef \<Rightarrow> counters \<Rightarrow> world \<Rightarrow> outcome" where
  "serviceDemoUse_body e orgID createdAt s k w =
     (case CreateOnConflictDoNothing_OrganizationServiceDemoUses e
             (serviceDemoUseRow orgID createdAt s) w of
        (Some err, w') \<Rightarrow>
          (Inl (Errorf ''org %s service_demo_use %s insert failed: %w''
                  [S orgID, S (serviceRef_Code s)] err), w')
      | (None, w') \<Rightarrow> (Inr (k\<lparr>demoUsesMoved := demoUsesMoved k + 1\<rparr>), w'))"

definition organizationRow :: "string \<Rightarrow> mongoOrganization \<Rightarrow> Organization" where
  "organizationRow orgID doc =
     \<lparr>Organization_ID = orgID,
      Organization_CreatedAt = o_CreatedAt doc,
      Organization_UpdatedAt = o_UpdatedAt doc,
      Organization_DeletedAt = validatePtr (o_DeletedAt doc),
      Organization_IsDeleted = o_IsDeleted doc,
      Organization_Name = o_Name doc,
      Organization_Inn = o_Inn doc,
      Organization_Pinfl = o_Pinfl doc,
      Organization_Balance = o_Balance doc,
      Organization_FiscalizationBalance = o_FiscalizationBalance doc,
      Organization_ReservedFiscalizationBalance = o_ReservedFiscalizationBalance doc,
      Organization_TotalPayments = o_TotalPayments doc,
      Organization_CreditAmount = o_CreditAmount doc,
      Organization_OrganizationCode = o_OrganizationCode doc,
      Organization_ReferralAgentCode = o_ReferralAgentCode doc,
      Organization_WhiteLabel = o_WhiteLabel doc,
      Organization_OfferNumber = OfferInfo_Number (o_OfferInfo doc),
      Organization_OfferDate = validatePtr (OfferInfo_Date (o_OfferInfo doc))\<rparr>"

definition migrateOrganizations_body ::
  "env \<Rightarrow> mongoOrganization \<Rightarrow> counters \<Rightarrow> world \<Rightarrow> outcome" where
  "migrateOrganizations_body e doc k w =
     (let orgID = Hex (o_ID doc) in
      case checkRecordExists e w Organization_TableName orgID of
        (found, w1) \<Rightarrow>
          if found then
            range_loop (serviceDemoUse_body e orgID (o_CreatedAt doc)) (o_ServiceDemoUses doc)
              (k\<lparr>skipped := skipped k + 1\<rparr>) w1
          else
            (case Create_Organization e (organizationRow orgID doc) w1 of
               (Some err, w2) \<Rightarrow>
                 (Inl (Errorf ''organization %s insert failed: %w'' [S orgID] err), w2)
             | (None, w2) \<Rightarrow>
                 (case range_loop (serviceDemoUse_body e orgID (o_CreatedAt doc))
                         (o_ServiceDemoUses doc) k w2 of
                    (Inl err, w3) \<Rightarrow> (Inl err, w3)
                  | (Inr k3, w3) \<Rightarrow> (Inr (k3\<lparr>moved := moved k3 + 1\<rparr>), w3))))"

definition migrateOrganizations :: migration where
  "migrateOrganizations e mdb w =
     find_and_loop (coll_organizations mdb) (migrateOrganizations_body e) w"

subsection \<open>migratePackages (301-429)\<close>

text \<open>The bodies of the loops over \<open>p.Items\<close> and \<open>p.OnActivationBonusPackages\<close>, each
  twice in the source. The struct literal of a package item names eight fields:
  \<open>ID\<close> is not among them and keeps the zero value of \<open>string\<close>.\<close>

definition packageItemRow :: "string \<Rightarrow> mongoPackageItem \<Rightarrow> PackageItem" where
  "packageItemRow pkgID item =
     \<lparr>PackageItem_ID = '''',
      PackageItem_PackageId = pkgID,
      PackageItem_Name = item_Name item,
      PackageItem_Code = item_Code item,
      PackageItem_IsOverLimitAllowed = item_IsOverLimitAllowed item,
      PackageItem_OverLimitPrice = item_OverLimitPrice item,
      PackageItem_BRVRate = item_BRVRate item,
      PackageItem_IsUnlimited = item_IsUnlimited item,
      PackageItem_Limit = item_Limit item\<rparr>"

definition packageItem_body ::
  "env \<Rightarrow> string \<Rightarrow> mongoPackageItem \<Rightarrow> counters \<Rightarrow> world \<Rightarrow> outcome" where
  "packageItem_body e pkgID item k w =
     (case CreateOnConflictDoNothing_PackageItem e (packageItemRow pkgID item) w of
        (Some err, w') \<Rightarrow>
          (Inl (Errorf ''package %s item %d insert failed: %w''
                  [S pkgID, D (item_Code item)] err), w')
      | (None, w') \<Rightarrow> (Inr (k\<lparr>itemsMoved := itemsMoved k + 1\<rparr>), w'))"

definition bonusPackageRow :: "string \<Rightarrow> ObjectID \<Rightarrow> PackageActivationBonusPackage" where
  "bonusPackageRow pkgID bonus = \<lparr>Bonus_PackageId = pkgID, Bonus_BonusPackageId = Hex bonus\<rparr>"

definition bonusPackage_body ::
  "env \<Rightarrow> string \<Rightarrow> ObjectID \<Rightarrow> counters \<Rightarrow> world \<Rightarrow> outcome" where
  "bonusPackage_body e pkgID bonus k w =
     (case CreateOnConflictDoNothing_PackageActivationBonusPackage e
             (bonusPackageRow pkgID bonus) w of
        (Some err, w') \<Rightarrow>
          (Inl (Errorf ''package %s bonus %s insert failed: %w'' [S pkgID, S (Hex bonus)] err),
           w')
      | (None, w') \<Rightarrow> (Inr (k\<lparr>bonusMoved := bonusMoved k + 1\<rparr>), w'))"

text \<open>The item loop followed by the bonus loop.\<close>

definition packageChildren :: "env \<Rightarrow> string \<Rightarrow> mongoPackage \<Rightarrow> counters \<Rightarrow> world \<Rightarrow> outcome" where
  "packageChildren e pkgID p k w =
     (case range_loop (packageItem_body e pkgID) (p_Items p) k w of
        (Inl err, w') \<Rightarrow> (Inl err, w')
      | (Inr k', w') \<Rightarrow>
          range_loop (bonusPackage_body e pkgID) (p_OnActivationBonusPackages p) k' w')"

definition packageRow :: "string \<Rightarrow> mongoPackage \<Rightarrow> Package" where
  "packageRow pkgID p =
     \<lparr>Package_ID = pkgID,
      Package_CreatedAt = p_CreatedAt p,
      Package_IsDeleted = p_IsDeleted p,
      Package_Name = p_Name p,
      Package_Price = p_Price p,
      Package_BRVRate = p_BRVRate p,
      Package_DurationDays = p_DurationDays p,
      Package_DurationMonths = p_DurationMonths p,
      Package_IsDemo = p_IsDemo p,
      Package_IsPublic = p_IsPublic p,
      Package_ServiceCode = serviceRef_Code (p_Service p),
      Package_DefaultSetOnNewOrganization = p_DefaultSetOnNewOrganization p\<rparr>"

definition migratePackages_body :: "env \<Rightarrow> mongoPackage \<Rightarrow> counters \<Rightarrow> world \<Rightarrow> outcome" where
  "migratePackages_body e p k w =
     (let pkgID = Hex (p_ID p) in
      case checkRecordExists e w Package_TableName pkgID of
        (found, w1) \<Rightarrow>
          if found then packageChildren e pkgID p (k\<lparr>skipped := skipped k + 1\<rparr>) w1
          else
            (case Create_Package e (packageRow pkgID p) w1 of
               (Some err, w2) \<Rightarrow>
                 (Inl (Errorf ''package %s insert failed: %w'' [S pkgID] err), w2)
             | (None, w2) \<Rightarrow>
                 (case packageChildren e pkgID p k w2 of
                    (Inl err, w3) \<Rightarrow> (Inl err, w3)
                  | (Inr k3, w3) \<Rightarrow> (Inr (k3\<lparr>moved := moved k3 + 1\<rparr>), w3))))"

definition migratePackages :: migration where
  "migratePackages e mdb w = find_and_loop (coll_packages mdb) (migratePackages_body e) w"

subsection \<open>migrateBoughtPackages (431-536)\<close>

definition boughtPackageItemRow :: "string \<Rightarrow> string \<Rightarrow> boughtItem \<Rightarrow> BoughtPackageItem" where
  "boughtPackageItemRow boughtPkgItemID boughtPkgID item =
     \<lparr>BoughtPackageItem_ID = boughtPkgItemID,
      BoughtPackageItem_BoughtPackageId = boughtPkgID,
      BoughtPackageItem_Name = boughtItem_Name item,
      BoughtPackageItem_Code = boughtItem_Code item,
      BoughtPackageItem_IsOverLimitAllowed = boughtItem_IsOverLimitAllowed item,
      BoughtPackageItem_OverLimitPrice = boughtItem_OverLimitPrice item,
      BoughtPackageItem_IsUnlimited = boughtItem_IsUnlimited item,
      BoughtPackageItem_LimitValue = boughtItem_LimitValue item,
      BoughtPackageItem_UsedCount = boughtItem_UsedCount item\<rparr>"

definition boughtPackageItem_body ::
  "env \<Rightarrow> string \<Rightarrow> boughtItem \<Rightarrow> counters \<Rightarrow> world \<Rightarrow> outcome" where
  "boughtPackageItem_body e boughtPkgID item k w =
     (let boughtPkgItemID = Hex (NewObjectID e (ids_minted w));
          w0 = w\<lparr>ids_minted := Suc (ids_minted w)\<rparr> in
      case Create_BoughtPackageItem e
             (boughtPackageItemRow boughtPkgItemID boughtPkgID item) w0 of
        (Some err, w') \<Rightarrow>
          (Inl (Errorf ''bought-package-item %s insert failed: %w'' [S boughtPkgItemID] err),
           w')
      | (None, w') \<Rightarrow> (Inr (k\<lparr>itemsMoved := itemsMoved k + 1\<rparr>), w'))"

definition boughtPackageRow :: "string \<Rightarrow> mongoBoughtPackage \<Rightarrow> BoughtPackage" where
  "boughtPackageRow boughtPkgID bp =
     \<lparr>BoughtPackage_ID = boughtPkgID,
      BoughtPackage_OrganizationId = Hex (organizationRef_ID (bp_Organization bp)),
      BoughtPackage_PackageId = Hex (bpPackage_ID (bp_Package bp)),
      BoughtPackage_BoughtAt = bp_BoughtAt bp,
      BoughtPackage_ExpiresAt = bp_ExpiresAt bp,
      BoughtPackage_IsAutoExtend = bp_IsAutoExtend bp,
      BoughtPackage_IsActive = (\<not> bp_IsDeleted bp),
      BoughtPackage_Price = bpPackage_Price (bp_Package bp)\<rparr>"

definition migrateBoughtPackages_body ::
  "env \<Rightarrow> mongoBoughtPackage \<Rightarrow> counters \<Rightarrow> world \<Rightarrow> outcome" where
  "migrateBoughtPackages_body e bp k w =
     (let boughtPkgID = Hex (bp_ID bp) in
      case checkRecordExists e w BoughtPackage_TableName boughtPkgID of
        (found, w1) \<Rightarrow>
          if found then (Inr (k\<lparr>skipped := skipped k + 1\<rparr>), w1)
          else
            (case Create_BoughtPackage e (boughtPackageRow boughtPkgID bp) w1 of
               (Some err, w2) \<Rightarrow>
                 (Inl (Errorf ''bought-package %s insert failed: %w'' [S boughtPkgID] err), w2)
             | (None, w2) \<Rightarrow>
                 range_loop (boughtPackageItem_body e boughtPkgID)
                   (bpPackage_PackageItems (bp_Package bp)) (k\<lparr>moved := moved k + 1\<rparr>) w2))"

definition migrateBoughtPackages :: migration where
  "migrateBoughtPackages e mdb w =
     find_and_loop (coll_boughtPackages mdb) (migrateBoughtPackages_body e) w"

subsection \<open>migrateCharges (538-755)\<close>

text \<open>\<open>var objectId, number string\<close> start as the empty string and are overwritten only by a
  successful string assertion.\<close>

definition stringField :: "bson_M \<Rightarrow> string \<Rightarrow> string" where
  "stringField m key = (case assertString (m key) of Some v \<Rightarrow> v | None \<Rightarrow> '''')"

text \<open>
  Lines 602-712: the chain of \<open>if ... else if\<close> over the eight sub-objects, in the order
  of the source. The result is \<open>(chargeType, objectId, number, date1, date2)\<close> as the
  variables stand after the chain. Only the first branch tries the date as a string.
\<close>

definition resolveCharge ::
  "env \<Rightarrow> mongoCharge \<Rightarrow> int \<times> string \<times> string \<times> Time option \<times> Time option" where
  "resolveCharge e c =
     (case c_RoamingInvoice c of
        Some m \<Rightarrow>
          (3, stringField m ''_id'', stringField m ''number'',
           (case assertTime (m ''date'') of
              Some date \<Rightarrow> Some date
            | None \<Rightarrow>
                (case assertString (m ''date'') of
                   Some dateStr \<Rightarrow> time_Parse_RFC3339 e dateStr
                 | None \<Rightarrow> None)),
           None)
      | None \<Rightarrow>
     (case c_RoamingContract c of
        Some m \<Rightarrow>
          (7, stringField m ''_id'', stringField m ''number'', assertTime (m ''date''), None)
      | None \<Rightarrow>
     (case c_RoamingWaybill c of
        Some m \<Rightarrow>
          (10, stringField m ''_id'', stringField m ''number'', assertTime (m ''date''), None)
      | None \<Rightarrow>
     (case c_RoamingAct c of
        Some m \<Rightarrow>
          (9, stringField m ''_id'', stringField m ''number'', assertTime (m ''date''), None)
      | None \<Rightarrow>
     (case c_RoamingVerificationAct c of
        Some m \<Rightarrow>
          (8, stringField m ''_id'', stringField m ''number'', assertTime (m ''date''), None)
      | None \<Rightarrow>
     (case c_RoamingEmpowerment c of
        Some m \<Rightarrow>
          (11, stringField m ''_id'', stringField m ''number'',
           assertTime (m ''start_date''), assertTime (m ''end_date''))
      | None \<Rightarrow>
     (case c_EDIReturnInvoice c of
        Some m \<Rightarrow>
          (2, stringField m ''_id'', stringField m ''number'', assertTime (m ''date''), None)
      | None \<Rightarrow>
     (case c_EDIAttorney c of
        Some m \<Rightarrow>
          (4, stringField m ''_id'', stringField m ''number'',
           assertTime (m ''start_date''), assertTime (m ''end_date''))
      | None \<Rightarrow> (0, '''', '''', None, None)))))))))"

text \<open>Lines 714-743: the fallback of \<open>date1\<close> to \<open>&c.CreatedAt\<close> and the struct literal, whose
  two date columns pass through the sanitizer.\<close>

definition chargeRow :: "env \<Rightarrow> mongoCharge \<Rightarrow> Charge" where
  "chargeRow e c =
     (case resolveCharge e c of
        (chargeType, objectId, number, date1, date2) \<Rightarrow>
          (let date1' = (if date1 = None then Some (c_CreatedAt c) else date1) in
           \<lparr>Charge_ID = Hex (c_ID c),
            Charge_CreatedAt = c_CreatedAt c,
            Charge_IsDeleted = c_IsDeleted c,
            Charge_OrganizationId = Hex (organizationRef_ID (c_Organization c)),
            Charge_Price = c_Price c,
            Charge_Type = chargeType,
            Charge_BoughtPackageID = Hex (cPackage_ID (c_Package c)),
            Charge_BoughtPackageItemCode = cItem_Code (c_Item c),
            Charge_ServiceCode = c_Service_Code c,
            Charge_ObjectId = objectId,
            Charge_Number = number,
            Charge_Date1 = validatePtr date1',
            Charge_Date2 = validatePtr date2\<rparr>))"

definition migrateCharges_body :: "env \<Rightarrow> mongoCharge \<Rightarrow> counters \<Rightarrow> world \<Rightarrow> outcome" where
  "migrateCharges_body e c k w =
     (let chargeID = Hex (c_ID c) in
      case checkRecordExists e w Charge_TableName chargeID of
        (found, w1) \<Rightarrow>
          if found then (Inr (k\<lparr>skipped := skipped k + 1\<rparr>), w1)
          else
            (case Create_Charge e (chargeRow e c) w1 of
               (Some err, w2) \<Rightarrow>
                 (Inl (Errorf ''charge %s insert failed: %w'' [S chargeID] err), w2)
             | (None, w2) \<Rightarrow> (Inr (k\<lparr>moved := moved k + 1\<rparr>), w2)))"

definition migrateCharges :: migration where
  "migrateCharges e mdb w = find_and_loop (coll_charges mdb) (migrateCharges_body e) w"

subsection \<open>migratePayments (757-823)\<close>

definition paymentRow :: "string \<Rightarrow> mongoPayment \<Rightarrow> Payment" where
  "paymentRow paymentID p =
     \<lparr>Payment_ID = paymentID,
      Payment_CreatedAt = pay_CreatedAt p,
      Payment_Amount = pay_Amount p,
      Payment_OrganizationID = Hex (organizationRef_ID (pay_Organization p)),
      Payment_AccountID = Hex (accountRef_ID (pay_Account p)),
      Payment_Method = pay_Method p,
      Payment_BankTransactionID = pay_BankTransactionID p\<rparr>"

definition migratePayments_body :: "env \<Rightarrow> mongoPayment \<Rightarrow> counters \<Rightarrow> world \<Rightarrow> outcome" where
  "migratePayments_body e p k w =
     (let paymentID = Hex (pay_ID p) in
      case checkRecordExists e w Payment_TableName paymentID of
        (found, w1) \<Rightarrow>
          if found then (Inr (k\<lparr>skipped := skipped k + 1\<rparr>), w1)
          else
            (case Create_Payment e (paymentRow paymentID p) w1 of
               (Some err, w2) \<Rightarrow>
                 (Inl (Errorf ''payment %s insert failed: %w'' [S paymentID] err), w2)
             | (None, w2) \<Rightarrow> (Inr (k\<lparr>moved := moved k + 1\<rparr>), w2)))"

definition migratePayments :: migration where
  "migratePayments e mdb w = find_and_loop (coll_payments mdb) (migratePayments_body e) w"

subsection \<open>migratePaymeTransactions (825-919)\<close>

text \<open>Lines 871-883: the pointer \<open>validatedPaymeCreatedAt\<close> as it stands before the struct
  literal; \<open>time.Now()\<close> is read only when both source values were rejected.\<close>

definition validatedPaymeCreatedAt ::
  "env \<Rightarrow> mongoPaymeTransaction \<Rightarrow> world \<Rightarrow> Time option \<times> world" where
  "validatedPaymeCreatedAt e pt w =
     (let validated = validateDateTime (pt_PaymeCreatedAt pt) in
      if validated = None then
        (let validatedCreatedAt = validateDateTime (pt_CreatedAt pt) in
         if validatedCreatedAt \<noteq> None then (validatedCreatedAt, w)
         else (Some (time_Now e (clock_readings w)),
               w\<lparr>clock_readings := Suc (clock_readings w)\<rparr>))
      else (validated, w))"

text \<open>Line 889 dereferences the pointer; a nil pointer there would be a panic.\<close>

definition paymeTransactionRow ::
  "string \<Rightarrow> mongoPaymeTransaction \<Rightarrow> Time \<Rightarrow> PaymeTransaction" where
  "paymeTransactionRow paymeTransactionID pt paymeCreatedAt =
     \<lparr>PaymeTransaction_ID = paymeTransactionID,
      PaymeTransaction_CreatedAt = pt_CreatedAt pt,
      PaymeTransaction_PaymeTransactionID = pt_PaymeTransactionID pt,
      PaymeTransaction_PaymeCreatedAt = paymeCreatedAt,
      PaymeTransaction_SystemCompletedAt = validatePtr (pt_SystemCompletedAt pt),
      PaymeTransaction_State = pt_State pt,
      PaymeTransaction_Amount = pt_Amount pt,
      PaymeTransaction_PaymentId = pt_PaymentId pt,
      PaymeTransaction_OrganizationID = Hex (organizationRef_ID (pt_Organization pt)),
      PaymeTransaction_Reason = pt_Reason pt,
      PaymeTransaction_SystemCanceledAt = validatePtr (pt_SystemCanceledAt pt)\<rparr>"

definition migratePaymeTransactions_body ::
  "env \<Rightarrow> mongoPaymeTransaction \<Rightarrow> counters \<Rightarrow> world \<Rightarrow> outcome" where
  "migratePaymeTransactions_body e pt k w =
     (let paymeTransactionID = Hex (pt_ID pt) in
      case checkRecordExists e w PaymeTransaction_TableName paymeTransactionID of
        (found, w1) \<Rightarrow>
          if found then (Inr (k\<lparr>skipped := skipped k + 1\<rparr>), w1)
          else
            (case validatedPaymeCreatedAt e pt w1 of
               (None, w2) \<Rightarrow> (Inl NilDereference, w2)
             | (Some paymeCreatedAt, w2) \<Rightarrow>
                 (case Create_PaymeTransaction e
                         (paymeTransactionRow paymeTransactionID pt paymeCreatedAt) w2 of
                    (Some err, w3) \<Rightarrow>
                      (Inl (Errorf ''payme-transaction %s insert failed: %w''
                              [S paymeTransactionID] err), w3)
                  | (None, w3) \<Rightarrow> (Inr (k\<lparr>moved := moved k + 1\<rparr>), w3))))"

definition migratePaymeTransactions :: migration where
  "migratePaymeTransactions e mdb w =
     find_and_loop (coll_paymeTransactions mdb) (migratePaymeTransactions_body e) w"

subsection \<open>migrateOrganizationBalanceBindings (921-992)\<close>

definition balanceBindingRow :: "string \<Rightarrow> mongoBalanceBinding \<Rightarrow> OrganizationBalanceBinding" where
  "balanceBindingRow orgBalanceBindingID obb =
     \<lparr>Binding_ID = orgBalanceBindingID,
      Binding_CreatedAt = obb_CreatedAt obb,
      Binding_DeletedAt = validatePtr (obb_DeletedAt obb),
      Binding_IsDeleted = obb_IsDeleted obb,
      Binding_PayerOrganizationID = Hex (organizationRef_ID (obb_PayerOrganization obb)),
      Binding_TargetOrganizationID = Hex (organizationRef_ID (obb_TargetOrganization obb)),
      Binding_PayerOrganizationName = organizationRef_Name (obb_PayerOrganization obb),
      Binding_TargetOrganizationName = organizationRef_Name (obb_TargetOrganization obb)\<rparr>"

definition migrateOrganizationBalanceBindings_body ::
  "env \<Rightarrow> mongoBalanceBinding \<Rightarrow> counters \<Rightarrow> world \<Rightarrow> outcome" where
  "migrateOrganizationBalanceBindings_body e obb k w =
     (let orgBalanceBindingID = Hex (obb_ID obb) in
      case checkRecordExists e w OrganizationBalanceBinding_TableName orgBalanceBindingID of
        (found, w1) \<Rightarrow>
          if found then (Inr (k\<lparr>skipped := skipped k + 1\<rparr>), w1)
          else
            (case Create_OrganizationBalanceBinding e
                    (balanceBindingRow orgBalanceBindingID obb) w1 of
               (Some err, w2) \<Rightarrow>
                 (Inl (Errorf ''organization-balance-binding %s insert failed: %w''
                         [S orgBalanceBindingID] err), w2)
             | (None, w2) \<Rightarrow> (Inr (k\<lparr>moved := moved k + 1\<rparr>), w2)))"

definition migrateOrganizationBalanceBindings :: migration where
  "migrateOrganizationBalanceBindings e mdb w =
     find_and_loop (coll_organizationBalanceBindings mdb)
       (migrateOrganizationBalanceBindings_body e) w"

subsection \<open>migrateCreditUpdates (994-1056)\<close>

definition creditUpdateRow :: "string \<Rightarrow> mongoCreditUpdate \<Rightarrow> CreditUpdates" where
  "creditUpdateRow creditUpdateID cu =
     \<lparr>CreditUpdates_ID = creditUpdateID,
      CreditUpdates_CreatedAt = cu_CreatedAt cu,
      CreditUpdates_OrganizationID = Hex (organizationRef_ID (cu_Organization cu)),
      CreditUpdates_Amount = cu_Amount cu,
      CreditUpdates_AccountID = Hex (accountRef_ID (cu_Account cu))\<rparr>"

definition migrateCreditUpdates_body ::
  "env \<Rightarrow> mongoCreditUpdate \<Rightarrow> counters \<Rightarrow> world \<Rightarrow> outcome" where
  "migrateCreditUpdates_body e cu k w =
     (let creditUpdateID = Hex (cu_ID cu) in
      case checkRecordExists e w CreditUpdates_TableName creditUpdateID of
        (found, w1) \<Rightarrow>
          if found then (Inr (k\<lparr>skipped := skipped k + 1\<rparr>), w1)
          else
            (case Create_CreditUpdates e (creditUpdateRow creditUpdateID cu) w1 of
               (Some err, w2) \<Rightarrow>
                 (Inl (Errorf ''credit-update %s insert failed: %w'' [S creditUpdateID] err), w2)
             | (None, w2) \<Rightarrow> (Inr (k\<lparr>moved := moved k + 1\<rparr>), w2)))"

definition migrateCreditUpdates :: migration where
  "migrateCreditUpdates e mdb w =
     find_and_loop (coll_creditUpdates mdb) (migrateCreditUpdates_body e) w"

subsection \<open>migrateBankPaymentAutoApplyErrors (1058-1120)\<close>

definition autoApplyErrorRow :: "string \<Rightarrow> mongoAutoApplyError \<Rightarrow> BankPaymentAutoApplyError" where
  "autoApplyErrorRow bankPaymentAutoApplyErrorID bpae =
     \<lparr>AutoApplyError_ID = bankPaymentAutoApplyErrorID,
      AutoApplyError_CreatedAt = bpae_CreatedAt bpae,
      AutoApplyError_ErrorMessage = bpae_ErrorMessage bpae,
      AutoApplyError_Amount = bpae_Amount bpae,
      AutoApplyError_TransactionID = bpae_TransactionID bpae,
      AutoApplyError_PayerInn = bpae_PayerInn bpae,
      AutoApplyError_PayerName = bpae_PayerName bpae,
      AutoApplyError_Description = bpae_Description bpae,
      AutoApplyError_Resolved = bpae_Resolved bpae\<rparr>"

definition migrateBankPaymentAutoApplyErrors_body ::
  "env \<Rightarrow> mongoAutoApplyError \<Rightarrow> counters \<Rightarrow> world \<Rightarrow> outcome" where
  "migrateBankPaymentAutoApplyErrors_body e bpae k w =
     (let bankPaymentAutoApplyErrorID = Hex (bpae_ID bpae) in
      case checkRecordExists e w BankPaymentAutoApplyError_TableName
             bankPaymentAutoApplyErrorID of
        (found, w1) \<Rightarrow>
          if found then (Inr (k\<lparr>skipped := skipped k + 1\<rparr>), w1)
          else
            (case Create_BankPaymentAutoApplyError e
                    (autoApplyErrorRow bankPaymentAutoApplyErrorID bpae) w1 of
               (Some err, w2) \<Rightarrow>
                 (Inl (Errorf ''bank-payment-auto-apply-error %s insert failed: %w''
                         [S bankPaymentAutoApplyErrorID] err), w2)
             | (None, w2) \<Rightarrow> (Inr (k\<lparr>moved := moved k + 1\<rparr>), w2)))"

definition migrateBankPaymentAutoApplyErrors :: migration where
  "migrateBankPaymentAutoApplyErrors e mdb w =
     find_and_loop (coll_bankPaymentsAutoApplyErrors mdb)
       (migrateBankPaymentAutoApplyErrors_body e) w"

section \<open>The orchestrator (main.go, 80-107)\<close>

text \<open>The slice \<open>migrations\<close> of \<open>migrateAll\<close>: names and functions in the order written.\<close>

definition migrations :: "(string \<times> migration) list" where
  "migrations =
     [(''services'', migrateServices),
      (''organizations'', migrateOrganizations),
      (''packages'', migratePackages),
      (''bought-packages'', migrateBoughtPackages),
      (''charges'', migrateCharges),
      (''payments'', migratePayments),
      (''payme-transactions'', migratePaymeTransactions),
      (''organization-balance-bindings'', migrateOrganizationBalanceBindings),
      (''credit-updates'', migrateCreditUpdates),
      (''bank-payments-auto-apply-errors'', migrateBankPaymentAutoApplyErrors)]"

text \<open>The \<open>for _, migration := range migrations\<close> loop: the first error is wrapped with the
  step's name and returned at once.\<close>

fun run_migrations ::
  "(string \<times> migration) list \<Rightarrow> env \<Rightarrow> mongoDatabase \<Rightarrow> world \<Rightarrow> error option \<times> world" where
  "run_migrations [] e mdb w = (None, w)"
| "run_migrations ((name, fn) # rest) e mdb w =
     (case fn e mdb w of
        (Some err, w') \<Rightarrow> (Some (Errorf ''migration %s failed: %w'' [S name] err), w')
      | (None, w') \<Rightarrow> run_migrations rest e mdb w')"

definition migrateAll :: migration where
  "migrateAll e mdb w = run_migrations migrations e mdb w"

section \<open>Schema preparation (models.go, 307-333) and the program\<close>

text \<open>The slice \<open>tables\<close> of \<open>Migrate\<close>, by table name.\<close>

definition Migrate_tables :: "string list" where
  "Migrate_tables =
     [Service_TableName, Organization_TableName, OrganizationServiceDemoUses_TableName,
      Package_TableName, PackageItem_TableName, PackageActivationBonusPackage_TableName,
      BoughtPackage_TableName, BoughtPackageItem_TableName, Charge_TableName,
      Payment_TableName, PaymeTransaction_TableName, OrganizationBalanceBinding_TableName,
      CreditUpdates_TableName, BankPaymentAutoApplyError_TableName]"

text \<open>A dropped table loses its rows. A table that does not exist is not distinguished
  from an empty one: \<open>AutoMigrate\<close> creates every missing table before any migrator runs.\<close>

definition without_rows :: "string \<Rightarrow> world \<Rightarrow> world" where
  "without_rows table w =
     (if table = Service_TableName then w\<lparr>services := []\<rparr>
      else if table = Organization_TableName then w\<lparr>organizations := []\<rparr>
      else if table = OrganizationServiceDemoUses_TableName
        then w\<lparr>organization_service_demo_uses := []\<rparr>
      else if table = Package_TableName then w\<lparr>packages := []\<rparr>
      else if table = PackageItem_TableName then w\<lparr>package_items := []\<rparr>
      else if table = PackageActivationBonusPackage_TableName
        then w\<lparr>package_activation_bonus_packages := []\<rparr>
      else if table = BoughtPackage_TableName then w\<lparr>bought_packages := []\<rparr>
      else if table = BoughtPackageItem_TableName then w\<lparr>bought_package_items := []\<rparr>
      else if table = Charge_TableName then w\<lparr>charges := []\<rparr>
      else if table = Payment_TableName then w\<lparr>payments := []\<rparr>
      else if table = PaymeTransaction_TableName then w\<lparr>payme_transactions := []\<rparr>
      else if table = OrganizationBalanceBinding_TableName
        then w\<lparr>organization_balance_bindings := []\<rparr>
      else if table = CreditUpdates_TableName then w\<lparr>credit_updates := []\<rparr>
      else if table = BankPaymentAutoApplyError_TableName
        then w\<lparr>bank_payments_auto_apply_errors := []\<rparr>
      else w)"

definition DropTable :: "env \<Rightarrow> string \<Rightarrow> world \<Rightarrow> error option \<times> world" where
  "DropTable e table w =
     (if faulty e w then (Some (StoreFault table), sent w)
      else (None, sent (without_rows table w)))"

text \<open>\<open>for _, table := range tables { if err := DropTable(table); err != nil { } }\<close>: the
  error of a drop is looked at and ignored.\<close>

fun drop_tables :: "env \<Rightarrow> string list \<Rightarrow> world \<Rightarrow> world" where
  "drop_tables e [] w = w"
| "drop_tables e (table # rest) w =
     (case DropTable e table w of (err, w') \<Rightarrow> drop_tables e rest w')"

text \<open>\<open>AutoMigrate\<close> creates or alters the tables; it changes no row.\<close>

definition AutoMigrate :: "env \<Rightarrow> world \<Rightarrow> error option \<times> world" where
  "AutoMigrate e w =
     (if faulty e w then (Some (StoreFault ''AutoMigrate''), sent w) else (None, sent w))"

definition Migrate :: "env \<Rightarrow> world \<Rightarrow> error option \<times> world" where
  "Migrate e w = AutoMigrate e (drop_tables e Migrate_tables w)"

text \<open>
  \<open>main\<close> (main.go, 59-70) from the two connected handles on: the schema is prepared,
  then the data is migrated; \<open>log.Fatalf\<close> ends the process with the message format and
  the error. Flag parsing and connecting are not part of the model.
\<close>

definition main :: "env \<Rightarrow> mongoDatabase \<Rightarrow> world \<Rightarrow> (string \<times> error) option \<times> world" where
  "main e mdb w =
     (case Migrate e w of
        (Some err, w1) \<Rightarrow> (Some (''Failed to run migrations: %v'', err), w1)
      | (None, w1) \<Rightarrow>
          (case migrateAll e mdb w1 of
             (Some err, w2) \<Rightarrow> (Some (''Migration failed: %v'', err), w2)
           | (None, w2) \<Rightarrow> (None, w2)))"

section \<open>The discriminant table as the specification words it\<close>

text \<open>
  The specification describes the classification of a charge as a table: eight kinds of
  sub-object in a fixed priority order, a code per kind, and the first present
  sub-object wins. These definitions follow that wording; the theorems below compare
  them with \<open>resolveCharge\<close> and \<open>chargeRow\<close>, which follow the source.
\<close>

datatype subobject =
    RoamingInvoice
  | RoamingContract
  | RoamingWaybill
  | RoamingAct
  | RoamingVerificationAct
  | RoamingEmpowerment
  | ReturnInvoice
  | Attorney

definition priority :: "subobject list" where
  "priority =
     [RoamingInvoice, RoamingContract, RoamingWaybill, RoamingAct, RoamingVerificationAct,
      RoamingEmpowerment, ReturnInvoice, Attorney]"

fun type_code :: "subobject \<Rightarrow> int" where
  "type_code RoamingInvoice = 3"
| "type_code RoamingContract = 7"
| "type_code RoamingWaybill = 10"
| "type_code RoamingAct = 9"
| "type_code RoamingVerificationAct = 8"
| "type_code RoamingEmpowerment = 11"
| "type_code ReturnInvoice = 2"
| "type_code Attorney = 4"

fun sub_object :: "mongoCharge \<Rightarrow> subobject \<Rightarrow> bson_M option" where
  "sub_object c RoamingInvoice = c_RoamingInvoice c"
| "sub_object c RoamingContract = c_RoamingContract c"
| "sub_object c RoamingWaybill = c_RoamingWaybill c"
| "sub_object c RoamingAct = c_RoamingAct c"
| "sub_object c RoamingVerificationAct = c_RoamingVerificationAct c"
| "sub_object c RoamingEmpowerment = c_RoamingEmpowerment c"
| "sub_object c ReturnInvoice = c_EDIReturnInvoice c"
| "sub_object c Attorney = c_EDIAttorney c"

fun first_present :: "mongoCharge \<Rightarrow> subobject list \<Rightarrow> (subobject \<times> bson_M) option" where
  "first_present c [] = None"
| "first_present c (kind # kinds) =
     (case sub_object c kind of
        Some m \<Rightarrow> Some (kind, m)
      | None \<Rightarrow> first_present c kinds)"

definition winner :: "mongoCharge \<Rightarrow> (subobject \<times> bson_M) option" where
  "winner c = first_present c priority"

text \<open>The field of a sub-object that feeds \<open>date1\<close>, and the one that feeds \<open>date2\<close>:
  \<open>start_date\<close> and \<open>end_date\<close> for the two kinds that model an interval, \<open>date\<close> and
  nothing for the others.\<close>

definition interval_kind :: "subobject \<Rightarrow> bool" where
  "interval_kind kind = (kind = RoamingEmpowerment \<or> kind = Attorney)"

definition date1_field :: "subobject \<Rightarrow> string" where
  "date1_field kind = (if interval_kind kind then ''start_date'' else ''date'')"

text \<open>A date field read in both accepted forms: a native timestamp, or a string that
  parses as RFC 3339.\<close>

definition timestamp_or_RFC3339 :: "env \<Rightarrow> bson_value option \<Rightarrow> Time option" where
  "timestamp_or_RFC3339 e v =
     (case assertTime v of
        Some t \<Rightarrow> Some t
      | None \<Rightarrow>
          (case assertString v of
             Some str \<Rightarrow> time_Parse_RFC3339 e str
           | None \<Rightarrow> None))"

text \<open>What the source reads from the winning sub-object for \<open>date1\<close> and \<open>date2\<close>: both
  forms for the date of a roaming invoice, the native timestamp alone everywhere else.\<close>

definition winner_date1 :: "env \<Rightarrow> subobject \<Rightarrow> bson_M \<Rightarrow> Time option" where
  "winner_date1 e kind m =
     (if kind = RoamingInvoice then timestamp_or_RFC3339 e (m ''date'')
      else assertTime (m (date1_field kind)))"

definition winner_date2 :: "subobject \<Rightarrow> bson_M \<Rightarrow> Time option" where
  "winner_date2 kind m = (if interval_kind kind then assertTime (m ''end_date'') else None)"

section \<open>Zero values and sample data\<close>

text \<open>The zero values a missing field decodes to, and the empty destination.\<close>

definition NilObjectID :: ObjectID where
  "NilObjectID = [0, 0, 0, 0, 0, 0, 0, 0, 0, 0, 0, 0]"

definition zero_organizationRef :: organizationRef where
  "zero_organizationRef =
     \<lparr>organizationRef_ID = NilObjectID, organizationRef_Name = '''', organizationRef_Inn = ''''\<rparr>"

definition zero_accountRef :: accountRef where
  "zero_accountRef =
     \<lparr>accountRef_ID = NilObjectID, accountRef_Name = '''', accountRef_Username = ''''\<rparr>"

definition zero_serviceRef :: serviceRef where
  "zero_serviceRef =
     \<lparr>serviceRef_ID = NilObjectID, serviceRef_Name = '''', serviceRef_Code = ''''\<rparr>"

definition zero_mongoService :: mongoService where
  "zero_mongoService =
     \<lparr>s_ID = NilObjectID, s_CreatedAt = zeroTime, s_Name = '''', s_Code = ''''\<rparr>"

definition zero_mongoOrganization :: mongoOrganization where
  "zero_mongoOrganization =
     \<lparr>o_ID = NilObjectID, o_CreatedAt = zeroTime, o_UpdatedAt = zeroTime, o_DeletedAt = None,
      o_IsDeleted = False, o_Name = '''', o_Inn = None, o_Pinfl = None, o_Balance = 0,
      o_FiscalizationBalance = 0, o_ReservedFiscalizationBalance = 0, o_TotalPayments = 0,
      o_CreditAmount = 0, o_OrganizationCode = '''', o_ReferralAgentCode = None,
      o_WhiteLabel = '''', o_OfferInfo = \<lparr>OfferInfo_Number = '''', OfferInfo_Date = None\<rparr>,
      o_ActivePackages = [], o_ServiceDemoUses = []\<rparr>"

definition zero_mongoPackage :: mongoPackage where
  "zero_mongoPackage =
     \<lparr>p_ID = NilObjectID, p_CreatedAt = zeroTime, p_UpdatedAt = zeroTime, p_DeletedAt = None,
      p_IsDeleted = False, p_Name = '''', p_Price = 0, p_BRVRate = 0, p_DurationDays = 0,
      p_DurationMonths = 0, p_IsDemo = False, p_IsPublic = False, p_Service = zero_serviceRef,
      p_Items = [], p_DefaultSetOnNewOrganization = False, p_OnActivationBonusPackages = []\<rparr>"

definition zero_mongoPackageItem :: mongoPackageItem where
  "zero_mongoPackageItem =
     \<lparr>item_Name = '''', item_Code = 0, item_IsOverLimitAllowed = False,
      item_OverLimitPrice = 0, item_BRVRate = 0, item_IsUnlimited = False, item_Limit = 0\<rparr>"

definition zero_mongoBoughtPackage :: mongoBoughtPackage where
  "zero_mongoBoughtPackage =
     \<lparr>bp_ID = NilObjectID, bp_Organization = zero_organizationRef,
      bp_Package = \<lparr>bpPackage_ID = NilObjectID, bpPackage_Name = '''', bpPackage_Price = 0,
                    bpPackage_IsDemo = False, bpPackage_PackageItems = []\<rparr>,
      bp_BoughtAt = zeroTime, bp_ExpiresAt = zeroTime, bp_IsAutoExtend = False,
      bp_IsDeleted = False, bp_Price = 0\<rparr>"

definition zero_mongoCharge :: mongoCharge where
  "zero_mongoCharge =
     \<lparr>c_ID = NilObjectID, c_CreatedAt = zeroTime, c_IsDeleted = False,
      c_Organization = zero_organizationRef, c_Price = 0,
      c_Package = \<lparr>cPackage_ID = NilObjectID, cPackage_Name = '''', cPackage_Code = 0\<rparr>,
      c_Service_Code = '''',
      c_Item = \<lparr>cItem_Name = '''', cItem_Code = 0, cItem_IsOverLimitAllowed = False,
                cItem_OverLimitPrice = 0, cItem_IsUnlimited = False, cItem_Limit = 0\<rparr>,
      c_EDIReturnInvoice = None, c_EDIAttorney = None, c_RoamingInvoice = None,
      c_RoamingContract = None, c_RoamingWaybill = None, c_RoamingAct = None,
      c_RoamingVerificationAct = None, c_RoamingEmpowerment = None\<rparr>"

definition zero_mongoPayment :: mongoPayment where
  "zero_mongoPayment =
     \<lparr>pay_ID = NilObjectID, pay_CreatedAt = zeroTime, pay_Amount = 0,
      pay_Organization = zero_organizationRef, pay_Account = zero_accountRef, pay_Method = 0,
      pay_BankTransactionID = None\<rparr>"

definition zero_mongoPaymeTransaction :: mongoPaymeTransaction where
  "zero_mongoPaymeTransaction =
     \<lparr>pt_ID = NilObjectID, pt_CreatedAt = zeroTime, pt_PaymeTransactionID = '''',
      pt_PaymeCreatedAt = zeroTime, pt_SystemCompletedAt = None, pt_State = 0, pt_Amount = 0,
      pt_PaymentId = None, pt_Organization = zero_organizationRef, pt_Reason = 0,
      pt_SystemCanceledAt = None\<rparr>"

definition zero_mongoBalanceBinding :: mongoBalanceBinding where
  "zero_mongoBalanceBinding =
     \<lparr>obb_ID = NilObjectID, obb_CreatedAt = zeroTime, obb_DeletedAt = None,
      obb_IsDeleted = False, obb_PayerOrganization = zero_organizationRef,
      obb_TargetOrganization = zero_organizationRef\<rparr>"

definition zero_mongoCreditUpdate :: mongoCreditUpdate where
  "zero_mongoCreditUpdate =
     \<lparr>cu_ID = NilObjectID, cu_CreatedAt = zeroTime, cu_Organization = zero_organizationRef,
      cu_Amount = 0, cu_Account = zero_accountRef\<rparr>"

definition zero_mongoAutoApplyError :: mongoAutoApplyError where
  "zero_mongoAutoApplyError =
     \<lparr>bpae_ID = NilObjectID, bpae_CreatedAt = zeroTime, bpae_ErrorMessage = '''',
      bpae_Amount = 0, bpae_TransactionID = '''', bpae_PayerInn = '''', bpae_PayerName = '''',
      bpae_Description = None, bpae_Resolved = False\<rparr>"

definition empty_world :: world where
  "empty_world =
     \<lparr>services = [], organizations = [], organization_service_demo_uses = [], packages = [],
      package_items = [], package_activation_bonus_packages = [], bought_packages = [],
      bought_package_items = [], charges = [], payments = [], payme_transactions = [],
      organization_balance_bindings = [], credit_updates = [],
      bank_payments_auto_apply_errors = [], statements = 0, clock_readings = 0,
      ids_minted = 0\<rparr>"

definition empty_source :: mongoDatabase where
  "empty_source =
     \<lparr>coll_services = Inr [], coll_organizations = Inr [], coll_packages = Inr [],
      coll_boughtPackages = Inr [], coll_charges = Inr [], coll_payments = Inr [],
      coll_paymeTransactions = Inr [], coll_organizationBalanceBindings = Inr [],
      coll_creditUpdates = Inr [], coll_bankPaymentsAutoApplyErrors = Inr []\<rparr>"

text \<open>Sample identifiers and timestamps: noon of 15 June 2023 and midnight of 1 March 2024,
  both UTC.\<close>

definition oid :: "8 word \<Rightarrow> ObjectID" where
  "oid b = [b, 0, 0, 0, 0, 0, 0, 0, 0, 0, 0, 0]"

definition t2023 :: Time where
  "t2023 = Unix 1686830400"

definition t2024 :: Time where
  "t2024 = Unix 1709251200"

text \<open>A healthy environment: no store statement fails, the clock reads \<open>t2024\<close>, the n-th
  fresh identifier starts with the byte n, and the parser knows one string.\<close>

definition healthy :: env where
  "healthy =
     \<lparr>store_fault = (\<lambda>n. False),
      time_Now = (\<lambda>n. t2024),
      NewObjectID = (\<lambda>n. oid (of_nat n)),
      time_Parse_RFC3339 = (\<lambda>str. if str = ''2023-06-15T12:00:00Z'' then Some t2023 else None)\<rparr>"

text \<open>The same environment, except that the very first store statement fails.\<close>

definition first_statement_fails :: env where
  "first_statement_fails = healthy\<lparr>store_fault := (\<lambda>n. n = 0)\<rparr>"

text \<open>Sample charges: a roaming invoice without any field on charges of 2023 and 2024, a
  charge with both a roaming invoice and an attorney, a sub-object whose date is an
  RFC 3339 string under a roaming contract and under a roaming invoice, and an
  uncategorized charge created in 2023.\<close>

definition invoice_without_date_2023 :: mongoCharge where
  "invoice_without_date_2023 =
     zero_mongoCharge\<lparr>c_CreatedAt := t2023, c_RoamingInvoice := Some Map.empty\<rparr>"

definition invoice_without_date_2024 :: mongoCharge where
  "invoice_without_date_2024 =
     zero_mongoCharge\<lparr>c_CreatedAt := t2024, c_RoamingInvoice := Some Map.empty\<rparr>"

definition invoice_and_attorney :: mongoCharge where
  "invoice_and_attorney =
     zero_mongoCharge
       \<lparr>c_CreatedAt := t2024,
        c_RoamingInvoice :=
          Some [''_id'' \<mapsto> VString ''inv-1'', ''number'' \<mapsto> VString ''42'',
                ''date'' \<mapsto> VTime t2023],
        c_EDIAttorney :=
          Some [''_id'' \<mapsto> VString ''att-9'', ''number'' \<mapsto> VString ''7'']\<rparr>"

definition string_date :: bson_M where
  "string_date = [''date'' \<mapsto> VString ''2023-06-15T12:00:00Z'']"

definition contract_with_string_date :: mongoCharge where
  "contract_with_string_date =
     zero_mongoCharge\<lparr>c_CreatedAt := t2024, c_RoamingContract := Some string_date\<rparr>"

definition invoice_with_string_date :: mongoCharge where
  "invoice_with_string_date =
     zero_mongoCharge\<lparr>c_CreatedAt := t2024, c_RoamingInvoice := Some string_date\<rparr>"

definition uncategorized_2023 :: mongoCharge where
  "uncategorized_2023 = zero_mongoCharge\<lparr>c_CreatedAt := t2023\<rparr>"

text \<open>One sample document per collection, with identifiers 1 to 10 and two more services.\<close>

definition service_1 :: mongoService where
  "service_1 =
     zero_mongoService\<lparr>s_ID := oid 1, s_CreatedAt := t2023, s_Name := ''Invoices'',
                        s_Code := ''edi''\<rparr>"

definition service_11 :: mongoService where
  "service_11 =
     zero_mongoService\<lparr>s_ID := oid 11, s_CreatedAt := t2023, s_Name := ''Roaming'',
                        s_Code := ''roaming''\<rparr>"

definition demo_use_edi :: serviceRef where
  "demo_use_edi = zero_serviceRef\<lparr>serviceRef_Name := ''Invoices'', serviceRef_Code := ''edi''\<rparr>"

definition demo_use_roaming :: serviceRef where
  "demo_use_roaming =
     zero_serviceRef\<lparr>serviceRef_Name := ''Roaming'', serviceRef_Code := ''roaming''\<rparr>"

definition organization_2 :: mongoOrganization where
  "organization_2 =
     zero_mongoOrganization\<lparr>o_ID := oid 2, o_CreatedAt := t2023, o_Name := ''Acme'',
                             o_ServiceDemoUses := [demo_use_edi, demo_use_roaming]\<rparr>"

definition item_a :: mongoPackageItem where
  "item_a = zero_mongoPackageItem\<lparr>item_Name := ''a'', item_Code := 1\<rparr>"

definition item_b :: mongoPackageItem where
  "item_b = zero_mongoPackageItem\<lparr>item_Name := ''b'', item_Code := 2\<rparr>"

definition item_c :: mongoPackageItem where
  "item_c = zero_mongoPackageItem\<lparr>item_Name := ''c'', item_Code := 3\<rparr>"

definition package_3 :: mongoPackage where
  "package_3 =
     zero_mongoPackage\<lparr>p_ID := oid 3, p_CreatedAt := t2023, p_Name := ''Start'',
                        p_Items := [item_a, item_b, item_c],
                        p_OnActivationBonusPackages := [oid 33]\<rparr>"

definition bought_package_4 :: mongoBoughtPackage where
  "bought_package_4 =
     zero_mongoBoughtPackage\<lparr>bp_ID := oid 4, bp_BoughtAt := t2023, bp_ExpiresAt := t2024\<rparr>"

definition charge_5 :: mongoCharge where
  "charge_5 = zero_mongoCharge\<lparr>c_ID := oid 5, c_CreatedAt := t2023\<rparr>"

definition payment_6 :: mongoPayment where
  "payment_6 = zero_mongoPayment\<lparr>pay_ID := oid 6, pay_CreatedAt := t2023\<rparr>"

definition payme_transaction_7 :: mongoPaymeTransaction where
  "payme_transaction_7 = zero_mongoPaymeTransaction\<lparr>pt_ID := oid 7\<rparr>"

definition balance_binding_8 :: mongoBalanceBinding where
  "balance_binding_8 = zero_mongoBalanceBinding\<lparr>obb_ID := oid 8, obb_CreatedAt := t2023\<rparr>"

definition credit_update_9 :: mongoCreditUpdate where
  "credit_update_9 = zero_mongoCreditUpdate\<lparr>cu_ID := oid 9, cu_CreatedAt := t2023\<rparr>"

definition auto_apply_error_10 :: mongoAutoApplyError where
  "auto_apply_error_10 =
     zero_mongoAutoApplyError\<lparr>bpae_ID := oid 10, bpae_CreatedAt := t2023\<rparr>"

text \<open>A destination that already holds the parent row of each sample document.\<close>

definition seeded :: world where
  "seeded =
     empty_world
       \<lparr>services := [serviceRow (Hex (oid 1)) service_1],
        organizations := [organizationRow (Hex (oid 2)) organization_2],
        packages := [packageRow (Hex (oid 3)) package_3],
        bought_packages := [boughtPackageRow (Hex (oid 4)) bought_package_4],
        charges := [chargeRow healthy charge_5],
        payments := [paymentRow (Hex (oid 6)) payment_6],
        payme_transactions := [paymeTransactionRow (Hex (oid 7)) payme_transaction_7 t2024],
        organization_balance_bindings := [balanceBindingRow (Hex (oid 8)) balance_binding_8],
        credit_updates := [creditUpdateRow (Hex (oid 9)) credit_update_9],
        bank_payments_auto_apply_errors :=
          [autoApplyErrorRow (Hex (oid 10)) auto_apply_error_10]\<rparr>"

text \<open>A source whose organizations cannot be read, with one service and one package.\<close>

definition organizations_unreadable :: mongoDatabase where
  "organizations_unreadable =
     empty_source
       \<lparr>coll_services := Inr [Inr service_1],
        coll_organizations := Inl (SourceError ''connection reset''),
        coll_packages := Inr [Inr package_3]\<rparr>"

text \<open>
  The fallback chain of the specification for the mandatory creation timestamp of a
  payme transaction: the primary value when the sanitizer accepts it, else the
  document's own creation timestamp when the sanitizer accepts that, else the current
  time.
\<close>

definition paymeCreatedAt_fallback :: "env \<Rightarrow> mongoPaymeTransaction \<Rightarrow> world \<Rightarrow> Time" where
  "paymeCreatedAt_fallback e pt w =
     (if validateDateTime (pt_PaymeCreatedAt pt) \<noteq> None then pt_PaymeCreatedAt pt
      else if validateDateTime (pt_CreatedAt pt) \<noteq> None then pt_CreatedAt pt
      else time_Now e (clock_readings w))"

text \<open>A source with the one payme transaction whose two timestamps are both unset.\<close>

definition payme_only :: mongoDatabase where
  "payme_only = empty_source\<lparr>coll_paymeTransactions := Inr [Inr payme_transaction_7]\<rparr>"

text \<open>
  Whether the table \<open>name\<close> is dropped by the loop of \<open>Migrate\<close> over \<open>tables\<close>, whose
  first drop is the statement number \<open>n\<close>: some drop of that table must not fail.
\<close>

fun drop_succeeds :: "env \<Rightarrow> string list \<Rightarrow> nat \<Rightarrow> string \<Rightarrow> bool" where
  "drop_succeeds e [] n name = False"
| "drop_succeeds e (table # rest) n name =
     ((table = name \<and> \<not> store_fault e n) \<or> drop_succeeds e rest (Suc n) name)"

text \<open>A source that holds one organization and one package and nothing else, and the one
  with the sample organization (two demo uses) and the sample package (three items, one
  bonus package).\<close>

definition one_organization_one_package ::
  "mongoOrganization \<Rightarrow> mongoPackage \<Rightarrow> mongoDatabase" where
  "one_organization_one_package doc p =
     empty_source\<lparr>coll_organizations := Inr [Inr doc], coll_packages := Inr [Inr p]\<rparr>"

definition organization_and_package :: mongoDatabase where
  "organization_and_package = one_organization_one_package organization_2 package_3"

section \<open>Properties of the sanitizer\<close>

lemma Year_zeroTime: "Year zeroTime = 1"
  by code_simp

lemma Year_Unix_2023: "Year (Unix 1686830400) = 2023"
  by code_simp

lemma Year_Unix_2200: "Year (Unix 7258118400) = 2200"
  by code_simp

lemma Year_second_one: "Year \<lparr>sec = 1, nsec = 0, offset = 0\<rparr> = 1"
  by code_simp

text \<open>
  Claim C4. The sanitizer returns absence exactly when the timestamp is the zero value
  or its year is below 1970, above 2100 or equal to 0; every other timestamp is
  returned unchanged. A timestamp in year 1 (the zero value, and one second after it)
  and one in year 2200 are mapped to absence; one in year 2023 passes through.
\<close>

theorem validateDateTime_characterisation:
  "(validateDateTime t = None) = (IsZero t \<or> Year t < 1970 \<or> Year t > 2100 \<or> Year t = 0)
   \<and> (validateDateTime t = None \<or> validateDateTime t = Some t)
   \<and> Year zeroTime = 1 \<and> validateDateTime zeroTime = None
   \<and> Year \<lparr>sec = 1, nsec = 0, offset = 0\<rparr> = 1
   \<and> validateDateTime \<lparr>sec = 1, nsec = 0, offset = 0\<rparr> = None
   \<and> Year (Unix 7258118400) = 2200 \<and> validateDateTime (Unix 7258118400) = None
   \<and> Year (Unix 1686830400) = 2023
   \<and> validateDateTime (Unix 1686830400) = Some (Unix 1686830400)"
proof -
  have a: "validateDateTime zeroTime = None"
    by (simp add: validateDateTime_def IsZero_def zeroTime_def)
  have b: "validateDateTime \<lparr>sec = 1, nsec = 0, offset = 0\<rparr> = None"
    by (simp add: validateDateTime_def Year_second_one)
  have c: "validateDateTime (Unix 7258118400) = None"
    by (simp add: validateDateTime_def Year_Unix_2200)
  have "\<not> IsZero (Unix 1686830400)"
    by (simp add: IsZero_def Unix_def unixToInternal_def)
  then have d: "validateDateTime (Unix 1686830400) = Some (Unix 1686830400)"
    by (simp add: validateDateTime_def Year_Unix_2023)
  show ?thesis
    using a b c d Year_zeroTime Year_second_one Year_Unix_2200 Year_Unix_2023
    by (simp add: validateDateTime_def)
qed

theorem validateDateTime_characterisation_witness:
  "validateDateTime (Unix 0) = Some (Unix 0) \<and> validateDateTime (Unix (- 1)) = None"
proof -
  have y0: "Year (Unix 0) = 1970"
    by code_simp
  have y1: "Year (Unix (- 1)) = 1969"
    by code_simp
  have z: "\<not> IsZero (Unix 0)"
    by (simp add: IsZero_def Unix_def unixToInternal_def)
  from validateDateTime_characterisation [of "Unix 0"] y0 z
  have "validateDateTime (Unix 0) = Some (Unix 0)" by auto
  moreover from validateDateTime_characterisation [of "Unix (- 1)"] y1
  have "validateDateTime (Unix (- 1)) = None" by auto
  ultimately show ?thesis by simp
qed

section \<open>The charge classification\<close>

lemma validateDateTime_t2023: "validateDateTime t2023 = Some t2023"
proof -
  have "Year t2023 = 2023" by code_simp
  moreover have "\<not> IsZero t2023"
    by (simp add: IsZero_def t2023_def Unix_def unixToInternal_def)
  ultimately show ?thesis by (simp add: validateDateTime_def)
qed

lemma validateDateTime_t2024: "validateDateTime t2024 = Some t2024"
proof -
  have "Year t2024 = 2024" by code_simp
  moreover have "\<not> IsZero t2024"
    by (simp add: IsZero_def t2024_def Unix_def unixToInternal_def)
  ultimately show ?thesis by (simp add: validateDateTime_def)
qed

lemma validateDateTime_zeroTime: "validateDateTime zeroTime = None"
  by (simp add: validateDateTime_def IsZero_def zeroTime_def)

lemma t2023_neq_t2024: "t2023 \<noteq> t2024"
  by (simp add: t2023_def t2024_def Unix_def)

text \<open>The chain of the source computes what the table of the specification says, with
  the dates read the way \<open>winner_date1\<close> and \<open>winner_date2\<close> describe.\<close>

lemma resolveCharge_winner:
  "resolveCharge e c =
     (case winner c of
        None \<Rightarrow> (0, '''', '''', None, None)
      | Some (kind, m) \<Rightarrow>
          (type_code kind, stringField m ''_id'', stringField m ''number'',
           winner_date1 e kind m, winner_date2 kind m))"
  by (simp add: resolveCharge_def winner_def priority_def winner_date1_def winner_date2_def
        interval_kind_def date1_field_def timestamp_or_RFC3339_def split: option.splits)

lemma chargeRow_fields:
  "Charge_Type (chargeRow e c) = fst (resolveCharge e c)"
  "Charge_ObjectId (chargeRow e c) = fst (snd (resolveCharge e c))"
  "Charge_Number (chargeRow e c) = fst (snd (snd (resolveCharge e c)))"
  "Charge_Date1 (chargeRow e c) =
     (case fst (snd (snd (snd (resolveCharge e c)))) of
        None \<Rightarrow> validateDateTime (c_CreatedAt c)
      | Some d \<Rightarrow> validateDateTime d)"
  "Charge_Date2 (chargeRow e c) = validatePtr (snd (snd (snd (snd (resolveCharge e c)))))"
  by (simp_all add: chargeRow_def validatePtr_def Let_def split: prod.splits option.splits)

text \<open>\<open>first_present\<close> returns the first kind of the list whose sub-object is present.\<close>

lemma first_present_Some_iff:
  "first_present c kinds = Some (kind, m) \<longleftrightarrow>
     (\<exists>earlier later. kinds = earlier @ kind # later
        \<and> (\<forall>k \<in> set earlier. sub_object c k = None) \<and> sub_object c kind = Some m)"
proof (induction kinds)
  case Nil
  then show ?case by simp
next
  case (Cons k ks)
  show ?case
  proof (cases "sub_object c k")
    case None
    have "(\<exists>earlier later. k # ks = earlier @ kind # later
            \<and> (\<forall>k' \<in> set earlier. sub_object c k' = None) \<and> sub_object c kind = Some m)
          \<longleftrightarrow> (\<exists>earlier later. ks = earlier @ kind # later
            \<and> (\<forall>k' \<in> set earlier. sub_object c k' = None) \<and> sub_object c kind = Some m)"
      (is "?L \<longleftrightarrow> ?R")
    proof
      assume ?L
      then obtain earlier later where h: "k # ks = earlier @ kind # later"
        "\<forall>k' \<in> set earlier. sub_object c k' = None" "sub_object c kind = Some m" by blast
      from h None have "earlier \<noteq> []" by (cases earlier) auto
      then obtain e' where "earlier = k # e'" using h(1) by (cases earlier) auto
      with h show ?R by auto
    next
      assume ?R
      then obtain earlier later where "ks = earlier @ kind # later"
        "\<forall>k' \<in> set earlier. sub_object c k' = None" "sub_object c kind = Some m" by blast
      with None have "k # ks = (k # earlier) @ kind # later
        \<and> (\<forall>k' \<in> set (k # earlier). sub_object c k' = None) \<and> sub_object c kind = Some m"
        by simp
      then show ?L by blast
    qed
    with None Cons show ?thesis by simp
  next
    case (Some m')
    have "(\<exists>earlier later. k # ks = earlier @ kind # later
            \<and> (\<forall>k' \<in> set earlier. sub_object c k' = None) \<and> sub_object c kind = Some m)
          \<longleftrightarrow> (k = kind \<and> m' = m)"
      (is "?L \<longleftrightarrow> ?R")
    proof
      assume ?L
      then obtain earlier later where h: "k # ks = earlier @ kind # later"
        "\<forall>k' \<in> set earlier. sub_object c k' = None" "sub_object c kind = Some m" by blast
      show ?R
      proof (cases earlier)
        case Nil
        with h Some show ?thesis by auto
      next
        case (Cons a as)
        with h Some show ?thesis by auto
      qed
    next
      assume ?R
      with Some have "k # ks = [] @ kind # ks
        \<and> (\<forall>k' \<in> set []. sub_object c k' = None) \<and> sub_object c kind = Some m" by simp
      then show ?L by blast
    qed
    with Some show ?thesis by auto
  qed
qed

text \<open>
  Claim C1, as amended. The eight sub-objects are tested in the priority order roaming
  invoice, roaming contract, roaming waybill, roaming act, roaming verification act,
  roaming empowerment, return invoice, attorney, with the codes 3, 7, 10, 9, 8, 11, 2, 4;
  the first present one determines the type code, and \<open>object_id\<close> and \<open>number\<close> are
  read from it alone (the empty string when the field is missing or not a string).
  \<open>date1\<close> is read from it when it yields a timestamp and is the charge's own creation
  timestamp otherwise, in both cases passed through the sanitizer. A charge with a
  roaming invoice has code 3.
\<close>

theorem charge_resolved_by_priority:
  "map type_code priority = [3, 7, 10, 9, 8, 11, 2, 4]
   \<and> Charge_Type (chargeRow e c) =
       (case winner c of None \<Rightarrow> 0 | Some (kind, m) \<Rightarrow> type_code kind)
   \<and> Charge_ObjectId (chargeRow e c) =
       (case winner c of None \<Rightarrow> '''' | Some (kind, m) \<Rightarrow> stringField m ''_id'')
   \<and> Charge_Number (chargeRow e c) =
       (case winner c of None \<Rightarrow> '''' | Some (kind, m) \<Rightarrow> stringField m ''number'')
   \<and> Charge_Date1 (chargeRow e c) =
       (case winner c of
          None \<Rightarrow> validateDateTime (c_CreatedAt c)
        | Some (kind, m) \<Rightarrow>
            (case winner_date1 e kind m of
               Some d \<Rightarrow> validateDateTime d
             | None \<Rightarrow> validateDateTime (c_CreatedAt c)))
   \<and> (c_RoamingInvoice c \<noteq> None \<longrightarrow> Charge_Type (chargeRow e c) = 3)
   \<and> (\<forall>kind m. winner c = Some (kind, m) \<longleftrightarrow>
        (\<exists>earlier later. priority = earlier @ kind # later
           \<and> (\<forall>k \<in> set earlier. sub_object c k = None) \<and> sub_object c kind = Some m))"
proof -
  have codes: "map type_code priority = [3, 7, 10, 9, 8, 11, 2, 4]"
    by (simp add: priority_def)
  have inv: "c_RoamingInvoice c \<noteq> None \<longrightarrow> Charge_Type (chargeRow e c) = 3"
    by (auto simp: chargeRow_fields resolveCharge_def)
  have fields:
    "Charge_Type (chargeRow e c) =
       (case winner c of None \<Rightarrow> 0 | Some (kind, m) \<Rightarrow> type_code kind)"
    "Charge_ObjectId (chargeRow e c) =
       (case winner c of None \<Rightarrow> '''' | Some (kind, m) \<Rightarrow> stringField m ''_id'')"
    "Charge_Number (chargeRow e c) =
       (case winner c of None \<Rightarrow> '''' | Some (kind, m) \<Rightarrow> stringField m ''number'')"
    "Charge_Date1 (chargeRow e c) =
       (case winner c of
          None \<Rightarrow> validateDateTime (c_CreatedAt c)
        | Some (kind, m) \<Rightarrow>
            (case winner_date1 e kind m of
               Some d \<Rightarrow> validateDateTime d
             | None \<Rightarrow> validateDateTime (c_CreatedAt c)))"
    by (simp_all add: chargeRow_fields resolveCharge_winner split: option.splits)
  show ?thesis
    using codes inv fields first_present_Some_iff [of c priority]
    unfolding winner_def by blast
qed

text \<open>
  Claim C1 as stated fails: \<open>date1\<close> is not taken from the winning sub-object alone. Two
  charges carry the same roaming invoice, an object without any field, and their
  \<open>date1\<close> columns differ, each holding the charge's own creation timestamp.
\<close>

theorem date1_not_from_sub_object_alone:
  "winner invoice_without_date_2023 = winner invoice_without_date_2024
   \<and> c_RoamingInvoice invoice_without_date_2023 = Some Map.empty
   \<and> Charge_Date1 (chargeRow healthy invoice_without_date_2023) = Some t2023
   \<and> Charge_Date1 (chargeRow healthy invoice_without_date_2024) = Some t2024
   \<and> t2023 \<noteq> t2024"
proof -
  have w: "winner invoice_without_date_2023 = Some (RoamingInvoice, Map.empty)"
    "winner invoice_without_date_2024 = Some (RoamingInvoice, Map.empty)"
    by (simp_all add: winner_def priority_def invoice_without_date_2023_def
          invoice_without_date_2024_def)
  have r: "resolveCharge healthy invoice_without_date_2023 = (3, '''', '''', None, None)"
    "resolveCharge healthy invoice_without_date_2024 = (3, '''', '''', None, None)"
    by (simp_all add: resolveCharge_def invoice_without_date_2023_def
          invoice_without_date_2024_def stringField_def)
  have c: "c_CreatedAt invoice_without_date_2023 = t2023"
    "c_CreatedAt invoice_without_date_2024 = t2024"
    by (simp_all add: invoice_without_date_2023_def invoice_without_date_2024_def)
  have "Charge_Date1 (chargeRow healthy invoice_without_date_2023) = Some t2023"
    by (simp add: chargeRow_fields r c validateDateTime_t2023)
  moreover have "Charge_Date1 (chargeRow healthy invoice_without_date_2024) = Some t2024"
    by (simp add: chargeRow_fields r c validateDateTime_t2024)
  moreover have "c_RoamingInvoice invoice_without_date_2023 = Some Map.empty"
    by (simp add: invoice_without_date_2023_def)
  ultimately show ?thesis using w t2023_neq_t2024 by simp
qed

text \<open>A charge with a roaming invoice and an attorney is classified by the invoice.\<close>

theorem charge_resolved_by_priority_witness:
  "winner invoice_and_attorney \<noteq> None
   \<and> Charge_Type (chargeRow healthy invoice_and_attorney) = 3
   \<and> Charge_ObjectId (chargeRow healthy invoice_and_attorney) = ''inv-1''
   \<and> Charge_Number (chargeRow healthy invoice_and_attorney) = ''42''
   \<and> Charge_Date1 (chargeRow healthy invoice_and_attorney) = Some t2023"
proof -
  let ?m = "[''_id'' \<mapsto> VString ''inv-1'', ''number'' \<mapsto> VString ''42'',
             ''date'' \<mapsto> VTime t2023]"
  have w: "winner invoice_and_attorney = Some (RoamingInvoice, ?m)"
    by (simp add: winner_def priority_def invoice_and_attorney_def)
  have i: "c_RoamingInvoice invoice_and_attorney \<noteq> None"
    by (simp add: invoice_and_attorney_def)
  have d: "winner_date1 healthy RoamingInvoice ?m = Some t2023"
    by (simp add: winner_date1_def timestamp_or_RFC3339_def)
  have s: "stringField ?m ''_id'' = ''inv-1''" "stringField ?m ''number'' = ''42''"
    by (simp_all add: stringField_def)
  show ?thesis
    using charge_resolved_by_priority [of healthy invoice_and_attorney] w i d s
    by (simp add: validateDateTime_t2023)
qed

text \<open>
  Claim C3 at a failing input. A roaming contract whose \<open>date\<close> is an RFC 3339 string
  that the parser accepts is classified with code 7, but its \<open>date1\<close> is the creation
  timestamp of the charge (2024), not the parsed date (2023): the string form is tried
  for a roaming invoice only, where the same sub-object yields the parsed date.
\<close>

theorem string_date_read_for_roaming_invoice_only:
  "time_Parse_RFC3339 healthy ''2023-06-15T12:00:00Z'' = Some t2023
   \<and> c_RoamingContract contract_with_string_date = Some string_date
   \<and> string_date ''date'' = Some (VString ''2023-06-15T12:00:00Z'')
   \<and> Charge_Type (chargeRow healthy contract_with_string_date) = 7
   \<and> Charge_Date1 (chargeRow healthy contract_with_string_date) = Some t2024
   \<and> Charge_Type (chargeRow healthy invoice_with_string_date) = 3
   \<and> Charge_Date1 (chargeRow healthy invoice_with_string_date) = Some t2023"
proof -
  have p: "time_Parse_RFC3339 healthy ''2023-06-15T12:00:00Z'' = Some t2023"
    by (simp add: healthy_def)
  have m: "string_date ''date'' = Some (VString ''2023-06-15T12:00:00Z'')"
    by (simp add: string_date_def)
  have rc: "resolveCharge healthy contract_with_string_date = (7, '''', '''', None, None)"
    by (simp add: resolveCharge_def contract_with_string_date_def zero_mongoCharge_def
          stringField_def string_date_def)
  have ri: "resolveCharge healthy invoice_with_string_date = (3, '''', '''', Some t2023, None)"
    by (simp add: resolveCharge_def invoice_with_string_date_def zero_mongoCharge_def
          stringField_def string_date_def healthy_def)
  have c: "c_CreatedAt contract_with_string_date = t2024"
    "c_RoamingContract contract_with_string_date = Some string_date"
    by (simp_all add: contract_with_string_date_def)
  show ?thesis
    using p m c(2)
    by (simp add: chargeRow_fields rc ri c(1) validateDateTime_t2023 validateDateTime_t2024)
qed

text \<open>The parser is consulted for no charge without a roaming invoice.\<close>

lemma parser_unused_without_roaming_invoice:
  "c_RoamingInvoice c = None \<Longrightarrow>
   chargeRow (e\<lparr>time_Parse_RFC3339 := parse\<rparr>) c = chargeRow e c"
  by (simp add: chargeRow_def resolveCharge_def)

text \<open>
  Claim C8, as amended. For a charge with none of the eight sub-objects the resolver
  leaves code 0, empty \<open>object_id\<close> and \<open>number\<close> and no date; \<open>date1\<close> then falls back
  to the creation timestamp of the charge and is stored through the sanitizer: the
  column holds the creation timestamp when the sanitizer accepts it and is null
  otherwise. \<open>date2\<close> is null.
\<close>

theorem uncategorized_charge:
  assumes "c_RoamingInvoice c = None" and "c_RoamingContract c = None"
    and "c_RoamingWaybill c = None" and "c_RoamingAct c = None"
    and "c_RoamingVerificationAct c = None" and "c_RoamingEmpowerment c = None"
    and "c_EDIReturnInvoice c = None" and "c_EDIAttorney c = None"
  shows "resolveCharge e c = (0, '''', '''', None, None)
    \<and> Charge_Type (chargeRow e c) = 0
    \<and> Charge_Date1 (chargeRow e c) = validateDateTime (c_CreatedAt c)
    \<and> (validateDateTime (c_CreatedAt c) \<noteq> None \<longrightarrow>
          Charge_Date1 (chargeRow e c) = Some (c_CreatedAt c))
    \<and> Charge_Date2 (chargeRow e c) = None"
proof -
  have r: "resolveCharge e c = (0, '''', '''', None, None)"
    using assms by (simp add: resolveCharge_def)
  have "validateDateTime (c_CreatedAt c) \<noteq> None \<longrightarrow>
        validateDateTime (c_CreatedAt c) = Some (c_CreatedAt c)"
    by (simp add: validateDateTime_def)
  then show ?thesis
    by (simp add: r chargeRow_fields validatePtr_def)
qed

text \<open>
  Claim C8 as stated fails: the date column of an uncategorized charge is left unset
  when the creation timestamp does not pass the sanitizer. The charge whose fields are
  all absent has the zero creation timestamp; its code is 0 and its \<open>date1\<close> is null.
\<close>

theorem uncategorized_charge_date1_unset:
  "winner zero_mongoCharge = None
   \<and> c_CreatedAt zero_mongoCharge = zeroTime
   \<and> Charge_Type (chargeRow healthy zero_mongoCharge) = 0
   \<and> Charge_Date1 (chargeRow healthy zero_mongoCharge) = None"
proof -
  have r: "resolveCharge healthy zero_mongoCharge = (0, '''', '''', None, None)"
    by (simp add: resolveCharge_def zero_mongoCharge_def)
  have c: "c_CreatedAt zero_mongoCharge = zeroTime"
    by (simp add: zero_mongoCharge_def)
  have w: "winner zero_mongoCharge = None"
    by (simp add: winner_def priority_def zero_mongoCharge_def)
  show ?thesis
    using w c by (simp add: chargeRow_fields r validateDateTime_zeroTime)
qed

theorem uncategorized_charge_witness:
  "c_RoamingInvoice uncategorized_2023 = None
   \<and> Charge_Type (chargeRow healthy uncategorized_2023) = 0
   \<and> Charge_Date1 (chargeRow healthy uncategorized_2023) = Some t2023"
proof -
  have n: "c_RoamingInvoice uncategorized_2023 = None"
    "c_RoamingContract uncategorized_2023 = None"
    "c_RoamingWaybill uncategorized_2023 = None"
    "c_RoamingAct uncategorized_2023 = None"
    "c_RoamingVerificationAct uncategorized_2023 = None"
    "c_RoamingEmpowerment uncategorized_2023 = None"
    "c_EDIReturnInvoice uncategorized_2023 = None"
    "c_EDIAttorney uncategorized_2023 = None"
    by (simp_all add: uncategorized_2023_def zero_mongoCharge_def)
  have c: "c_CreatedAt uncategorized_2023 = t2023"
    by (simp add: uncategorized_2023_def)
  from uncategorized_charge [OF n, of healthy] n(1) c show ?thesis
    by (simp add: validateDateTime_t2023)
qed

section \<open>The store and the loops\<close>

lemma id_column_parents:
  "id_column w Service_TableName = Some (map Service_ID (services w))"
  "id_column w Organization_TableName = Some (map Organization_ID (organizations w))"
  "id_column w Package_TableName = Some (map Package_ID (packages w))"
  "id_column w BoughtPackage_TableName = Some (map BoughtPackage_ID (bought_packages w))"
  "id_column w Charge_TableName = Some (map Charge_ID (charges w))"
  "id_column w Payment_TableName = Some (map Payment_ID (payments w))"
  "id_column w PaymeTransaction_TableName
     = Some (map PaymeTransaction_ID (payme_transactions w))"
  "id_column w OrganizationBalanceBinding_TableName
     = Some (map Binding_ID (organization_balance_bindings w))"
  "id_column w CreditUpdates_TableName = Some (map CreditUpdates_ID (credit_updates w))"
  "id_column w BankPaymentAutoApplyError_TableName
     = Some (map AutoApplyError_ID (bank_payments_auto_apply_errors w))"
  by (simp_all add: id_column_def Service_TableName_def Organization_TableName_def
        Package_TableName_def PackageItem_TableName_def BoughtPackage_TableName_def
        BoughtPackageItem_TableName_def Charge_TableName_def Payment_TableName_def
        PaymeTransaction_TableName_def OrganizationBalanceBinding_TableName_def
        CreditUpdates_TableName_def BankPaymentAutoApplyError_TableName_def)

text \<open>The existence check answers \<open>true\<close> exactly when its query does not fail and the
  identifier is in the table; it changes nothing but the count of statements.\<close>

lemma checkRecordExists_known:
  "id_column w table = Some ids \<Longrightarrow>
   checkRecordExists e w table i = (\<not> faulty e w \<and> i \<in> set ids, sent w)"
  by (auto simp: checkRecordExists_def filter_empty_conv)

lemma sent_tables [simp]:
  "services (sent w) = services w"
  "organizations (sent w) = organizations w"
  "organization_service_demo_uses (sent w) = organization_service_demo_uses w"
  "packages (sent w) = packages w"
  "package_items (sent w) = package_items w"
  "package_activation_bonus_packages (sent w) = package_activation_bonus_packages w"
  "bought_packages (sent w) = bought_packages w"
  "bought_package_items (sent w) = bought_package_items w"
  "charges (sent w) = charges w"
  "payments (sent w) = payments w"
  "payme_transactions (sent w) = payme_transactions w"
  "organization_balance_bindings (sent w) = organization_balance_bindings w"
  "credit_updates (sent w) = credit_updates w"
  "bank_payments_auto_apply_errors (sent w) = bank_payments_auto_apply_errors w"
  "clock_readings (sent w) = clock_readings w"
  "ids_minted (sent w) = ids_minted w"
  "statements (sent w) = Suc (statements w)"
  by (simp_all add: sent_def)

text \<open>What a loop over an embedded array leaves alone: a component of the world that no
  run of the body changes, and a counter that no successful run of the body changes.\<close>

lemma range_loop_frame:
  assumes "\<And>x k w. f (snd (body x k w)) = f w"
  shows "f (snd (range_loop body xs k w)) = f w"
proof (induction xs arbitrary: k w)
  case Nil
  then show ?case by simp
next
  case (Cons x xs)
  show ?case
  proof (cases "body x k w")
    case (Pair r w')
    with assms [of x k w] have fw: "f w' = f w" by simp
    show ?thesis
    proof (cases r)
      case (Inl err)
      with Pair fw show ?thesis by simp
    next
      case (Inr k')
      with Pair fw Cons.IH [of k' w'] show ?thesis by simp
    qed
  qed
qed

lemma range_loop_counter:
  assumes "\<And>x k w k' w'. body x k w = (Inr k', w') \<Longrightarrow> g k' = g k"
    and "range_loop body xs k w = (Inr k', w')"
  shows "g k' = g k"
  using assms(2)
proof (induction xs arbitrary: k w)
  case Nil
  then show ?case by simp
next
  case (Cons x xs)
  show ?case
  proof (cases "body x k w")
    case (Pair r w1)
    show ?thesis
    proof (cases r)
      case (Inl err)
      with Pair Cons.prems show ?thesis by simp
    next
      case (Inr k1)
      with Pair Cons.prems have "range_loop body xs k1 w1 = (Inr k', w')" by simp
      then have "g k' = g k1" by (rule Cons.IH)
      moreover from Pair Inr have "g k1 = g k" by (auto dest: assms(1))
      ultimately show ?thesis by simp
    qed
  qed
qed

section \<open>Documents that are already in the destination\<close>

lemma migrateServices_skip:
  assumes "\<not> faulty e w" and "Hex (s_ID s) \<in> set (map Service_ID (services w))"
  shows "migrateServices_body e s k w = (Inr (k\<lparr>skipped := skipped k + 1\<rparr>), sent w)"
  using assms
  by (simp add: migrateServices_body_def checkRecordExists_known [OF id_column_parents(1)])

lemma migrateBoughtPackages_skip:
  assumes "\<not> faulty e w" and "Hex (bp_ID bp) \<in> set (map BoughtPackage_ID (bought_packages w))"
  shows "migrateBoughtPackages_body e bp k w = (Inr (k\<lparr>skipped := skipped k + 1\<rparr>), sent w)"
  using assms
  by (simp add: migrateBoughtPackages_body_def
        checkRecordExists_known [OF id_column_parents(4)])

lemma migrateCharges_skip:
  assumes "\<not> faulty e w" and "Hex (c_ID c) \<in> set (map Charge_ID (charges w))"
  shows "migrateCharges_body e c k w = (Inr (k\<lparr>skipped := skipped k + 1\<rparr>), sent w)"
  using assms
  by (simp add: migrateCharges_body_def checkRecordExists_known [OF id_column_parents(5)])

lemma migratePayments_skip:
  assumes "\<not> faulty e w" and "Hex (pay_ID p) \<in> set (map Payment_ID (payments w))"
  shows "migratePayments_body e p k w = (Inr (k\<lparr>skipped := skipped k + 1\<rparr>), sent w)"
  using assms
  by (simp add: migratePayments_body_def checkRecordExists_known [OF id_column_parents(6)])

lemma migratePaymeTransactions_skip:
  assumes "\<not> faulty e w"
    and "Hex (pt_ID pt) \<in> set (map PaymeTransaction_ID (payme_transactions w))"
  shows "migratePaymeTransactions_body e pt k w
         = (Inr (k\<lparr>skipped := skipped k + 1\<rparr>), sent w)"
  using assms
  by (simp add: migratePaymeTransactions_body_def
        checkRecordExists_known [OF id_column_parents(7)])

lemma migrateOrganizationBalanceBindings_skip:
  assumes "\<not> faulty e w"
    and "Hex (obb_ID obb) \<in> set (map Binding_ID (organization_balance_bindings w))"
  shows "migrateOrganizationBalanceBindings_body e obb k w
         = (Inr (k\<lparr>skipped := skipped k + 1\<rparr>), sent w)"
  using assms
  by (simp add: migrateOrganizationBalanceBindings_body_def
        checkRecordExists_known [OF id_column_parents(8)])

lemma migrateCreditUpdates_skip:
  assumes "\<not> faulty e w"
    and "Hex (cu_ID cu) \<in> set (map CreditUpdates_ID (credit_updates w))"
  shows "migrateCreditUpdates_body e cu k w = (Inr (k\<lparr>skipped := skipped k + 1\<rparr>), sent w)"
  using assms
  by (simp add: migrateCreditUpdates_body_def
        checkRecordExists_known [OF id_column_parents(9)])

lemma migrateBankPaymentAutoApplyErrors_skip:
  assumes "\<not> faulty e w"
    and "Hex (bpae_ID bpae)
         \<in> set (map AutoApplyError_ID (bank_payments_auto_apply_errors w))"
  shows "migrateBankPaymentAutoApplyErrors_body e bpae k w
         = (Inr (k\<lparr>skipped := skipped k + 1\<rparr>), sent w)"
  using assms
  by (simp add: migrateBankPaymentAutoApplyErrors_body_def
        checkRecordExists_known [OF id_column_parents(10)])

text \<open>For an existing organization the body is the loop over its demo uses, which
  writes to the table of demo uses alone and counts in \<open>demoUsesMoved\<close> alone.\<close>

lemma migrateOrganizations_skip:
  assumes "\<not> faulty e w"
    and "Hex (o_ID doc) \<in> set (map Organization_ID (organizations w))"
  shows "migrateOrganizations_body e doc k w
         = range_loop (serviceDemoUse_body e (Hex (o_ID doc)) (o_CreatedAt doc))
             (o_ServiceDemoUses doc) (k\<lparr>skipped := skipped k + 1\<rparr>) (sent w)"
  using assms
  by (simp add: migrateOrganizations_body_def
        checkRecordExists_known [OF id_column_parents(2)])

lemma serviceDemoUse_body_organizations:
  "organizations (snd (serviceDemoUse_body e orgID t s k w)) = organizations w"
  by (simp add: serviceDemoUse_body_def
        CreateOnConflictDoNothing_OrganizationServiceDemoUses_def
        split: prod.splits option.splits)

lemma serviceDemoUse_body_counters:
  "serviceDemoUse_body e orgID t s k w = (Inr k', w') \<Longrightarrow>
   (skipped k', moved k') = (skipped k, moved k)"
  by (auto simp: serviceDemoUse_body_def
        CreateOnConflictDoNothing_OrganizationServiceDemoUses_def
        split: prod.splits option.splits)

lemma migratePackages_skip:
  assumes "\<not> faulty e w" and "Hex (p_ID p) \<in> set (map Package_ID (packages w))"
  shows "migratePackages_body e p k w
         = packageChildren e (Hex (p_ID p)) p (k\<lparr>skipped := skipped k + 1\<rparr>) (sent w)"
  using assms
  by (simp add: migratePackages_body_def checkRecordExists_known [OF id_column_parents(3)])

lemma packageItem_body_packages:
  "packages (snd (packageItem_body e pkgID item k w)) = packages w"
  by (simp add: packageItem_body_def CreateOnConflictDoNothing_PackageItem_def
        split: prod.splits option.splits)

lemma bonusPackage_body_packages:
  "packages (snd (bonusPackage_body e pkgID bonus k w)) = packages w"
  by (simp add: bonusPackage_body_def
        CreateOnConflictDoNothing_PackageActivationBonusPackage_def
        split: prod.splits option.splits)

lemma packageItem_body_counters:
  "packageItem_body e pkgID item k w = (Inr k', w') \<Longrightarrow>
   (skipped k', moved k') = (skipped k, moved k)"
  by (auto simp: packageItem_body_def CreateOnConflictDoNothing_PackageItem_def
        split: prod.splits option.splits)

lemma bonusPackage_body_counters:
  "bonusPackage_body e pkgID bonus k w = (Inr k', w') \<Longrightarrow>
   (skipped k', moved k') = (skipped k, moved k)"
  by (auto simp: bonusPackage_body_def
        CreateOnConflictDoNothing_PackageActivationBonusPackage_def
        split: prod.splits option.splits)

lemma packageChildren_packages:
  "packages (snd (packageChildren e pkgID p k w)) = packages w"
proof (cases "range_loop (packageItem_body e pkgID) (p_Items p) k w")
  case (Pair r w1)
  have w1: "packages w1 = packages w"
    using range_loop_frame [of packages "packageItem_body e pkgID" "p_Items p" k w,
        OF packageItem_body_packages] Pair by simp
  show ?thesis
  proof (cases r)
    case (Inl err)
    with Pair w1 show ?thesis by (simp add: packageChildren_def)
  next
    case (Inr k1)
    have "packages (snd (range_loop (bonusPackage_body e pkgID)
            (p_OnActivationBonusPackages p) k1 w1)) = packages w1"
      by (rule range_loop_frame [of packages, OF bonusPackage_body_packages])
    with Pair Inr w1 show ?thesis by (simp add: packageChildren_def)
  qed
qed

lemma packageChildren_counters:
  assumes "packageChildren e pkgID p k w = (Inr k', w')"
  shows "(skipped k', moved k') = (skipped k, moved k)"
proof (cases "range_loop (packageItem_body e pkgID) (p_Items p) k w")
  case (Pair r w1)
  show ?thesis
  proof (cases r)
    case (Inl err)
    with Pair assms show ?thesis by (simp add: packageChildren_def)
  next
    case (Inr k1)
    with Pair have rl: "range_loop (packageItem_body e pkgID) (p_Items p) k w = (Inr k1, w1)"
      by simp
    have a: "(skipped k1, moved k1) = (skipped k, moved k)"
    proof (rule range_loop_counter [where g = "\<lambda>k. (skipped k, moved k)", OF _ rl])
      fix x k w k' w'
      assume "packageItem_body e pkgID x k w = (Inr k', w')"
      then show "(skipped k', moved k') = (skipped k, moved k)"
        by (rule packageItem_body_counters)
    qed
    from Pair Inr assms
    have rl2: "range_loop (bonusPackage_body e pkgID) (p_OnActivationBonusPackages p) k1 w1
          = (Inr k', w')"
      by (simp add: packageChildren_def)
    have "(skipped k', moved k') = (skipped k1, moved k1)"
    proof (rule range_loop_counter [where g = "\<lambda>k. (skipped k, moved k)", OF _ rl2])
      fix x k w k' w'
      assume "bonusPackage_body e pkgID x k w = (Inr k', w')"
      then show "(skipped k', moved k') = (skipped k, moved k)"
        by (rule bonusPackage_body_counters)
    qed
    with a show ?thesis by simp
  qed
qed

text \<open>
  Claim C5, as amended. When the existence query itself does not fail and the source
  identifier is already in the destination table, the migrator sends no insert and no
  update for the parent: for services, bought packages, charges, payments, payme
  transactions, balance bindings, credit updates and auto-apply errors the whole step
  is the query, \<open>skipped\<close> grows by one, \<open>moved\<close> stays, and the loop goes on with the next
  document. For organizations and packages the body is the re-writing of the children;
  it leaves the parent table as it is and, unless a child statement fails and ends the
  migrator, counts the document as skipped and not as moved.
\<close>

theorem existing_parent_skipped:
  assumes "\<not> faulty e w"
  shows
    "(Hex (s_ID s) \<in> set (map Service_ID (services w)) \<longrightarrow>
        cursor_loop (migrateServices_body e) (Inr s # rest_s) k w
        = cursor_loop (migrateServices_body e) rest_s (k\<lparr>skipped := skipped k + 1\<rparr>) (sent w))
     \<and> (Hex (o_ID doc) \<in> set (map Organization_ID (organizations w)) \<longrightarrow>
        migrateOrganizations_body e doc k w
        = range_loop (serviceDemoUse_body e (Hex (o_ID doc)) (o_CreatedAt doc))
            (o_ServiceDemoUses doc) (k\<lparr>skipped := skipped k + 1\<rparr>) (sent w)
        \<and> organizations (snd (migrateOrganizations_body e doc k w)) = organizations w
        \<and> (case fst (migrateOrganizations_body e doc k w) of
              Inl err \<Rightarrow> True
            | Inr k' \<Rightarrow> skipped k' = skipped k + 1 \<and> moved k' = moved k))
     \<and> (Hex (p_ID p) \<in> set (map Package_ID (packages w)) \<longrightarrow>
        migratePackages_body e p k w
        = packageChildren e (Hex (p_ID p)) p (k\<lparr>skipped := skipped k + 1\<rparr>) (sent w)
        \<and> packages (snd (migratePackages_body e p k w)) = packages w
        \<and> (case fst (migratePackages_body e p k w) of
              Inl err \<Rightarrow> True
            | Inr k' \<Rightarrow> skipped k' = skipped k + 1 \<and> moved k' = moved k))
     \<and> (Hex (bp_ID bp) \<in> set (map BoughtPackage_ID (bought_packages w)) \<longrightarrow>
        cursor_loop (migrateBoughtPackages_body e) (Inr bp # rest_bp) k w
        = cursor_loop (migrateBoughtPackages_body e) rest_bp
            (k\<lparr>skipped := skipped k + 1\<rparr>) (sent w))
     \<and> (Hex (c_ID c) \<in> set (map Charge_ID (charges w)) \<longrightarrow>
        cursor_loop (migrateCharges_body e) (Inr c # rest_c) k w
        = cursor_loop (migrateCharges_body e) rest_c (k\<lparr>skipped := skipped k + 1\<rparr>) (sent w))
     \<and> (Hex (pay_ID pay) \<in> set (map Payment_ID (payments w)) \<longrightarrow>
        cursor_loop (migratePayments_body e) (Inr pay # rest_pay) k w
        = cursor_loop (migratePayments_body e) rest_pay (k\<lparr>skipped := skipped k + 1\<rparr>) (sent w))
     \<and> (Hex (pt_ID pt) \<in> set (map PaymeTransaction_ID (payme_transactions w)) \<longrightarrow>
        cursor_loop (migratePaymeTransactions_body e) (Inr pt # rest_pt) k w
        = cursor_loop (migratePaymeTransactions_body e) rest_pt
            (k\<lparr>skipped := skipped k + 1\<rparr>) (sent w))
     \<and> (Hex (obb_ID obb) \<in> set (map Binding_ID (organization_balance_bindings w)) \<longrightarrow>
        cursor_loop (migrateOrganizationBalanceBindings_body e) (Inr obb # rest_obb) k w
        = cursor_loop (migrateOrganizationBalanceBindings_body e) rest_obb
            (k\<lparr>skipped := skipped k + 1\<rparr>) (sent w))
     \<and> (Hex (cu_ID cu) \<in> set (map CreditUpdates_ID (credit_updates w)) \<longrightarrow>
        cursor_loop (migrateCreditUpdates_body e) (Inr cu # rest_cu) k w
        = cursor_loop (migrateCreditUpdates_body e) rest_cu
            (k\<lparr>skipped := skipped k + 1\<rparr>) (sent w))
     \<and> (Hex (bpae_ID bpae)
          \<in> set (map AutoApplyError_ID (bank_payments_auto_apply_errors w)) \<longrightarrow>
        cursor_loop (migrateBankPaymentAutoApplyErrors_body e) (Inr bpae # rest_bpae) k w
        = cursor_loop (migrateBankPaymentAutoApplyErrors_body e) rest_bpae
            (k\<lparr>skipped := skipped k + 1\<rparr>) (sent w))"
proof -
  note f = assms
  have org: "organizations (snd (migrateOrganizations_body e doc k w)) = organizations w
      \<and> (case fst (migrateOrganizations_body e doc k w) of
            Inl err \<Rightarrow> True
          | Inr k' \<Rightarrow> skipped k' = skipped k + 1 \<and> moved k' = moved k)"
    if h: "Hex (o_ID doc) \<in> set (map Organization_ID (organizations w))"
  proof -
    let ?run = "range_loop (serviceDemoUse_body e (Hex (o_ID doc)) (o_CreatedAt doc))
                  (o_ServiceDemoUses doc) (k\<lparr>skipped := skipped k + 1\<rparr>) (sent w)"
    have eq: "migrateOrganizations_body e doc k w = ?run"
      using f h by (rule migrateOrganizations_skip)
    have "organizations (snd ?run) = organizations (sent w)"
      by (rule range_loop_frame [of organizations, OF serviceDemoUse_body_organizations])
    then have a: "organizations (snd ?run) = organizations w" by simp
    have b: "skipped k' = skipped k + 1 \<and> moved k' = moved k" if r: "fst ?run = Inr k'" for k'
    proof -
      from r have rl: "?run = (Inr k', snd ?run)" by (cases ?run) simp
      have "(skipped k', moved k')
            = (skipped (k\<lparr>skipped := skipped k + 1\<rparr>), moved (k\<lparr>skipped := skipped k + 1\<rparr>))"
      proof (rule range_loop_counter [where g = "\<lambda>k. (skipped k, moved k)", OF _ rl])
        fix x k w k' w'
        assume "serviceDemoUse_body e (Hex (o_ID doc)) (o_CreatedAt doc) x k w = (Inr k', w')"
        then show "(skipped k', moved k') = (skipped k, moved k)"
          by (rule serviceDemoUse_body_counters)
      qed
      then show ?thesis by simp
    qed
    show ?thesis
    proof (cases "fst ?run")
      case (Inl err)
      with a show ?thesis unfolding eq by simp
    next
      case (Inr k')
      with a b [OF Inr] show ?thesis unfolding eq by simp
    qed
  qed
  have pkg: "packages (snd (migratePackages_body e p k w)) = packages w
      \<and> (case fst (migratePackages_body e p k w) of
            Inl err \<Rightarrow> True
          | Inr k' \<Rightarrow> skipped k' = skipped k + 1 \<and> moved k' = moved k)"
    if h: "Hex (p_ID p) \<in> set (map Package_ID (packages w))"
  proof -
    let ?run = "packageChildren e (Hex (p_ID p)) p (k\<lparr>skipped := skipped k + 1\<rparr>) (sent w)"
    have eq: "migratePackages_body e p k w = ?run"
      using f h by (rule migratePackages_skip)
    have "packages (snd ?run) = packages (sent w)"
      by (rule packageChildren_packages)
    then have a: "packages (snd ?run) = packages w" by simp
    have b: "skipped k' = skipped k + 1 \<and> moved k' = moved k" if r: "fst ?run = Inr k'" for k'
    proof -
      from r have "?run = (Inr k', snd ?run)" by (cases ?run) simp
      then have "(skipped k', moved k')
            = (skipped (k\<lparr>skipped := skipped k + 1\<rparr>), moved (k\<lparr>skipped := skipped k + 1\<rparr>))"
        by (rule packageChildren_counters)
      then show ?thesis by simp
    qed
    show ?thesis
    proof (cases "fst ?run")
      case (Inl err)
      with a show ?thesis unfolding eq by simp
    next
      case (Inr k')
      with a b [OF Inr] show ?thesis unfolding eq by simp
    qed
  qed
  have s1: "Hex (s_ID s) \<in> set (map Service_ID (services w)) \<longrightarrow>
        cursor_loop (migrateServices_body e) (Inr s # rest_s) k w
        = cursor_loop (migrateServices_body e) rest_s (k\<lparr>skipped := skipped k + 1\<rparr>) (sent w)"
    using f by (simp add: migrateServices_skip)
  have s2: "Hex (o_ID doc) \<in> set (map Organization_ID (organizations w)) \<longrightarrow>
        migrateOrganizations_body e doc k w
        = range_loop (serviceDemoUse_body e (Hex (o_ID doc)) (o_CreatedAt doc))
            (o_ServiceDemoUses doc) (k\<lparr>skipped := skipped k + 1\<rparr>) (sent w)
        \<and> organizations (snd (migrateOrganizations_body e doc k w)) = organizations w
        \<and> (case fst (migrateOrganizations_body e doc k w) of
              Inl err \<Rightarrow> True
            | Inr k' \<Rightarrow> skipped k' = skipped k + 1 \<and> moved k' = moved k)"
    using org migrateOrganizations_skip [OF f] by blast
  have s3: "Hex (p_ID p) \<in> set (map Package_ID (packages w)) \<longrightarrow>
        migratePackages_body e p k w
        = packageChildren e (Hex (p_ID p)) p (k\<lparr>skipped := skipped k + 1\<rparr>) (sent w)
        \<and> packages (snd (migratePackages_body e p k w)) = packages w
        \<and> (case fst (migratePackages_body e p k w) of
              Inl err \<Rightarrow> True
            | Inr k' \<Rightarrow> skipped k' = skipped k + 1 \<and> moved k' = moved k)"
    using pkg migratePackages_skip [OF f] by blast
  have s4: "Hex (bp_ID bp) \<in> set (map BoughtPackage_ID (bought_packages w)) \<longrightarrow>
        cursor_loop (migrateBoughtPackages_body e) (Inr bp # rest_bp) k w
        = cursor_loop (migrateBoughtPackages_body e) rest_bp
            (k\<lparr>skipped := skipped k + 1\<rparr>) (sent w)"
    using f by (simp add: migrateBoughtPackages_skip)
  have s5: "Hex (c_ID c) \<in> set (map Charge_ID (charges w)) \<longrightarrow>
        cursor_loop (migrateCharges_body e) (Inr c # rest_c) k w
        = cursor_loop (migrateCharges_body e) rest_c (k\<lparr>skipped := skipped k + 1\<rparr>) (sent w)"
    using f by (simp add: migrateCharges_skip)
  have s6: "Hex (pay_ID pay) \<in> set (map Payment_ID (payments w)) \<longrightarrow>
        cursor_loop (migratePayments_body e) (Inr pay # rest_pay) k w
        = cursor_loop (migratePayments_body e) rest_pay (k\<lparr>skipped := skipped k + 1\<rparr>) (sent w)"
    using f by (simp add: migratePayments_skip)
  have s7: "Hex (pt_ID pt) \<in> set (map PaymeTransaction_ID (payme_transactions w)) \<longrightarrow>
        cursor_loop (migratePaymeTransactions_body e) (Inr pt # rest_pt) k w
        = cursor_loop (migratePaymeTransactions_body e) rest_pt
            (k\<lparr>skipped := skipped k + 1\<rparr>) (sent w)"
    using f by (simp add: migratePaymeTransactions_skip)
  have s8: "Hex (obb_ID obb) \<in> set (map Binding_ID (organization_balance_bindings w)) \<longrightarrow>
        cursor_loop (migrateOrganizationBalanceBindings_body e) (Inr obb # rest_obb) k w
        = cursor_loop (migrateOrganizationBalanceBindings_body e) rest_obb
            (k\<lparr>skipped := skipped k + 1\<rparr>) (sent w)"
    using f by (simp add: migrateOrganizationBalanceBindings_skip)
  have s9: "Hex (cu_ID cu) \<in> set (map CreditUpdates_ID (credit_updates w)) \<longrightarrow>
        cursor_loop (migrateCreditUpdates_body e) (Inr cu # rest_cu) k w
        = cursor_loop (migrateCreditUpdates_body e) rest_cu
            (k\<lparr>skipped := skipped k + 1\<rparr>) (sent w)"
    using f by (simp add: migrateCreditUpdates_skip)
  have s10: "Hex (bpae_ID bpae)
          \<in> set (map AutoApplyError_ID (bank_payments_auto_apply_errors w)) \<longrightarrow>
        cursor_loop (migrateBankPaymentAutoApplyErrors_body e) (Inr bpae # rest_bpae) k w
        = cursor_loop (migrateBankPaymentAutoApplyErrors_body e) rest_bpae
            (k\<lparr>skipped := skipped k + 1\<rparr>) (sent w)"
    using f by (simp add: migrateBankPaymentAutoApplyErrors_skip)
  show ?thesis
    by (intro conjI s1 s2 s3 s4 s5 s6 s7 s8 s9 s10)
qed

lemma seeded_tables:
  "statements seeded = 0"
  "services seeded = [serviceRow (Hex (oid 1)) service_1]"
  "organizations seeded = [organizationRow (Hex (oid 2)) organization_2]"
  "packages seeded = [packageRow (Hex (oid 3)) package_3]"
  "bought_packages seeded = [boughtPackageRow (Hex (oid 4)) bought_package_4]"
  "charges seeded = [chargeRow healthy charge_5]"
  "payments seeded = [paymentRow (Hex (oid 6)) payment_6]"
  "payme_transactions seeded = [paymeTransactionRow (Hex (oid 7)) payme_transaction_7 t2024]"
  "organization_balance_bindings seeded = [balanceBindingRow (Hex (oid 8)) balance_binding_8]"
  "credit_updates seeded = [creditUpdateRow (Hex (oid 9)) credit_update_9]"
  "bank_payments_auto_apply_errors seeded
     = [autoApplyErrorRow (Hex (oid 10)) auto_apply_error_10]"
  by (simp_all add: seeded_def empty_world_def)

lemma row_ids:
  "Service_ID (serviceRow i s) = i"
  "Organization_ID (organizationRow i doc) = i"
  "Package_ID (packageRow i p) = i"
  "BoughtPackage_ID (boughtPackageRow i bp) = i"
  "Charge_ID (chargeRow e c) = Hex (c_ID c)"
  "Payment_ID (paymentRow i pay) = i"
  "PaymeTransaction_ID (paymeTransactionRow i pt t) = i"
  "Binding_ID (balanceBindingRow i obb) = i"
  "CreditUpdates_ID (creditUpdateRow i cu) = i"
  "AutoApplyError_ID (autoApplyErrorRow i bpae) = i"
  by (simp_all add: serviceRow_def organizationRow_def packageRow_def boughtPackageRow_def
        chargeRow_def paymentRow_def paymeTransactionRow_def balanceBindingRow_def
        creditUpdateRow_def autoApplyErrorRow_def split: prod.splits)

lemma sample_ids:
  "s_ID service_1 = oid 1" "o_ID organization_2 = oid 2" "p_ID package_3 = oid 3"
  "bp_ID bought_package_4 = oid 4" "c_ID charge_5 = oid 5" "pay_ID payment_6 = oid 6"
  "pt_ID payme_transaction_7 = oid 7" "obb_ID balance_binding_8 = oid 8"
  "cu_ID credit_update_9 = oid 9" "bpae_ID auto_apply_error_10 = oid 10"
  by (simp_all add: service_1_def organization_2_def package_3_def bought_package_4_def
        charge_5_def payment_6_def payme_transaction_7_def balance_binding_8_def
        credit_update_9_def auto_apply_error_10_def)

lemma healthy_never_faulty: "\<not> faulty healthy w"
  by (simp add: faulty_def healthy_def)

text \<open>In a healthy run over the seeded destination every sample document is skipped.\<close>

theorem existing_parent_skipped_witness:
  "\<not> faulty healthy seeded
   \<and> cursor_loop (migrateServices_body healthy) [Inr service_1] no_counts seeded
       = (Inr (no_counts\<lparr>skipped := 1\<rparr>), sent seeded)
   \<and> organizations (snd (migrateOrganizations_body healthy organization_2 no_counts seeded))
       = organizations seeded
   \<and> packages (snd (migratePackages_body healthy package_3 no_counts seeded))
       = packages seeded
   \<and> cursor_loop (migrateBoughtPackages_body healthy) [Inr bought_package_4] no_counts seeded
       = (Inr (no_counts\<lparr>skipped := 1\<rparr>), sent seeded)
   \<and> cursor_loop (migrateCharges_body healthy) [Inr charge_5] no_counts seeded
       = (Inr (no_counts\<lparr>skipped := 1\<rparr>), sent seeded)
   \<and> cursor_loop (migratePayments_body healthy) [Inr payment_6] no_counts seeded
       = (Inr (no_counts\<lparr>skipped := 1\<rparr>), sent seeded)
   \<and> cursor_loop (migratePaymeTransactions_body healthy) [Inr payme_transaction_7]
         no_counts seeded
       = (Inr (no_counts\<lparr>skipped := 1\<rparr>), sent seeded)
   \<and> cursor_loop (migrateOrganizationBalanceBindings_body healthy) [Inr balance_binding_8]
         no_counts seeded
       = (Inr (no_counts\<lparr>skipped := 1\<rparr>), sent seeded)
   \<and> cursor_loop (migrateCreditUpdates_body healthy) [Inr credit_update_9] no_counts seeded
       = (Inr (no_counts\<lparr>skipped := 1\<rparr>), sent seeded)
   \<and> cursor_loop (migrateBankPaymentAutoApplyErrors_body healthy) [Inr auto_apply_error_10]
         no_counts seeded
       = (Inr (no_counts\<lparr>skipped := 1\<rparr>), sent seeded)"
proof -
  note i = existing_parent_skipped [OF healthy_never_faulty, where w = seeded
      and k = no_counts and s = service_1 and rest_s = "[]" and doc = organization_2
      and p = package_3 and bp = bought_package_4 and rest_bp = "[]" and c = charge_5
      and rest_c = "[]" and pay = payment_6 and rest_pay = "[]" and pt = payme_transaction_7
      and rest_pt = "[]" and obb = balance_binding_8 and rest_obb = "[]" and cu = credit_update_9
      and rest_cu = "[]" and bpae = auto_apply_error_10 and rest_bpae = "[]"]
  note r1 = i [THEN conjunct2]
  note r2 = r1 [THEN conjunct2]
  note r3 = r2 [THEN conjunct2]
  note r4 = r3 [THEN conjunct2]
  note r5 = r4 [THEN conjunct2]
  note r6 = r5 [THEN conjunct2]
  note r7 = r6 [THEN conjunct2]
  note r8 = r7 [THEN conjunct2]
  note r9 = r8 [THEN conjunct2]
  have z: "skipped no_counts + 1 = 1"
    by (simp add: no_counts_def)
  have m1: "Hex (s_ID service_1) \<in> set (map Service_ID (services seeded))"
    by (simp add: seeded_tables row_ids sample_ids)
  have m2: "Hex (o_ID organization_2) \<in> set (map Organization_ID (organizations seeded))"
    by (simp add: seeded_tables row_ids sample_ids)
  have m3: "Hex (p_ID package_3) \<in> set (map Package_ID (packages seeded))"
    by (simp add: seeded_tables row_ids sample_ids)
  have m4: "Hex (bp_ID bought_package_4) \<in> set (map BoughtPackage_ID (bought_packages seeded))"
    by (simp add: seeded_tables row_ids sample_ids)
  have m5: "Hex (c_ID charge_5) \<in> set (map Charge_ID (charges seeded))"
    by (simp add: seeded_tables row_ids sample_ids)
  have m6: "Hex (pay_ID payment_6) \<in> set (map Payment_ID (payments seeded))"
    by (simp add: seeded_tables row_ids sample_ids)
  have m7: "Hex (pt_ID payme_transaction_7)
            \<in> set (map PaymeTransaction_ID (payme_transactions seeded))"
    by (simp add: seeded_tables row_ids sample_ids)
  have m8: "Hex (obb_ID balance_binding_8)
            \<in> set (map Binding_ID (organization_balance_bindings seeded))"
    by (simp add: seeded_tables row_ids sample_ids)
  have m9: "Hex (cu_ID credit_update_9) \<in> set (map CreditUpdates_ID (credit_updates seeded))"
    by (simp add: seeded_tables row_ids sample_ids)
  have m10: "Hex (bpae_ID auto_apply_error_10)
             \<in> set (map AutoApplyError_ID (bank_payments_auto_apply_errors seeded))"
    by (simp add: seeded_tables row_ids sample_ids)
  note c1 = i [THEN conjunct1, THEN mp, OF m1, unfolded z cursor_loop.simps(1)]
  note c2 = r1 [THEN conjunct1, THEN mp, OF m2, THEN conjunct2, THEN conjunct1]
  note c3 = r2 [THEN conjunct1, THEN mp, OF m3, THEN conjunct2, THEN conjunct1]
  note c4 = r3 [THEN conjunct1, THEN mp, OF m4, unfolded z cursor_loop.simps(1)]
  note c5 = r4 [THEN conjunct1, THEN mp, OF m5, unfolded z cursor_loop.simps(1)]
  note c6 = r5 [THEN conjunct1, THEN mp, OF m6, unfolded z cursor_loop.simps(1)]
  note c7 = r6 [THEN conjunct1, THEN mp, OF m7, unfolded z cursor_loop.simps(1)]
  note c8 = r7 [THEN conjunct1, THEN mp, OF m8, unfolded z cursor_loop.simps(1)]
  note c9 = r8 [THEN conjunct1, THEN mp, OF m9, unfolded z cursor_loop.simps(1)]
  note c10 = r9 [THEN mp, OF m10, unfolded z cursor_loop.simps(1)]
  show ?thesis
    by (intro conjI healthy_never_faulty c1 c2 c3 c4 c5 c6 c7 c8 c9 c10)
qed

text \<open>
  Claim C5 as stated fails when the existence query fails. The service with
  identifier 1 is in the destination; the query for it is the statement that fails, so
  the check answers \<open>false\<close>, the insert is sent and refused as a duplicate, and the
  migrator ends with that error instead of skipping and going on to the next document.
\<close>

theorem existing_service_not_skipped_when_check_fails:
  "Hex (s_ID service_1) \<in> set (map Service_ID (services seeded))
   \<and> faulty first_statement_fails seeded
   \<and> fst (cursor_loop (migrateServices_body first_statement_fails)
            [Inr service_1, Inr service_11] no_counts seeded)
       = Inl (Errorf ''service %s insert failed: %w'' [S (Hex (oid 1))]
               (DuplicateEntry ''services''))
   \<and> services (snd (cursor_loop (migrateServices_body first_statement_fails)
            [Inr service_1, Inr service_11] no_counts seeded))
       = services seeded
   \<and> statements (snd (cursor_loop (migrateServices_body first_statement_fails)
            [Inr service_1, Inr service_11] no_counts seeded))
       = 2"
proof -
  have a: "faulty first_statement_fails seeded"
    by (simp add: faulty_def first_statement_fails_def seeded_tables)
  have b: "\<not> faulty first_statement_fails (sent seeded)"
    by (simp add: faulty_def first_statement_fails_def seeded_tables)
  have c: "checkRecordExists first_statement_fails seeded Service_TableName (Hex (oid 1))
           = (False, sent seeded)"
    using a by (simp add: checkRecordExists_known [OF id_column_parents(1)])
  have d: "Create_Service first_statement_fails (serviceRow (Hex (oid 1)) service_1)
             (sent seeded)
           = (Some (DuplicateEntry ''services''), sent (sent seeded))"
    using b
    by (simp add: Create_Service_def insert_row_def duplicate_key_def Service_keys_def
          Service_TableName_def seeded_tables)
  have "migrateServices_body first_statement_fails service_1 no_counts seeded
        = (Inl (Errorf ''service %s insert failed: %w'' [S (Hex (oid 1))]
                 (DuplicateEntry ''services'')), sent (sent seeded))"
    by (simp add: migrateServices_body_def sample_ids c d)
  then show ?thesis
    using a by (simp add: seeded_tables row_ids sample_ids)
qed

section \<open>The mandatory timestamp of a payme transaction\<close>

lemma validateDateTime_Some:
  "validateDateTime t \<noteq> None \<Longrightarrow> validateDateTime t = Some t \<and> \<not> IsZero t"
  by (simp add: validateDateTime_def split: if_splits)

text \<open>The pointer of the source is never nil: it points to the value of the fallback
  chain. Reading the clock is the only effect.\<close>

lemma validatedPaymeCreatedAt_fallback:
  "fst (validatedPaymeCreatedAt e pt w) = Some (paymeCreatedAt_fallback e pt w)"
  by (simp add: validatedPaymeCreatedAt_def paymeCreatedAt_fallback_def Let_def
        validateDateTime_def)

lemma validatedPaymeCreatedAt_tables:
  "payme_transactions (snd (validatedPaymeCreatedAt e pt w)) = payme_transactions w"
  "statements (snd (validatedPaymeCreatedAt e pt w)) = statements w"
  by (simp_all add: validatedPaymeCreatedAt_def Let_def)

lemma paymeCreatedAt_fallback_sent:
  "paymeCreatedAt_fallback e pt (sent w) = paymeCreatedAt_fallback e pt w"
  by (simp add: paymeCreatedAt_fallback_def)

lemma paymeCreatedAt_fallback_not_zero:
  "\<not> IsZero (time_Now e (clock_readings w)) \<Longrightarrow> \<not> IsZero (paymeCreatedAt_fallback e pt w)"
  using validateDateTime_Some [of "pt_PaymeCreatedAt pt"]
    validateDateTime_Some [of "pt_CreatedAt pt"]
  by (simp add: paymeCreatedAt_fallback_def)

lemma Create_PaymeTransaction_rows:
  "payme_transactions (snd (Create_PaymeTransaction e r w)) =
     (if fst (Create_PaymeTransaction e r w) = None then payme_transactions w @ [r]
      else payme_transactions w)"
  by (simp add: Create_PaymeTransaction_def insert_row_def sent_def)

text \<open>The body for a document that the existence check does not find: the insert of the
  row with the timestamp of the fallback chain.\<close>

lemma migratePaymeTransactions_body_new:
  assumes "\<not> fst (checkRecordExists e w PaymeTransaction_TableName (Hex (pt_ID pt)))"
  shows "migratePaymeTransactions_body e pt k w =
     (case Create_PaymeTransaction e
             (paymeTransactionRow (Hex (pt_ID pt)) pt (paymeCreatedAt_fallback e pt w))
             (snd (validatedPaymeCreatedAt e pt (sent w))) of
        (Some err, w3) \<Rightarrow>
          (Inl (Errorf ''payme-transaction %s insert failed: %w'' [S (Hex (pt_ID pt))] err),
           w3)
      | (None, w3) \<Rightarrow> (Inr (k\<lparr>moved := moved k + 1\<rparr>), w3))"
proof -
  let ?c = "checkRecordExists e w PaymeTransaction_TableName (Hex (pt_ID pt))"
  have "?c = (fst ?c, sent w)"
    by (simp add: checkRecordExists_known [OF id_column_parents(7)])
  with assms have c: "?c = (False, sent w)" by simp
  obtain vt vw where vv: "validatedPaymeCreatedAt e pt (sent w) = (vt, vw)"
    by (cases "validatedPaymeCreatedAt e pt (sent w)")
  with validatedPaymeCreatedAt_fallback [of e pt "sent w"]
  have vt: "vt = Some (paymeCreatedAt_fallback e pt w)"
    by (simp add: paymeCreatedAt_fallback_sent)
  show ?thesis
    by (simp add: migratePaymeTransactions_body_def Let_def c vv vt)
qed

lemma migratePaymeTransactions_body_found:
  assumes "fst (checkRecordExists e w PaymeTransaction_TableName (Hex (pt_ID pt)))"
  shows "migratePaymeTransactions_body e pt k w = (Inr (k\<lparr>skipped := skipped k + 1\<rparr>), sent w)"
proof -
  let ?c = "checkRecordExists e w PaymeTransaction_TableName (Hex (pt_ID pt))"
  have "?c = (fst ?c, sent w)"
    by (simp add: checkRecordExists_known [OF id_column_parents(7)])
  with assms have c: "?c = (True, sent w)" by simp
  show ?thesis
    by (simp add: migratePaymeTransactions_body_def Let_def c)
qed

text \<open>One run of the body leaves the table as it is or appends the row with the
  timestamp of the fallback chain; it appends whenever it counts a move.\<close>

lemma migratePaymeTransactions_body_rows:
  "payme_transactions (snd (migratePaymeTransactions_body e pt k w)) = payme_transactions w
   \<or> payme_transactions (snd (migratePaymeTransactions_body e pt k w))
       = payme_transactions w
         @ [paymeTransactionRow (Hex (pt_ID pt)) pt (paymeCreatedAt_fallback e pt w)]"
proof (cases "fst (checkRecordExists e w PaymeTransaction_TableName (Hex (pt_ID pt)))")
  case True
  then show ?thesis by (simp add: migratePaymeTransactions_body_found)
next
  case False
  let ?r = "paymeTransactionRow (Hex (pt_ID pt)) pt (paymeCreatedAt_fallback e pt w)"
  let ?w2 = "snd (validatedPaymeCreatedAt e pt (sent w))"
  obtain r3 w3 where cr: "Create_PaymeTransaction e ?r ?w2 = (r3, w3)"
    by (cases "Create_PaymeTransaction e ?r ?w2")
  have w3: "snd (migratePaymeTransactions_body e pt k w) = w3"
    unfolding migratePaymeTransactions_body_new [OF False] cr by (cases r3) simp_all
  from Create_PaymeTransaction_rows [of e ?r ?w2] cr
  have "payme_transactions w3 = payme_transactions w
        \<or> payme_transactions w3 = payme_transactions w @ [?r]"
    by (cases r3) (simp_all add: validatedPaymeCreatedAt_tables)
  with w3 show ?thesis by simp
qed

lemma migratePaymeTransactions_body_moved:
  assumes "migratePaymeTransactions_body e pt k w = (Inr k', w')"
    and "moved k' = moved k + 1"
  shows "payme_transactions w'
         = payme_transactions w
           @ [paymeTransactionRow (Hex (pt_ID pt)) pt (paymeCreatedAt_fallback e pt w)]"
proof (cases "fst (checkRecordExists e w PaymeTransaction_TableName (Hex (pt_ID pt)))")
  case True
  with assms show ?thesis by (auto simp: migratePaymeTransactions_body_found)
next
  case False
  let ?r = "paymeTransactionRow (Hex (pt_ID pt)) pt (paymeCreatedAt_fallback e pt w)"
  let ?w2 = "snd (validatedPaymeCreatedAt e pt (sent w))"
  obtain r3 w3 where cr: "Create_PaymeTransaction e ?r ?w2 = (r3, w3)"
    by (cases "Create_PaymeTransaction e ?r ?w2")
  from assms(1) have "r3 = None \<and> w3 = w'"
    unfolding migratePaymeTransactions_body_new [OF False] cr by (cases r3) simp_all
  with Create_PaymeTransaction_rows [of e ?r ?w2] cr show ?thesis
    by (simp add: validatedPaymeCreatedAt_tables)
qed

lemma migratePaymeTransactions_body_no_panic:
  "fst (migratePaymeTransactions_body e pt k w) \<noteq> Inl NilDereference"
proof (cases "fst (checkRecordExists e w PaymeTransaction_TableName (Hex (pt_ID pt)))")
  case True
  then show ?thesis by (simp add: migratePaymeTransactions_body_found)
next
  case False
  show ?thesis
    unfolding migratePaymeTransactions_body_new [OF False]
    by (simp split: prod.splits option.splits)
qed

text \<open>A property of the destination that every run of the body keeps is kept by the
  loop and by the migrator, whatever the stream delivers and wherever it stops.\<close>

lemma cursor_loop_invariant:
  assumes "\<And>d k w. P w \<Longrightarrow> P (snd (body d k w))" and "P w"
  shows "P (snd (cursor_loop body ds k w))"
  using assms(2)
proof (induction ds arbitrary: k w)
  case Nil
  then show ?case by simp
next
  case (Cons x ds)
  show ?case
  proof (cases x)
    case (Inl err)
    with Cons.prems show ?thesis by simp
  next
    case (Inr d)
    obtain r w1 where b: "body d k w = (r, w1)" by (cases "body d k w")
    with assms(1) [OF Cons.prems, of d k] have p1: "P w1" by simp
    show ?thesis
    proof (cases r)
      case (Inl err)
      with Inr b p1 show ?thesis by simp
    next
      case (Inr k1)
      with \<open>x = Inr d\<close> b Cons.IH [OF p1, of k1] show ?thesis by simp
    qed
  qed
qed

lemma range_loop_invariant:
  assumes "\<And>x k w. P w \<Longrightarrow> P (snd (body x k w))" and "P w"
  shows "P (snd (range_loop body xs k w))"
  using assms(2)
proof (induction xs arbitrary: k w)
  case Nil
  then show ?case by simp
next
  case (Cons x xs)
  obtain r w1 where b: "body x k w = (r, w1)" by (cases "body x k w")
  with assms(1) [OF Cons.prems, of x k] have p1: "P w1" by simp
  show ?case
  proof (cases r)
    case (Inl err)
    with b p1 show ?thesis by simp
  next
    case (Inr k1)
    with b Cons.IH [OF p1, of k1] show ?thesis by simp
  qed
qed

lemma find_and_loop_invariant:
  assumes "\<And>d k w. P w \<Longrightarrow> P (snd (body d k w))" and "P w"
  shows "P (snd (find_and_loop coll body w))"
proof (cases coll)
  case (Inl err)
  with assms(2) show ?thesis by (simp add: find_and_loop_def)
next
  case (Inr cur)
  have "P (snd (cursor_loop body cur no_counts w))"
    using assms by (rule cursor_loop_invariant)
  with Inr show ?thesis
    by (cases "cursor_loop body cur no_counts w")
      (auto simp: find_and_loop_def split: sum.splits)
qed

lemma migratePaymeTransactions_never_zero:
  assumes now: "\<forall>n. \<not> IsZero (time_Now e n)"
    and w: "\<forall>r \<in> set (payme_transactions w). \<not> IsZero (PaymeTransaction_PaymeCreatedAt r)"
  shows "\<forall>r \<in> set (payme_transactions (snd (migratePaymeTransactions e mdb w))).
           \<not> IsZero (PaymeTransaction_PaymeCreatedAt r)"
  unfolding migratePaymeTransactions_def
proof (rule find_and_loop_invariant [where P = "\<lambda>w. \<forall>r \<in> set (payme_transactions w).
          \<not> IsZero (PaymeTransaction_PaymeCreatedAt r)", OF _ w])
  fix pt k and w :: world
  assume p: "\<forall>r \<in> set (payme_transactions w). \<not> IsZero (PaymeTransaction_PaymeCreatedAt r)"
  have "\<not> IsZero (paymeCreatedAt_fallback e pt w)"
    using now by (simp add: paymeCreatedAt_fallback_not_zero)
  then have "\<not> IsZero (PaymeTransaction_PaymeCreatedAt
      (paymeTransactionRow (Hex (pt_ID pt)) pt (paymeCreatedAt_fallback e pt w)))"
    by (simp add: paymeTransactionRow_def)
  with p migratePaymeTransactions_body_rows [of e pt k w]
  show "\<forall>r \<in> set (payme_transactions (snd (migratePaymeTransactions_body e pt k w))).
          \<not> IsZero (PaymeTransaction_PaymeCreatedAt r)"
    by auto
qed

text \<open>
  Claim C6. For every payme transaction the pointer that fills the mandatory column is
  never nil and points to the primary value when the sanitizer accepts it, else to the
  document's creation timestamp when the sanitizer accepts that, else to the reading of
  the clock taken at that moment; the row the migrator inserts carries exactly that
  value. The value is not the zero time unless the clock itself reads the zero time,
  and with a clock that never does, no row of the table ever holds the zero time.
\<close>

theorem payme_created_at_never_unset:
  "fst (validatedPaymeCreatedAt e pt w) = Some (paymeCreatedAt_fallback e pt w)
   \<and> fst (migratePaymeTransactions_body e pt k w) \<noteq> Inl NilDereference
   \<and> (payme_transactions (snd (migratePaymeTransactions_body e pt k w)) = payme_transactions w
      \<or> payme_transactions (snd (migratePaymeTransactions_body e pt k w))
          = payme_transactions w
            @ [paymeTransactionRow (Hex (pt_ID pt)) pt (paymeCreatedAt_fallback e pt w)])
   \<and> (\<forall>k' w'. migratePaymeTransactions_body e pt k w = (Inr k', w') \<and> moved k' = moved k + 1
        \<longrightarrow> payme_transactions w'
            = payme_transactions w
              @ [paymeTransactionRow (Hex (pt_ID pt)) pt (paymeCreatedAt_fallback e pt w)])
   \<and> PaymeTransaction_PaymeCreatedAt
        (paymeTransactionRow (Hex (pt_ID pt)) pt (paymeCreatedAt_fallback e pt w))
      = paymeCreatedAt_fallback e pt w
   \<and> (validateDateTime (pt_PaymeCreatedAt pt) \<noteq> None
        \<longrightarrow> paymeCreatedAt_fallback e pt w = pt_PaymeCreatedAt pt)
   \<and> (validateDateTime (pt_PaymeCreatedAt pt) = None \<and> validateDateTime (pt_CreatedAt pt) \<noteq> None
        \<longrightarrow> paymeCreatedAt_fallback e pt w = pt_CreatedAt pt)
   \<and> (validateDateTime (pt_PaymeCreatedAt pt) = None \<and> validateDateTime (pt_CreatedAt pt) = None
        \<longrightarrow> paymeCreatedAt_fallback e pt w = time_Now e (clock_readings w))
   \<and> (\<not> IsZero (time_Now e (clock_readings w)) \<longrightarrow> \<not> IsZero (paymeCreatedAt_fallback e pt w))
   \<and> ((\<forall>n. \<not> IsZero (time_Now e n))
       \<and> (\<forall>r \<in> set (payme_transactions w). \<not> IsZero (PaymeTransaction_PaymeCreatedAt r))
        \<longrightarrow> (\<forall>r \<in> set (payme_transactions (snd (migratePaymeTransactions e mdb w))).
              \<not> IsZero (PaymeTransaction_PaymeCreatedAt r)))"
proof -
  have moved: "\<forall>k' w'. migratePaymeTransactions_body e pt k w = (Inr k', w')
        \<and> moved k' = moved k + 1
        \<longrightarrow> payme_transactions w'
            = payme_transactions w
              @ [paymeTransactionRow (Hex (pt_ID pt)) pt (paymeCreatedAt_fallback e pt w)]"
    using migratePaymeTransactions_body_moved by blast
  have row: "PaymeTransaction_PaymeCreatedAt
        (paymeTransactionRow (Hex (pt_ID pt)) pt (paymeCreatedAt_fallback e pt w))
      = paymeCreatedAt_fallback e pt w"
    by (simp add: paymeTransactionRow_def)
  have chain:
    "validateDateTime (pt_PaymeCreatedAt pt) \<noteq> None
        \<longrightarrow> paymeCreatedAt_fallback e pt w = pt_PaymeCreatedAt pt"
    "validateDateTime (pt_PaymeCreatedAt pt) = None \<and> validateDateTime (pt_CreatedAt pt) \<noteq> None
        \<longrightarrow> paymeCreatedAt_fallback e pt w = pt_CreatedAt pt"
    "validateDateTime (pt_PaymeCreatedAt pt) = None \<and> validateDateTime (pt_CreatedAt pt) = None
        \<longrightarrow> paymeCreatedAt_fallback e pt w = time_Now e (clock_readings w)"
    by (simp_all add: paymeCreatedAt_fallback_def)
  have nz: "\<not> IsZero (time_Now e (clock_readings w))
        \<longrightarrow> \<not> IsZero (paymeCreatedAt_fallback e pt w)"
    using paymeCreatedAt_fallback_not_zero by blast
  have inv: "(\<forall>n. \<not> IsZero (time_Now e n))
       \<and> (\<forall>r \<in> set (payme_transactions w). \<not> IsZero (PaymeTransaction_PaymeCreatedAt r))
        \<longrightarrow> (\<forall>r \<in> set (payme_transactions (snd (migratePaymeTransactions e mdb w))).
              \<not> IsZero (PaymeTransaction_PaymeCreatedAt r))"
    using migratePaymeTransactions_never_zero by blast
  show ?thesis
    by (intro conjI validatedPaymeCreatedAt_fallback migratePaymeTransactions_body_no_panic
          migratePaymeTransactions_body_rows moved row chain nz inv)
qed

lemma t2024_not_zero: "\<not> IsZero t2024"
  by (simp add: IsZero_def t2024_def Unix_def unixToInternal_def)

text \<open>The transaction with both timestamps unset is stored with the reading of the clock.\<close>

theorem payme_created_at_never_unset_witness:
  "validateDateTime (pt_PaymeCreatedAt payme_transaction_7) = None
   \<and> validateDateTime (pt_CreatedAt payme_transaction_7) = None
   \<and> time_Now healthy (clock_readings empty_world) = t2024
   \<and> paymeCreatedAt_fallback healthy payme_transaction_7 empty_world = t2024
   \<and> \<not> IsZero (paymeCreatedAt_fallback healthy payme_transaction_7 empty_world)
   \<and> payme_transactions (snd (migratePaymeTransactions healthy payme_only empty_world))
      = [paymeTransactionRow (Hex (oid 7)) payme_transaction_7 t2024]"
proof -
  have v: "validateDateTime (pt_PaymeCreatedAt payme_transaction_7) = None"
    "validateDateTime (pt_CreatedAt payme_transaction_7) = None"
    by (simp_all add: payme_transaction_7_def zero_mongoPaymeTransaction_def
          validateDateTime_zeroTime)
  have n: "time_Now healthy (clock_readings empty_world) = t2024"
    by (simp add: healthy_def)
  note inst = payme_created_at_never_unset [of healthy payme_transaction_7 empty_world
      no_counts payme_only]
  from inst v n have f: "paymeCreatedAt_fallback healthy payme_transaction_7 empty_world = t2024"
    by simp
  have e0: "payme_transactions empty_world = []" "statements empty_world = 0"
    by (simp_all add: empty_world_def)
  have c: "\<not> fst (checkRecordExists healthy empty_world PaymeTransaction_TableName
              (Hex (pt_ID payme_transaction_7)))"
    by (simp add: checkRecordExists_known [OF id_column_parents(7)] e0)
  have cr: "fst (Create_PaymeTransaction healthy r w) = None
            \<and> payme_transactions (snd (Create_PaymeTransaction healthy r w)) = [r]"
    if "payme_transactions w = []" for r w
    using that
    by (simp add: Create_PaymeTransaction_def insert_row_def healthy_never_faulty
          duplicate_key_def)
  let ?w2 = "snd (validatedPaymeCreatedAt healthy payme_transaction_7 (sent empty_world))"
  let ?r = "paymeTransactionRow (Hex (pt_ID payme_transaction_7)) payme_transaction_7 t2024"
  have w2: "payme_transactions ?w2 = []"
    by (simp add: validatedPaymeCreatedAt_tables e0)
  obtain w3 where cr3: "Create_PaymeTransaction healthy ?r ?w2 = (None, w3)"
    and w3: "payme_transactions w3 = [?r]"
    using cr [OF w2, of ?r] by (cases "Create_PaymeTransaction healthy ?r ?w2") auto
  have body: "migratePaymeTransactions_body healthy payme_transaction_7 no_counts empty_world
              = (Inr (no_counts\<lparr>moved := moved no_counts + 1\<rparr>), w3)"
    by (simp add: migratePaymeTransactions_body_new [OF c] f cr3)
  have "payme_transactions (snd (migratePaymeTransactions healthy payme_only empty_world))
        = [?r]"
    by (simp add: migratePaymeTransactions_def find_and_loop_def payme_only_def body w3)
  with v n f t2024_not_zero show ?thesis
    by (simp add: sample_ids)
qed

section \<open>The orchestrator\<close>

lemma run_migrations_append:
  "run_migrations (pre @ post) e mdb w =
     (case run_migrations pre e mdb w of
        (Some err, w') \<Rightarrow> (Some err, w')
      | (None, w') \<Rightarrow> run_migrations post e mdb w')"
proof (induction pre arbitrary: w)
  case Nil
  then show ?case by simp
next
  case (Cons step pre)
  obtain name fn where step: "step = (name, fn)" by (cases step)
  obtain r w1 where f: "fn e mdb w = (r, w1)" by (cases "fn e mdb w")
  show ?case
  proof (cases r)
    case None
    with step f Cons.IH [of w1] show ?thesis by simp
  next
    case (Some err)
    with step f show ?thesis by simp
  qed
qed

text \<open>A step that fails after its predecessors succeeded ends the run: the error names
  the step and wraps the cause, the destination is as the failing step left it, and
  the steps behind it play no part.\<close>

lemma run_migrations_fails_at:
  assumes "run_migrations pre e mdb w = (None, w1)" and "fn e mdb w1 = (Some cause, w2)"
  shows "run_migrations (pre @ (name, fn) # post) e mdb w
         = (Some (Errorf ''migration %s failed: %w'' [S name] cause), w2)"
  using assms by (simp add: run_migrations_append)

lemma run_migrations_failure_origin:
  assumes "run_migrations steps e mdb w = (Some err, w2)"
  shows "\<exists>pre name fn post w1 cause.
           steps = pre @ (name, fn) # post
           \<and> run_migrations pre e mdb w = (None, w1)
           \<and> fn e mdb w1 = (Some cause, w2)
           \<and> err = Errorf ''migration %s failed: %w'' [S name] cause"
  using assms
proof (induction steps arbitrary: w)
  case Nil
  then show ?case by simp
next
  case (Cons step steps)
  obtain name fn where step: "step = (name, fn)" by (cases step)
  obtain r w1 where f: "fn e mdb w = (r, w1)" by (cases "fn e mdb w")
  show ?case
  proof (cases r)
    case (Some cause)
    with step f Cons.prems
    have "step # steps = [] @ (name, fn) # steps
          \<and> run_migrations [] e mdb w = (None, w)
          \<and> fn e mdb w = (Some cause, w2)
          \<and> err = Errorf ''migration %s failed: %w'' [S name] cause"
      by simp
    then show ?thesis by blast
  next
    case None
    with step f Cons.prems have "run_migrations steps e mdb w1 = (Some err, w2)" by simp
    from Cons.IH [OF this] obtain pre name' fn' post w1' cause where
      h: "steps = pre @ (name', fn') # post" "run_migrations pre e mdb w1 = (None, w1')"
         "fn' e mdb w1' = (Some cause, w2)"
         "err = Errorf ''migration %s failed: %w'' [S name'] cause"
      by blast
    from h step f None
    have "step # steps = (step # pre) @ (name', fn') # post
          \<and> run_migrations (step # pre) e mdb w = (None, w1')
          \<and> fn' e mdb w1' = (Some cause, w2)
          \<and> err = Errorf ''migration %s failed: %w'' [S name'] cause"
      by simp
    then show ?thesis by blast
  qed
qed

lemma run_migrations_success:
  "run_migrations (steps @ [(name, fn)]) e mdb w = (None, w2) \<longleftrightarrow>
     (\<exists>w1. run_migrations steps e mdb w = (None, w1) \<and> fn e mdb w1 = (None, w2))"
  by (auto simp: run_migrations_append split: prod.splits option.splits)

text \<open>
  Claim C7. The orchestrator runs the ten steps one after the other in the order
  services, organizations, packages, bought-packages, charges, payments,
  payme-transactions, organization-balance-bindings, credit-updates,
  bank-payments-auto-apply-errors, each on the destination the previous one left. The
  first step that fails ends the run: no later step is run, the destination stays as
  the failing step left it, and the error returned is the cause wrapped with the name
  of the failed step. Every error of the orchestrator arises that way.
\<close>

theorem migrateAll_ordered_fail_fast:
  "map fst migrations =
     [''services'', ''organizations'', ''packages'', ''bought-packages'', ''charges'',
      ''payments'', ''payme-transactions'', ''organization-balance-bindings'',
      ''credit-updates'', ''bank-payments-auto-apply-errors'']
   \<and> map snd migrations =
     [migrateServices, migrateOrganizations, migratePackages, migrateBoughtPackages,
      migrateCharges, migratePayments, migratePaymeTransactions,
      migrateOrganizationBalanceBindings, migrateCreditUpdates,
      migrateBankPaymentAutoApplyErrors]
   \<and> (\<forall>pre name fn post w1 cause w2.
        migrations = pre @ (name, fn) # post
        \<and> run_migrations pre e mdb w = (None, w1)
        \<and> fn e mdb w1 = (Some cause, w2)
        \<longrightarrow> migrateAll e mdb w
            = (Some (Errorf ''migration %s failed: %w'' [S name] cause), w2))
   \<and> (\<forall>err w2. migrateAll e mdb w = (Some err, w2) \<longrightarrow>
        (\<exists>pre name fn post w1 cause.
           migrations = pre @ (name, fn) # post
           \<and> run_migrations pre e mdb w = (None, w1)
           \<and> fn e mdb w1 = (Some cause, w2)
           \<and> err = Errorf ''migration %s failed: %w'' [S name] cause))
   \<and> (\<forall>pre post. migrations = pre @ post \<longrightarrow>
        migrateAll e mdb w =
          (case run_migrations pre e mdb w of
             (Some err, w') \<Rightarrow> (Some err, w')
           | (None, w') \<Rightarrow> run_migrations post e mdb w'))"
proof -
  have names: "map fst migrations =
     [''services'', ''organizations'', ''packages'', ''bought-packages'', ''charges'',
      ''payments'', ''payme-transactions'', ''organization-balance-bindings'',
      ''credit-updates'', ''bank-payments-auto-apply-errors'']"
    by (simp add: migrations_def)
  have fns: "map snd migrations =
     [migrateServices, migrateOrganizations, migratePackages, migrateBoughtPackages,
      migrateCharges, migratePayments, migratePaymeTransactions,
      migrateOrganizationBalanceBindings, migrateCreditUpdates,
      migrateBankPaymentAutoApplyErrors]"
    by (simp add: migrations_def)
  have abort: "\<forall>pre name fn post w1 cause w2.
        migrations = pre @ (name, fn) # post
        \<and> run_migrations pre e mdb w = (None, w1)
        \<and> fn e mdb w1 = (Some cause, w2)
        \<longrightarrow> migrateAll e mdb w
            = (Some (Errorf ''migration %s failed: %w'' [S name] cause), w2)"
    unfolding migrateAll_def using run_migrations_fails_at by metis
  have origin: "\<forall>err w2. migrateAll e mdb w = (Some err, w2) \<longrightarrow>
        (\<exists>pre name fn post w1 cause.
           migrations = pre @ (name, fn) # post
           \<and> run_migrations pre e mdb w = (None, w1)
           \<and> fn e mdb w1 = (Some cause, w2)
           \<and> err = Errorf ''migration %s failed: %w'' [S name] cause)"
    unfolding migrateAll_def using run_migrations_failure_origin by blast
  have seq: "\<forall>pre post. migrations = pre @ post \<longrightarrow>
        migrateAll e mdb w =
          (case run_migrations pre e mdb w of
             (Some err, w') \<Rightarrow> (Some err, w')
           | (None, w') \<Rightarrow> run_migrations post e mdb w')"
    unfolding migrateAll_def using run_migrations_append by metis
  show ?thesis
    by (intro conjI names fns abort origin seq)
qed

text \<open>With organizations that cannot be read, the run stops at the second step: the
  service has been migrated, the package has not, and the error names the step.\<close>

lemma services_migrated_first:
  "fst (migrateServices healthy organizations_unreadable empty_world) = None"
  "services (snd (migrateServices healthy organizations_unreadable empty_world))
     = [serviceRow (Hex (oid 1)) service_1]"
  "packages (snd (migrateServices healthy organizations_unreadable empty_world)) = []"
  by (simp_all add: migrateServices_def find_and_loop_def organizations_unreadable_def
        empty_source_def migrateServices_body_def Let_def
        checkRecordExists_known [OF id_column_parents(1)] healthy_never_faulty
        Create_Service_def insert_row_def duplicate_key_def Service_keys_def sample_ids
        empty_world_def)

theorem migrateAll_ordered_fail_fast_witness:
  "migrateAll healthy organizations_unreadable empty_world
     = (Some (Errorf ''migration %s failed: %w'' [S ''organizations'']
               (SourceError ''connection reset'')),
        snd (migrateServices healthy organizations_unreadable empty_world))
   \<and> services (snd (migrateAll healthy organizations_unreadable empty_world))
       = [serviceRow (Hex (oid 1)) service_1]
   \<and> packages (snd (migrateAll healthy organizations_unreadable empty_world)) = []"
proof -
  obtain r w1 where m: "migrateServices healthy organizations_unreadable empty_world = (r, w1)"
    by (cases "migrateServices healthy organizations_unreadable empty_world")
  with services_migrated_first have r: "r = None"
    and t: "services w1 = [serviceRow (Hex (oid 1)) service_1]" "packages w1 = []"
    by simp_all
  let ?post = "[(''packages'', migratePackages), (''bought-packages'', migrateBoughtPackages),
      (''charges'', migrateCharges), (''payments'', migratePayments),
      (''payme-transactions'', migratePaymeTransactions),
      (''organization-balance-bindings'', migrateOrganizationBalanceBindings),
      (''credit-updates'', migrateCreditUpdates),
      (''bank-payments-auto-apply-errors'', migrateBankPaymentAutoApplyErrors)]"
  have split: "migrations
      = [(''services'', migrateServices)] @ (''organizations'', migrateOrganizations) # ?post"
    by (simp add: migrations_def)
  have pre: "run_migrations [(''services'', migrateServices)] healthy
      organizations_unreadable empty_world = (None, w1)"
    using m r by simp
  have fails: "migrateOrganizations healthy organizations_unreadable w1
      = (Some (SourceError ''connection reset''), w1)"
    by (simp add: migrateOrganizations_def find_and_loop_def organizations_unreadable_def
          empty_source_def)
  note abort = migrateAll_ordered_fail_fast [of healthy organizations_unreadable empty_world,
      THEN conjunct2, THEN conjunct2, THEN conjunct1, rule_format]
  have "migrateAll healthy organizations_unreadable empty_world
     = (Some (Errorf ''migration %s failed: %w'' [S ''organizations'']
               (SourceError ''connection reset'')), w1)"
    by (rule abort [OF conjI [OF split conjI [OF pre fails]]])
  then show ?thesis
    using m t by simp
qed

section \<open>Schema preparation\<close>

lemma table_names_distinct: "distinct Migrate_tables"
  by (simp add: Migrate_tables_def Service_TableName_def Organization_TableName_def
        OrganizationServiceDemoUses_TableName_def Package_TableName_def
        PackageItem_TableName_def PackageActivationBonusPackage_TableName_def
        BoughtPackage_TableName_def BoughtPackageItem_TableName_def Charge_TableName_def
        Payment_TableName_def PaymeTransaction_TableName_def
        OrganizationBalanceBinding_TableName_def CreditUpdates_TableName_def
        BankPaymentAutoApplyError_TableName_def)

lemma drop_tables_Cons:
  "drop_tables e (t # ts) w = drop_tables e ts (snd (DropTable e t w))"
  by (simp split: prod.splits)

lemma drop_tables_statements: "statements (drop_tables e ts w) = statements w + length ts"
proof (induction ts arbitrary: w)
  case Nil
  then show ?case by simp
next
  case (Cons t ts)
  have "statements (snd (DropTable e t w)) = Suc (statements w)"
    by (simp add: DropTable_def without_rows_def)
  with Cons.IH [of "snd (DropTable e t w)"] show ?case
    by (simp only: drop_tables_Cons) simp
qed

text \<open>A table read through \<open>f\<close> that only a drop of \<open>name\<close> changes is empty after the
  loop when a drop of it succeeded and is as before otherwise.\<close>

lemma drop_tables_table:
  assumes "\<And>t w. f (without_rows t w) = (if t = name then [] else f w)"
    and "\<And>w. f (sent w) = f w"
  shows "f (drop_tables e ts w)
         = (if drop_succeeds e ts (statements w) name then [] else f w)"
proof (induction ts arbitrary: w)
  case Nil
  then show ?case by simp
next
  case (Cons t ts)
  let ?w1 = "snd (DropTable e t w)"
  have s: "statements ?w1 = Suc (statements w)"
    by (simp add: DropTable_def without_rows_def)
  have f1: "f ?w1 = (if t = name \<and> \<not> store_fault e (statements w) then [] else f w)"
    by (simp add: DropTable_def faulty_def assms)
  have "f (drop_tables e (t # ts) w) = f (drop_tables e ts ?w1)"
    by (simp only: drop_tables_Cons)
  also have "\<dots> = (if drop_succeeds e ts (Suc (statements w)) name then [] else f ?w1)"
    using Cons.IH [of ?w1] s by simp
  finally show ?case using f1 by auto
qed

lemmas table_name_defs =
  Service_TableName_def Organization_TableName_def OrganizationServiceDemoUses_TableName_def
  Package_TableName_def PackageItem_TableName_def PackageActivationBonusPackage_TableName_def
  BoughtPackage_TableName_def BoughtPackageItem_TableName_def Charge_TableName_def
  Payment_TableName_def PaymeTransaction_TableName_def
  OrganizationBalanceBinding_TableName_def CreditUpdates_TableName_def
  BankPaymentAutoApplyError_TableName_def

lemma without_rows_tables:
  "services (without_rows t w) = (if t = Service_TableName then [] else services w)"
  "organizations (without_rows t w) = (if t = Organization_TableName then [] else organizations w)"
  "organization_service_demo_uses (without_rows t w)
     = (if t = OrganizationServiceDemoUses_TableName then []
        else organization_service_demo_uses w)"
  "packages (without_rows t w) = (if t = Package_TableName then [] else packages w)"
  "package_items (without_rows t w) = (if t = PackageItem_TableName then [] else package_items w)"
  "package_activation_bonus_packages (without_rows t w)
     = (if t = PackageActivationBonusPackage_TableName then []
        else package_activation_bonus_packages w)"
  "bought_packages (without_rows t w)
     = (if t = BoughtPackage_TableName then [] else bought_packages w)"
  "bought_package_items (without_rows t w)
     = (if t = BoughtPackageItem_TableName then [] else bought_package_items w)"
  "charges (without_rows t w) = (if t = Charge_TableName then [] else charges w)"
  "payments (without_rows t w) = (if t = Payment_TableName then [] else payments w)"
  "payme_transactions (without_rows t w)
     = (if t = PaymeTransaction_TableName then [] else payme_transactions w)"
  "organization_balance_bindings (without_rows t w)
     = (if t = OrganizationBalanceBinding_TableName then []
        else organization_balance_bindings w)"
  "credit_updates (without_rows t w)
     = (if t = CreditUpdates_TableName then [] else credit_updates w)"
  "bank_payments_auto_apply_errors (without_rows t w)
     = (if t = BankPaymentAutoApplyError_TableName then []
        else bank_payments_auto_apply_errors w)"
  by (simp_all add: without_rows_def table_name_defs)

text \<open>The fourteen names are distinct, so a table is dropped exactly when the one
  statement that drops it does not fail.\<close>

lemma drop_succeeds_Migrate_tables:
  "drop_succeeds e Migrate_tables n Service_TableName = (\<not> store_fault e n)"
  "drop_succeeds e Migrate_tables n Organization_TableName = (\<not> store_fault e (n + 1))"
  "drop_succeeds e Migrate_tables n OrganizationServiceDemoUses_TableName
     = (\<not> store_fault e (n + 2))"
  "drop_succeeds e Migrate_tables n Package_TableName = (\<not> store_fault e (n + 3))"
  "drop_succeeds e Migrate_tables n PackageItem_TableName = (\<not> store_fault e (n + 4))"
  "drop_succeeds e Migrate_tables n PackageActivationBonusPackage_TableName
     = (\<not> store_fault e (n + 5))"
  "drop_succeeds e Migrate_tables n BoughtPackage_TableName = (\<not> store_fault e (n + 6))"
  "drop_succeeds e Migrate_tables n BoughtPackageItem_TableName = (\<not> store_fault e (n + 7))"
  "drop_succeeds e Migrate_tables n Charge_TableName = (\<not> store_fault e (n + 8))"
  "drop_succeeds e Migrate_tables n Payment_TableName = (\<not> store_fault e (n + 9))"
  "drop_succeeds e Migrate_tables n PaymeTransaction_TableName = (\<not> store_fault e (n + 10))"
  "drop_succeeds e Migrate_tables n OrganizationBalanceBinding_TableName
     = (\<not> store_fault e (n + 11))"
  "drop_succeeds e Migrate_tables n CreditUpdates_TableName = (\<not> store_fault e (n + 12))"
  "drop_succeeds e Migrate_tables n BankPaymentAutoApplyError_TableName
     = (\<not> store_fault e (n + 13))"
  by (simp_all add: Migrate_tables_def table_name_defs eval_nat_numeral)

lemma Migrate_table:
  assumes "\<And>t w. f (without_rows t w) = (if t = name then [] else f w)"
    and "\<And>w. f (sent w) = f w"
  shows "f (snd (Migrate e w))
         = (if drop_succeeds e Migrate_tables (statements w) name then [] else f w)"
proof -
  have "f (snd (Migrate e w)) = f (drop_tables e Migrate_tables w)"
    by (simp add: Migrate_def AutoMigrate_def assms(2))
  then show ?thesis
    using drop_tables_table [of f name, OF assms] by simp
qed

lemma length_Migrate_tables: "length Migrate_tables = 14"
  by (simp add: Migrate_tables_def)

lemma Migrate_result:
  "fst (Migrate e w)
     = (if store_fault e (statements w + 14) then Some (StoreFault ''AutoMigrate'') else None)"
  "statements (snd (Migrate e w)) = statements w + 15"
  by (simp_all add: Migrate_def AutoMigrate_def faulty_def drop_tables_statements
        length_Migrate_tables)

text \<open>
  Claim C9, as amended. \<open>Migrate\<close> sends fifteen statements: a drop for each of the
  fourteen tables, in the order of the source, and then the re-creation. The result of
  a drop is ignored, so a table is empty afterwards exactly when its own drop did not
  fail, and keeps all its rows otherwise; the error \<open>Migrate\<close> returns is the one of
  the re-creation alone. When no drop fails the run begins against an empty
  destination. \<open>main\<close> ends at a failed \<open>Migrate\<close> and otherwise runs the migration on
  the destination \<open>Migrate\<close> left.
\<close>

theorem Migrate_drops_each_table_unless_its_drop_fails:
  "services (snd (Migrate e w))
     = (if store_fault e (statements w) then services w else [])
   \<and> organizations (snd (Migrate e w))
     = (if store_fault e (statements w + 1) then organizations w else [])
   \<and> organization_service_demo_uses (snd (Migrate e w))
     = (if store_fault e (statements w + 2) then organization_service_demo_uses w else [])
   \<and> packages (snd (Migrate e w))
     = (if store_fault e (statements w + 3) then packages w else [])
   \<and> package_items (snd (Migrate e w))
     = (if store_fault e (statements w + 4) then package_items w else [])
   \<and> package_activation_bonus_packages (snd (Migrate e w))
     = (if store_fault e (statements w + 5) then package_activation_bonus_packages w else [])
   \<and> bought_packages (snd (Migrate e w))
     = (if store_fault e (statements w + 6) then bought_packages w else [])
   \<and> bought_package_items (snd (Migrate e w))
     = (if store_fault e (statements w + 7) then bought_package_items w else [])
   \<and> charges (snd (Migrate e w))
     = (if store_fault e (statements w + 8) then charges w else [])
   \<and> payments (snd (Migrate e w))
     = (if store_fault e (statements w + 9) then payments w else [])
   \<and> payme_transactions (snd (Migrate e w))
     = (if store_fault e (statements w + 10) then payme_transactions w else [])
   \<and> organization_balance_bindings (snd (Migrate e w))
     = (if store_fault e (statements w + 11) then organization_balance_bindings w else [])
   \<and> credit_updates (snd (Migrate e w))
     = (if store_fault e (statements w + 12) then credit_updates w else [])
   \<and> bank_payments_auto_apply_errors (snd (Migrate e w))
     = (if store_fault e (statements w + 13) then bank_payments_auto_apply_errors w else [])
   \<and> fst (Migrate e w)
     = (if store_fault e (statements w + 14) then Some (StoreFault ''AutoMigrate'') else None)
   \<and> statements (snd (Migrate e w)) = statements w + 15
   \<and> ((\<forall>i < 14. \<not> store_fault e (statements w + i)) \<longrightarrow>
        services (snd (Migrate e w)) = []
        \<and> organizations (snd (Migrate e w)) = []
        \<and> organization_service_demo_uses (snd (Migrate e w)) = []
        \<and> packages (snd (Migrate e w)) = []
        \<and> package_items (snd (Migrate e w)) = []
        \<and> package_activation_bonus_packages (snd (Migrate e w)) = []
        \<and> bought_packages (snd (Migrate e w)) = []
        \<and> bought_package_items (snd (Migrate e w)) = []
        \<and> charges (snd (Migrate e w)) = []
        \<and> payments (snd (Migrate e w)) = []
        \<and> payme_transactions (snd (Migrate e w)) = []
        \<and> organization_balance_bindings (snd (Migrate e w)) = []
        \<and> credit_updates (snd (Migrate e w)) = []
        \<and> bank_payments_auto_apply_errors (snd (Migrate e w)) = [])
   \<and> (\<forall>err. fst (Migrate e w) = Some err \<longrightarrow>
        main e mdb w = (Some (''Failed to run migrations: %v'', err), snd (Migrate e w)))
   \<and> (fst (Migrate e w) = None \<longrightarrow>
        snd (main e mdb w) = snd (migrateAll e mdb (snd (Migrate e w))))"
proof -
  have t1: "services (snd (Migrate e w))
      = (if store_fault e (statements w) then services w else [])"
    by (simp add: Migrate_table [of services Service_TableName, OF without_rows_tables(1)]
          drop_succeeds_Migrate_tables)
  have t2: "organizations (snd (Migrate e w))
      = (if store_fault e (statements w + 1) then organizations w else [])"
    by (simp add: Migrate_table [of organizations Organization_TableName,
            OF without_rows_tables(2)] drop_succeeds_Migrate_tables)
  have t3: "organization_service_demo_uses (snd (Migrate e w))
      = (if store_fault e (statements w + 2) then organization_service_demo_uses w else [])"
    by (simp add: Migrate_table [of organization_service_demo_uses
            OrganizationServiceDemoUses_TableName, OF without_rows_tables(3)]
          drop_succeeds_Migrate_tables)
  have t4: "packages (snd (Migrate e w))
      = (if store_fault e (statements w + 3) then packages w else [])"
    by (simp add: Migrate_table [of packages Package_TableName, OF without_rows_tables(4)]
          drop_succeeds_Migrate_tables)
  have t5: "package_items (snd (Migrate e w))
      = (if store_fault e (statements w + 4) then package_items w else [])"
    by (simp add: Migrate_table [of package_items PackageItem_TableName,
            OF without_rows_tables(5)] drop_succeeds_Migrate_tables)
  have t6: "package_activation_bonus_packages (snd (Migrate e w))
      = (if store_fault e (statements w + 5) then package_activation_bonus_packages w else [])"
    by (simp add: Migrate_table [of package_activation_bonus_packages
            PackageActivationBonusPackage_TableName, OF without_rows_tables(6)]
          drop_succeeds_Migrate_tables)
  have t7: "bought_packages (snd (Migrate e w))
      = (if store_fault e (statements w + 6) then bought_packages w else [])"
    by (simp add: Migrate_table [of bought_packages BoughtPackage_TableName,
            OF without_rows_tables(7)] drop_succeeds_Migrate_tables)
  have t8: "bought_package_items (snd (Migrate e w))
      = (if store_fault e (statements w + 7) then bought_package_items w else [])"
    by (simp add: Migrate_table [of bought_package_items BoughtPackageItem_TableName,
            OF without_rows_tables(8)] drop_succeeds_Migrate_tables)
  have t9: "charges (snd (Migrate e w))
      = (if store_fault e (statements w + 8) then charges w else [])"
    by (simp add: Migrate_table [of charges Charge_TableName, OF without_rows_tables(9)]
          drop_succeeds_Migrate_tables)
  have t10: "payments (snd (Migrate e w))
      = (if store_fault e (statements w + 9) then payments w else [])"
    by (simp add: Migrate_table [of payments Payment_TableName, OF without_rows_tables(10)]
          drop_succeeds_Migrate_tables)
  have t11: "payme_transactions (snd (Migrate e w))
      = (if store_fault e (statements w + 10) then payme_transactions w else [])"
    by (simp add: Migrate_table [of payme_transactions PaymeTransaction_TableName,
            OF without_rows_tables(11)] drop_succeeds_Migrate_tables)
  have t12: "organization_balance_bindings (snd (Migrate e w))
      = (if store_fault e (statements w + 11) then organization_balance_bindings w else [])"
    by (simp add: Migrate_table [of organization_balance_bindings
            OrganizationBalanceBinding_TableName, OF without_rows_tables(12)]
          drop_succeeds_Migrate_tables)
  have t13: "credit_updates (snd (Migrate e w))
      = (if store_fault e (statements w + 12) then credit_updates w else [])"
    by (simp add: Migrate_table [of credit_updates CreditUpdates_TableName,
            OF without_rows_tables(13)] drop_succeeds_Migrate_tables)
  have t14: "bank_payments_auto_apply_errors (snd (Migrate e w))
      = (if store_fault e (statements w + 13) then bank_payments_auto_apply_errors w else [])"
    by (simp add: Migrate_table [of bank_payments_auto_apply_errors
            BankPaymentAutoApplyError_TableName, OF without_rows_tables(14)]
          drop_succeeds_Migrate_tables)
  have all: "(\<forall>i < 14. \<not> store_fault e (statements w + i)) \<longrightarrow>
        services (snd (Migrate e w)) = []
        \<and> organizations (snd (Migrate e w)) = []
        \<and> organization_service_demo_uses (snd (Migrate e w)) = []
        \<and> packages (snd (Migrate e w)) = []
        \<and> package_items (snd (Migrate e w)) = []
        \<and> package_activation_bonus_packages (snd (Migrate e w)) = []
        \<and> bought_packages (snd (Migrate e w)) = []
        \<and> bought_package_items (snd (Migrate e w)) = []
        \<and> charges (snd (Migrate e w)) = []
        \<and> payments (snd (Migrate e w)) = []
        \<and> payme_transactions (snd (Migrate e w)) = []
        \<and> organization_balance_bindings (snd (Migrate e w)) = []
        \<and> credit_updates (snd (Migrate e w)) = []
        \<and> bank_payments_auto_apply_errors (snd (Migrate e w)) = []"
  proof
    assume h: "\<forall>i < 14. \<not> store_fault e (statements w + i)"
    have "\<not> store_fault e (statements w + 0)" "\<not> store_fault e (statements w + 1)"
      "\<not> store_fault e (statements w + 2)" "\<not> store_fault e (statements w + 3)"
      "\<not> store_fault e (statements w + 4)" "\<not> store_fault e (statements w + 5)"
      "\<not> store_fault e (statements w + 6)" "\<not> store_fault e (statements w + 7)"
      "\<not> store_fault e (statements w + 8)" "\<not> store_fault e (statements w + 9)"
      "\<not> store_fault e (statements w + 10)" "\<not> store_fault e (statements w + 11)"
      "\<not> store_fault e (statements w + 12)" "\<not> store_fault e (statements w + 13)"
      using h by (simp_all add: eval_nat_numeral All_less_Suc)
    then show "services (snd (Migrate e w)) = []
        \<and> organizations (snd (Migrate e w)) = []
        \<and> organization_service_demo_uses (snd (Migrate e w)) = []
        \<and> packages (snd (Migrate e w)) = []
        \<and> package_items (snd (Migrate e w)) = []
        \<and> package_activation_bonus_packages (snd (Migrate e w)) = []
        \<and> bought_packages (snd (Migrate e w)) = []
        \<and> bought_package_items (snd (Migrate e w)) = []
        \<and> charges (snd (Migrate e w)) = []
        \<and> payments (snd (Migrate e w)) = []
        \<and> payme_transactions (snd (Migrate e w)) = []
        \<and> organization_balance_bindings (snd (Migrate e w)) = []
        \<and> credit_updates (snd (Migrate e w)) = []
        \<and> bank_payments_auto_apply_errors (snd (Migrate e w)) = []"
      by (simp add: t1 t2 t3 t4 t5 t6 t7 t8 t9 t10 t11 t12 t13 t14)
  qed
  have m1: "\<forall>err. fst (Migrate e w) = Some err \<longrightarrow>
        main e mdb w = (Some (''Failed to run migrations: %v'', err), snd (Migrate e w))"
    by (cases "Migrate e w") (simp add: main_def)
  have m2: "fst (Migrate e w) = None \<longrightarrow>
        snd (main e mdb w) = snd (migrateAll e mdb (snd (Migrate e w)))"
    by (cases "Migrate e w") (simp add: main_def split: prod.splits option.splits)
  show ?thesis
    by (intro conjI t1 t2 t3 t4 t5 t6 t7 t8 t9 t10 t11 t12 t13 t14 Migrate_result all m1 m2)
qed

text \<open>
  Claim C9 as stated fails when a drop fails. The drop of \<open>services\<close> is the statement
  that fails; its error is ignored, \<open>Migrate\<close> succeeds, and the run begins against a
  destination that still holds the service migrated by the previous run, while the
  table of organizations has been emptied.
\<close>

theorem rows_survive_a_failed_drop:
  "services seeded = [serviceRow (Hex (oid 1)) service_1]
   \<and> fst (Migrate first_statement_fails seeded) = None
   \<and> services (snd (Migrate first_statement_fails seeded))
       = [serviceRow (Hex (oid 1)) service_1]
   \<and> organizations (snd (Migrate first_statement_fails seeded)) = []
   \<and> snd (main first_statement_fails empty_source seeded)
       = snd (migrateAll first_statement_fails empty_source
                (snd (Migrate first_statement_fails seeded)))"
proof -
  have f: "store_fault first_statement_fails n = (n = 0)" for n
    by (simp add: first_statement_fails_def)
  have a: "fst (Migrate first_statement_fails seeded) = None"
    by (simp add: Migrate_result f)
  have b: "services (snd (Migrate first_statement_fails seeded)) = services seeded"
    by (simp add: Migrate_table [of services Service_TableName, OF without_rows_tables(1)]
          drop_succeeds_Migrate_tables f seeded_tables)
  have c: "organizations (snd (Migrate first_statement_fails seeded)) = []"
    by (simp add: Migrate_table [of organizations Organization_TableName,
            OF without_rows_tables(2)] drop_succeeds_Migrate_tables f)
  have d: "snd (main first_statement_fails empty_source seeded)
       = snd (migrateAll first_statement_fails empty_source
                (snd (Migrate first_statement_fails seeded)))"
    using a by (cases "Migrate first_statement_fails seeded")
      (simp add: main_def split: prod.splits option.splits)
  show ?thesis
    using a b c d by (simp add: seeded_tables)
qed

text \<open>In a healthy run every table of the seeded destination is emptied.\<close>

theorem Migrate_drops_each_table_unless_its_drop_fails_witness:
  "services seeded \<noteq> []
   \<and> fst (Migrate healthy seeded) = None
   \<and> services (snd (Migrate healthy seeded)) = []
   \<and> organizations (snd (Migrate healthy seeded)) = []
   \<and> bank_payments_auto_apply_errors (snd (Migrate healthy seeded)) = []
   \<and> snd (main healthy empty_source seeded)
       = snd (migrateAll healthy empty_source (snd (Migrate healthy seeded)))"
proof -
  have f: "store_fault healthy n = False" for n
    by (simp add: healthy_def)
  note inst = Migrate_drops_each_table_unless_its_drop_fails [of healthy seeded empty_source]
  have h: "\<forall>i < 14. \<not> store_fault healthy (statements seeded + i)"
    by (simp add: f)
  have ok: "fst (Migrate healthy seeded) = None"
    using inst by (simp add: f)
  have "services (snd (Migrate healthy seeded)) = []
        \<and> organizations (snd (Migrate healthy seeded)) = []
        \<and> bank_payments_auto_apply_errors (snd (Migrate healthy seeded)) = []"
    using inst h by blast
  moreover have "snd (main healthy empty_source seeded)
       = snd (migrateAll healthy empty_source (snd (Migrate healthy seeded)))"
    using inst ok by blast
  ultimately show ?thesis
    using ok by (simp add: seeded_tables)
qed

section \<open>Child rows\<close>

lemma healthy_checkRecordExists:
  "id_column w table = Some ids \<Longrightarrow>
   checkRecordExists healthy w table i = (i \<in> set ids, sent w)"
  by (simp add: checkRecordExists_known healthy_never_faulty)

text \<open>Insert-or-ignore into a table without a unique key always appends.\<close>

lemma insert_row_ignore_no_keys:
  "insert_row_ignore False table [] r rows = (None, rows @ [r])"
  by (simp add: insert_row_ignore_def duplicate_key_def)

lemma serviceDemoUse_body_healthy:
  "serviceDemoUse_body healthy orgID t s k w
   = (Inr (k\<lparr>demoUsesMoved := demoUsesMoved k + 1\<rparr>),
      sent (w\<lparr>organization_service_demo_uses :=
                organization_service_demo_uses w @ [serviceDemoUseRow orgID t s]\<rparr>))"
  by (simp add: serviceDemoUse_body_def CreateOnConflictDoNothing_OrganizationServiceDemoUses_def
        OrganizationServiceDemoUses_keys_def insert_row_ignore_no_keys healthy_never_faulty)

text \<open>Every pass of the loop over the demo uses of an organization appends one row per
  entry, whatever the table holds already.\<close>

lemma serviceDemoUse_loop_healthy:
  "organization_service_demo_uses
     (snd (range_loop (serviceDemoUse_body healthy orgID t) xs k w))
   = organization_service_demo_uses w @ map (serviceDemoUseRow orgID t) xs
   \<and> organizations (snd (range_loop (serviceDemoUse_body healthy orgID t) xs k w))
     = organizations w
   \<and> (\<exists>k'. fst (range_loop (serviceDemoUse_body healthy orgID t) xs k w) = Inr k')"
proof (induction xs arbitrary: k w)
  case Nil
  then show ?case by simp
next
  case (Cons x xs)
  let ?k1 = "k\<lparr>demoUsesMoved := demoUsesMoved k + 1\<rparr>"
  let ?w1 = "sent (w\<lparr>organization_service_demo_uses :=
                organization_service_demo_uses w @ [serviceDemoUseRow orgID t x]\<rparr>)"
  have b: "serviceDemoUse_body healthy orgID t x k w = (Inr ?k1, ?w1)"
    by (rule serviceDemoUse_body_healthy)
  have "range_loop (serviceDemoUse_body healthy orgID t) (x # xs) k w
        = range_loop (serviceDemoUse_body healthy orgID t) xs ?k1 ?w1"
    by (simp add: b)
  with Cons.IH [of ?k1 ?w1] show ?case by simp
qed

lemma bonusPackage_body_healthy:
  "bonusPackage_body healthy pkgID bonus k w
   = (Inr (k\<lparr>bonusMoved := bonusMoved k + 1\<rparr>),
      sent (w\<lparr>package_activation_bonus_packages :=
                package_activation_bonus_packages w @ [bonusPackageRow pkgID bonus]\<rparr>))"
  by (simp add: bonusPackage_body_def CreateOnConflictDoNothing_PackageActivationBonusPackage_def
        PackageActivationBonusPackage_keys_def insert_row_ignore_no_keys healthy_never_faulty)

lemma bonusPackage_loop_healthy:
  "package_activation_bonus_packages
     (snd (range_loop (bonusPackage_body healthy pkgID) xs k w))
   = package_activation_bonus_packages w @ map (bonusPackageRow pkgID) xs
   \<and> packages (snd (range_loop (bonusPackage_body healthy pkgID) xs k w)) = packages w
   \<and> package_items (snd (range_loop (bonusPackage_body healthy pkgID) xs k w))
     = package_items w
   \<and> (\<exists>k'. fst (range_loop (bonusPackage_body healthy pkgID) xs k w) = Inr k')"
proof (induction xs arbitrary: k w)
  case Nil
  then show ?case by simp
next
  case (Cons x xs)
  let ?k1 = "k\<lparr>bonusMoved := bonusMoved k + 1\<rparr>"
  let ?w1 = "sent (w\<lparr>package_activation_bonus_packages :=
                package_activation_bonus_packages w @ [bonusPackageRow pkgID x]\<rparr>)"
  have b: "bonusPackage_body healthy pkgID x k w = (Inr ?k1, ?w1)"
    by (rule bonusPackage_body_healthy)
  have "range_loop (bonusPackage_body healthy pkgID) (x # xs) k w
        = range_loop (bonusPackage_body healthy pkgID) xs ?k1 ?w1"
    by (simp add: b)
  with Cons.IH [of ?k1 ?w1] show ?case by simp
qed

section \<open>The one primary key of the package items\<close>

lemma packageItemRow_ID: "PackageItem_ID (packageItemRow pkgID item) = ''''"
  by (simp add: packageItemRow_def)

text \<open>An insert-or-ignore of a package item into a table that holds a row with the empty
  identifier changes nothing; into the empty table it puts one row.\<close>

lemma packageItem_body_rows:
  "package_items (snd (packageItem_body e pkgID item k w))
   = (if package_items w = [] \<and> \<not> faulty e w then [packageItemRow pkgID item]
      else package_items w)"
  if "\<forall>r \<in> set (package_items w). PackageItem_ID r = ''''"
proof (cases "package_items w")
  case Nil
  then show ?thesis
    by (simp add: packageItem_body_def CreateOnConflictDoNothing_PackageItem_def
          insert_row_ignore_def duplicate_key_def PackageItem_keys_def
          split: prod.splits option.splits)
next
  case (Cons r rows)
  with that have "duplicate_key PackageItem_keys (packageItemRow pkgID item) (package_items w)"
    by (simp add: duplicate_key_def PackageItem_keys_def packageItemRow_ID)
  with Cons show ?thesis
    by (simp add: packageItem_body_def CreateOnConflictDoNothing_PackageItem_def
          insert_row_ignore_def split: prod.splits option.splits)
qed

text \<open>The invariant: at most one row, and every row has the empty identifier.\<close>

lemma packageItem_body_invariant:
  assumes "length (package_items w) \<le> 1 \<and> (\<forall>r \<in> set (package_items w). PackageItem_ID r = '''')"
  shows "length (package_items (snd (packageItem_body e pkgID item k w))) \<le> 1
    \<and> (\<forall>r \<in> set (package_items (snd (packageItem_body e pkgID item k w))).
          PackageItem_ID r = '''')"
  using assms by (simp add: packageItem_body_rows packageItemRow_ID)

lemma bonusPackage_body_package_items:
  "package_items (snd (bonusPackage_body e pkgID bonus k w)) = package_items w"
  by (simp add: bonusPackage_body_def
        CreateOnConflictDoNothing_PackageActivationBonusPackage_def
        split: prod.splits option.splits)

lemma packageChildren_invariant:
  assumes "length (package_items w) \<le> 1 \<and> (\<forall>r \<in> set (package_items w). PackageItem_ID r = '''')"
  shows "length (package_items (snd (packageChildren e pkgID p k w))) \<le> 1
    \<and> (\<forall>r \<in> set (package_items (snd (packageChildren e pkgID p k w))).
          PackageItem_ID r = '''')"
proof -
  let ?P = "\<lambda>w. length (package_items w) \<le> 1
                \<and> (\<forall>r \<in> set (package_items w). PackageItem_ID r = '''')"
  obtain r w1 where items: "range_loop (packageItem_body e pkgID) (p_Items p) k w = (r, w1)"
    by (cases "range_loop (packageItem_body e pkgID) (p_Items p) k w")
  have "?P (snd (range_loop (packageItem_body e pkgID) (p_Items p) k w))"
    by (rule range_loop_invariant [where P = ?P, OF packageItem_body_invariant assms])
  with items have p1: "?P w1" by simp
  show ?thesis
  proof (cases r)
    case (Inl err)
    with items p1 show ?thesis by (simp add: packageChildren_def)
  next
    case (Inr k1)
    have "package_items (snd (range_loop (bonusPackage_body e pkgID)
            (p_OnActivationBonusPackages p) k1 w1)) = package_items w1"
      by (rule range_loop_frame [of package_items, OF bonusPackage_body_package_items])
    with Inr items p1 show ?thesis by (simp add: packageChildren_def)
  qed
qed

lemma Create_Package_package_items:
  "package_items (snd (Create_Package e r w)) = package_items w"
  by (simp add: Create_Package_def insert_row_def split: prod.splits)

lemma migratePackages_body_invariant:
  assumes "length (package_items w) \<le> 1 \<and> (\<forall>r \<in> set (package_items w). PackageItem_ID r = '''')"
  shows "length (package_items (snd (migratePackages_body e p k w))) \<le> 1
    \<and> (\<forall>r \<in> set (package_items (snd (migratePackages_body e p k w))).
          PackageItem_ID r = '''')"
proof -
  let ?P = "\<lambda>w. length (package_items w) \<le> 1
                \<and> (\<forall>r \<in> set (package_items w). PackageItem_ID r = '''')"
  let ?c = "checkRecordExists e w Package_TableName (Hex (p_ID p))"
  have c: "?c = (fst ?c, sent w)"
    by (simp add: checkRecordExists_known [OF id_column_parents(3)])
  have ps: "?P (sent w)" using assms by simp
  show ?thesis
  proof (cases "fst ?c")
    case True
    with c have "migratePackages_body e p k w
        = packageChildren e (Hex (p_ID p)) p (k\<lparr>skipped := skipped k + 1\<rparr>) (sent w)"
      by (simp add: migratePackages_body_def Let_def)
    with packageChildren_invariant [OF ps] show ?thesis by simp
  next
    case False
    obtain r w2 where cr: "Create_Package e (packageRow (Hex (p_ID p)) p) (sent w) = (r, w2)"
      by (cases "Create_Package e (packageRow (Hex (p_ID p)) p) (sent w)")
    with Create_Package_package_items [of e "packageRow (Hex (p_ID p)) p" "sent w"] ps
    have p2: "?P w2" by simp
    show ?thesis
    proof (cases r)
      case (Some err)
      with c False cr p2 show ?thesis
        by (simp add: migratePackages_body_def Let_def)
    next
      case None
      obtain r3 w3 where ch: "packageChildren e (Hex (p_ID p)) p k w2 = (r3, w3)"
        by (cases "packageChildren e (Hex (p_ID p)) p k w2")
      with packageChildren_invariant [OF p2, of e "Hex (p_ID p)" p k] have "?P w3" by simp
      with c False cr None ch show ?thesis
        by (cases r3) (simp_all add: migratePackages_body_def Let_def)
    qed
  qed
qed

lemma migratePackages_invariant:
  assumes "length (package_items w) \<le> 1 \<and> (\<forall>r \<in> set (package_items w). PackageItem_ID r = '''')"
  shows "length (package_items (snd (migratePackages e mdb w))) \<le> 1
    \<and> (\<forall>r \<in> set (package_items (snd (migratePackages e mdb w))). PackageItem_ID r = '''')"
  unfolding migratePackages_def
  by (rule find_and_loop_invariant
      [where P = "\<lambda>w. length (package_items w) \<le> 1
                    \<and> (\<forall>r \<in> set (package_items w). PackageItem_ID r = '''')",
        OF migratePackages_body_invariant assms])

text \<open>Once the table holds a row with the empty identifier, no package item is added.\<close>

lemma migratePackages_body_no_more_items:
  assumes "package_items w = rows \<and> rows \<noteq> [] \<and> (\<forall>r \<in> set rows. PackageItem_ID r = '''')"
  shows "package_items (snd (migratePackages_body e p k w)) = rows \<and> rows \<noteq> []
         \<and> (\<forall>r \<in> set rows. PackageItem_ID r = '''')"
proof -
  let ?P = "\<lambda>w. package_items w = rows \<and> rows \<noteq> [] \<and> (\<forall>r \<in> set rows. PackageItem_ID r = '''')"
  have item: "?P (snd (packageItem_body e pkgID item k w))" if "?P w" for pkgID item k w
    using that by (simp add: packageItem_body_rows)
  have bonus: "?P (snd (bonusPackage_body e pkgID b k w))" if "?P w" for pkgID b k w
    using that by (simp add: bonusPackage_body_package_items)
  have children: "?P (snd (packageChildren e pkgID p k w))" if pw: "?P w" for pkgID k w
  proof -
    obtain r w1 where items: "range_loop (packageItem_body e pkgID) (p_Items p) k w = (r, w1)"
      by (cases "range_loop (packageItem_body e pkgID) (p_Items p) k w")
    have "?P (snd (range_loop (packageItem_body e pkgID) (p_Items p) k w))"
      by (rule range_loop_invariant [where P = ?P, OF item pw])
    with items have p1: "?P w1" by simp
    show ?thesis
    proof (cases r)
      case (Inl err)
      with items p1 show ?thesis by (simp add: packageChildren_def)
    next
      case (Inr k1)
      have "?P (snd (range_loop (bonusPackage_body e pkgID)
              (p_OnActivationBonusPackages p) k1 w1))"
        by (rule range_loop_invariant [where P = ?P, OF bonus p1])
      with Inr items show ?thesis by (simp add: packageChildren_def)
    qed
  qed
  let ?c = "checkRecordExists e w Package_TableName (Hex (p_ID p))"
  have c: "?c = (fst ?c, sent w)"
    by (simp add: checkRecordExists_known [OF id_column_parents(3)])
  have ps: "?P (sent w)" using assms by simp
  show ?thesis
  proof (cases "fst ?c")
    case True
    with c have "migratePackages_body e p k w
        = packageChildren e (Hex (p_ID p)) p (k\<lparr>skipped := skipped k + 1\<rparr>) (sent w)"
      by (simp add: migratePackages_body_def Let_def)
    with children [OF ps] show ?thesis by simp
  next
    case False
    obtain r w2 where cr: "Create_Package e (packageRow (Hex (p_ID p)) p) (sent w) = (r, w2)"
      by (cases "Create_Package e (packageRow (Hex (p_ID p)) p) (sent w)")
    with Create_Package_package_items [of e "packageRow (Hex (p_ID p)) p" "sent w"] ps
    have p2: "?P w2" by simp
    show ?thesis
    proof (cases r)
      case (Some err)
      with c False cr p2 show ?thesis
        by (simp add: migratePackages_body_def Let_def)
    next
      case None
      obtain r3 w3 where ch: "packageChildren e (Hex (p_ID p)) p k w2 = (r3, w3)"
        by (cases "packageChildren e (Hex (p_ID p)) p k w2")
      with children [OF p2, of "Hex (p_ID p)" k] have "?P w3" by simp
      with c False cr None ch show ?thesis
        by (cases r3) (simp_all add: migratePackages_body_def Let_def)
    qed
  qed
qed

lemma migratePackages_no_more_items:
  assumes "package_items w \<noteq> []" and "\<forall>r \<in> set (package_items w). PackageItem_ID r = ''''"
  shows "package_items (snd (migratePackages e mdb w)) = package_items w"
proof -
  let ?rows = "package_items w"
  let ?P = "\<lambda>w. package_items w = ?rows \<and> ?rows \<noteq> []
                \<and> (\<forall>r \<in> set ?rows. PackageItem_ID r = '''')"
  have "?P (snd (find_and_loop (coll_packages mdb) (migratePackages_body e) w))"
  proof (rule find_and_loop_invariant [where P = ?P])
    show "?P w" using assms by simp
  next
    fix d k and w' :: world
    assume "?P w'"
    then show "?P (snd (migratePackages_body e d k w'))"
      by (rule migratePackages_body_no_more_items)
  qed
  then show ?thesis by (simp add: migratePackages_def)
qed

text \<open>
  Claim C10. The row of a package item is built with the empty string as its
  identifier, which is the primary key of the table. Starting from a table that holds
  at most one row, and only rows with that identifier (the empty table in
  particular), the package migrator leaves at most one row in it, whatever the source
  holds and whichever statements fail; once a row is there, no other is ever added.
\<close>

theorem package_items_at_most_one_row:
  "PackageItem_ID (packageItemRow pkgID item) = ''''
   \<and> (length (package_items w) \<le> 1 \<and> (\<forall>r \<in> set (package_items w). PackageItem_ID r = '''')
      \<longrightarrow> length (package_items (snd (migratePackages e mdb w))) \<le> 1
         \<and> (\<forall>r \<in> set (package_items (snd (migratePackages e mdb w))).
               PackageItem_ID r = ''''))
   \<and> (package_items w = [] \<longrightarrow> length (package_items (snd (migratePackages e mdb w))) \<le> 1)
   \<and> (package_items w \<noteq> [] \<and> (\<forall>r \<in> set (package_items w). PackageItem_ID r = '''')
      \<longrightarrow> package_items (snd (migratePackages e mdb w)) = package_items w)"
proof -
  have a: "length (package_items w) \<le> 1 \<and> (\<forall>r \<in> set (package_items w). PackageItem_ID r = '''')
      \<longrightarrow> length (package_items (snd (migratePackages e mdb w))) \<le> 1
         \<and> (\<forall>r \<in> set (package_items (snd (migratePackages e mdb w))).
               PackageItem_ID r = '''')"
    using migratePackages_invariant by blast
  have b: "package_items w = [] \<longrightarrow> length (package_items (snd (migratePackages e mdb w))) \<le> 1"
    using migratePackages_invariant [of w e mdb] by simp
  have c: "package_items w \<noteq> [] \<and> (\<forall>r \<in> set (package_items w). PackageItem_ID r = '''')
      \<longrightarrow> package_items (snd (migratePackages e mdb w)) = package_items w"
    using migratePackages_no_more_items by blast
  show ?thesis
    by (intro conjI packageItemRow_ID a b c)
qed

text \<open>The sample package has three items; the migrator leaves the row of the first of
  them, in the first run and in the second.\<close>

theorem package_items_at_most_one_row_witness:
  "length (p_Items package_3) = 3
   \<and> package_items empty_world = []
   \<and> length (package_items (snd (migratePackages healthy organization_and_package empty_world)))
       \<le> 1
   \<and> package_items (snd (migratePackages healthy organization_and_package empty_world))
       = [packageItemRow (Hex (oid 3)) item_a]
   \<and> package_items
        (snd (migratePackages healthy organization_and_package
               (snd (migratePackages healthy organization_and_package empty_world))))
       = [packageItemRow (Hex (oid 3)) item_a]"
proof -
  let ?w1 = "snd (migratePackages healthy organization_and_package empty_world)"
  have n: "length (p_Items package_3) = 3"
    by (simp add: package_3_def)
  have z: "package_items empty_world = []"
    by (simp add: empty_world_def)
  have w1: "package_items ?w1 = [packageItemRow (Hex (oid 3)) item_a]"
    by code_simp
  note first = package_items_at_most_one_row
    [where w = empty_world and e = healthy and mdb = organization_and_package]
  note second = package_items_at_most_one_row
    [where w = ?w1 and e = healthy and mdb = organization_and_package]
  from first z
  have a: "length (package_items ?w1) \<le> 1"
    by simp
  from second w1
  have b: "package_items (snd (migratePackages healthy organization_and_package ?w1))
           = [packageItemRow (Hex (oid 3)) item_a]"
    by (simp add: packageItemRow_ID)
  show ?thesis
    by (intro conjI n z a w1 b)
qed

section \<open>Healthy runs over the same source\<close>

lemma packageItem_body_healthy_fst:
  "fst (packageItem_body healthy pkgID item k w) = Inr (k\<lparr>itemsMoved := itemsMoved k + 1\<rparr>)"
  by (simp add: packageItem_body_def CreateOnConflictDoNothing_PackageItem_def
        insert_row_ignore_def healthy_never_faulty split: prod.splits)

lemma packageItem_body_healthy_frame:
  "packages (snd (packageItem_body healthy pkgID item k w)) = packages w"
  "package_activation_bonus_packages (snd (packageItem_body healthy pkgID item k w))
     = package_activation_bonus_packages w"
  by (simp_all add: packageItem_body_def CreateOnConflictDoNothing_PackageItem_def
        split: prod.splits option.splits)

text \<open>In a healthy run the loop over the items of a package adds the first item when the
  table is empty and nothing otherwise.\<close>

lemma packageItem_loop_healthy:
  assumes "\<forall>r \<in> set (package_items w). PackageItem_ID r = ''''"
  shows "package_items (snd (range_loop (packageItem_body healthy pkgID) xs k w))
         = (if package_items w = [] \<and> xs \<noteq> [] then [packageItemRow pkgID (hd xs)]
            else package_items w)
    \<and> package_activation_bonus_packages
        (snd (range_loop (packageItem_body healthy pkgID) xs k w))
      = package_activation_bonus_packages w
    \<and> (\<exists>k'. fst (range_loop (packageItem_body healthy pkgID) xs k w) = Inr k')"
  using assms
proof (induction xs arbitrary: k w)
  case Nil
  then show ?case by simp
next
  case (Cons x xs)
  obtain r w1 where b: "packageItem_body healthy pkgID x k w = (r, w1)"
    by (cases "packageItem_body healthy pkgID x k w")
  with packageItem_body_healthy_fst [of pkgID x k w]
  have r: "r = Inr (k\<lparr>itemsMoved := itemsMoved k + 1\<rparr>)" by simp
  from b packageItem_body_rows [OF Cons.prems, of healthy pkgID x k]
  have rows: "package_items w1
      = (if package_items w = [] then [packageItemRow pkgID x] else package_items w)"
    by (simp add: healthy_never_faulty)
  from b packageItem_body_healthy_frame(2) [of pkgID x k w]
  have bonus: "package_activation_bonus_packages w1 = package_activation_bonus_packages w"
    by simp
  have keys: "\<forall>r \<in> set (package_items w1). PackageItem_ID r = ''''"
    using rows Cons.prems by (simp add: packageItemRow_ID)
  have "range_loop (packageItem_body healthy pkgID) (x # xs) k w
        = range_loop (packageItem_body healthy pkgID) xs (k\<lparr>itemsMoved := itemsMoved k + 1\<rparr>) w1"
    by (simp add: b r)
  with Cons.IH [OF keys, of "k\<lparr>itemsMoved := itemsMoved k + 1\<rparr>"] rows bonus
  show ?case by simp
qed

lemma packageChildren_healthy:
  assumes "\<forall>r \<in> set (package_items w). PackageItem_ID r = ''''"
  shows "package_items (snd (packageChildren healthy pkgID p k w))
         = (if package_items w = [] \<and> p_Items p \<noteq> [] then [packageItemRow pkgID (hd (p_Items p))]
            else package_items w)
    \<and> package_activation_bonus_packages (snd (packageChildren healthy pkgID p k w))
      = package_activation_bonus_packages w
        @ map (bonusPackageRow pkgID) (p_OnActivationBonusPackages p)
    \<and> (\<exists>k'. fst (packageChildren healthy pkgID p k w) = Inr k')"
proof -
  obtain r w1 where items: "range_loop (packageItem_body healthy pkgID) (p_Items p) k w = (r, w1)"
    by (cases "range_loop (packageItem_body healthy pkgID) (p_Items p) k w")
  with packageItem_loop_healthy [OF assms, of pkgID "p_Items p" k]
  obtain k1 where r: "r = Inr k1"
    and rows: "package_items w1
      = (if package_items w = [] \<and> p_Items p \<noteq> [] then [packageItemRow pkgID (hd (p_Items p))]
         else package_items w)"
    and bonus: "package_activation_bonus_packages w1 = package_activation_bonus_packages w"
    by auto
  have "packageChildren healthy pkgID p k w
        = range_loop (bonusPackage_body healthy pkgID) (p_OnActivationBonusPackages p) k1 w1"
    by (simp add: packageChildren_def items r)
  with bonusPackage_loop_healthy [of pkgID "p_OnActivationBonusPackages p" k1 w1] rows bonus
  show ?thesis by simp
qed

lemma Create_Package_healthy:
  assumes "Package_ID r \<notin> set (map Package_ID (packages w))"
  shows "fst (Create_Package healthy r w) = None"
    and "package_items (snd (Create_Package healthy r w)) = package_items w"
    and "package_activation_bonus_packages (snd (Create_Package healthy r w))
         = package_activation_bonus_packages w"
proof -
  have "\<not> duplicate_key [Package_ID] r (packages w)"
    using assms by (auto simp: duplicate_key_def list_ex_iff image_iff)
  then show "fst (Create_Package healthy r w) = None"
    and "package_items (snd (Create_Package healthy r w)) = package_items w"
    and "package_activation_bonus_packages (snd (Create_Package healthy r w))
         = package_activation_bonus_packages w"
    by (simp_all add: Create_Package_def insert_row_def healthy_never_faulty)
qed

text \<open>In a healthy run every package, new or already migrated, has its children written.\<close>

lemma migratePackages_body_healthy:
  assumes "\<forall>r \<in> set (package_items w). PackageItem_ID r = ''''"
  shows "package_items (snd (migratePackages_body healthy p k w))
         = (if package_items w = [] \<and> p_Items p \<noteq> []
            then [packageItemRow (Hex (p_ID p)) (hd (p_Items p))]
            else package_items w)
    \<and> package_activation_bonus_packages (snd (migratePackages_body healthy p k w))
      = package_activation_bonus_packages w
        @ map (bonusPackageRow (Hex (p_ID p))) (p_OnActivationBonusPackages p)
    \<and> (\<exists>k'. fst (migratePackages_body healthy p k w) = Inr k')"
proof (cases "Hex (p_ID p) \<in> set (map Package_ID (packages w))")
  case True
  then have "migratePackages_body healthy p k w
      = packageChildren healthy (Hex (p_ID p)) p (k\<lparr>skipped := skipped k + 1\<rparr>) (sent w)"
    by (simp add: migratePackages_skip healthy_never_faulty)
  with packageChildren_healthy [of "sent w" "Hex (p_ID p)" p "k\<lparr>skipped := skipped k + 1\<rparr>"]
    assms
  show ?thesis by simp
next
  case False
  let ?row = "packageRow (Hex (p_ID p)) p"
  have c: "checkRecordExists healthy w Package_TableName (Hex (p_ID p)) = (False, sent w)"
    using False by (simp add: healthy_checkRecordExists [OF id_column_parents(3)])
  obtain r w2 where cr: "Create_Package healthy ?row (sent w) = (r, w2)"
    by (cases "Create_Package healthy ?row (sent w)")
  have "Package_ID ?row \<notin> set (map Package_ID (packages (sent w)))"
    using False by (simp add: row_ids)
  from Create_Package_healthy [OF this] cr
  have r: "r = None" and w2: "package_items w2 = package_items w"
    "package_activation_bonus_packages w2 = package_activation_bonus_packages w"
    by simp_all
  obtain r3 w3 where ch: "packageChildren healthy (Hex (p_ID p)) p k w2 = (r3, w3)"
    by (cases "packageChildren healthy (Hex (p_ID p)) p k w2")
  have keys: "\<forall>r \<in> set (package_items w2). PackageItem_ID r = ''''"
    using assms w2 by simp
  from packageChildren_healthy [OF keys, of "Hex (p_ID p)" p k] ch w2
  obtain k3 where r3: "r3 = Inr k3"
    and rows: "package_items w3
         = (if package_items w = [] \<and> p_Items p \<noteq> []
            then [packageItemRow (Hex (p_ID p)) (hd (p_Items p))]
            else package_items w)"
    and bonus: "package_activation_bonus_packages w3
      = package_activation_bonus_packages w
        @ map (bonusPackageRow (Hex (p_ID p))) (p_OnActivationBonusPackages p)"
    by auto
  have "migratePackages_body healthy p k w = (Inr (k3\<lparr>moved := moved k3 + 1\<rparr>), w3)"
    using c cr r ch r3 by (simp add: migratePackages_body_def Let_def)
  with rows bonus show ?thesis by simp
qed

lemma Create_Organization_healthy:
  assumes "Organization_ID r \<notin> set (map Organization_ID (organizations w))"
  shows "fst (Create_Organization healthy r w) = None"
    and "organization_service_demo_uses (snd (Create_Organization healthy r w))
         = organization_service_demo_uses w"
proof -
  have "\<not> duplicate_key [Organization_ID] r (organizations w)"
    using assms by (auto simp: duplicate_key_def list_ex_iff image_iff)
  then show "fst (Create_Organization healthy r w) = None"
    and "organization_service_demo_uses (snd (Create_Organization healthy r w))
         = organization_service_demo_uses w"
    by (simp_all add: Create_Organization_def insert_row_def healthy_never_faulty)
qed

text \<open>In a healthy run every organization, new or already migrated, gets one more row
  per demo use.\<close>

lemma migrateOrganizations_body_healthy:
  "organization_service_demo_uses (snd (migrateOrganizations_body healthy doc k w))
   = organization_service_demo_uses w
     @ map (serviceDemoUseRow (Hex (o_ID doc)) (o_CreatedAt doc)) (o_ServiceDemoUses doc)"
proof (cases "Hex (o_ID doc) \<in> set (map Organization_ID (organizations w))")
  case True
  then have "migrateOrganizations_body healthy doc k w
      = range_loop (serviceDemoUse_body healthy (Hex (o_ID doc)) (o_CreatedAt doc))
          (o_ServiceDemoUses doc) (k\<lparr>skipped := skipped k + 1\<rparr>) (sent w)"
    by (simp add: migrateOrganizations_skip healthy_never_faulty)
  with serviceDemoUse_loop_healthy [of "Hex (o_ID doc)" "o_CreatedAt doc"
      "o_ServiceDemoUses doc" "k\<lparr>skipped := skipped k + 1\<rparr>" "sent w"]
  show ?thesis by simp
next
  case False
  let ?row = "organizationRow (Hex (o_ID doc)) doc"
  have c: "checkRecordExists healthy w Organization_TableName (Hex (o_ID doc))
           = (False, sent w)"
    using False by (simp add: healthy_checkRecordExists [OF id_column_parents(2)])
  obtain r w2 where cr: "Create_Organization healthy ?row (sent w) = (r, w2)"
    by (cases "Create_Organization healthy ?row (sent w)")
  have "Organization_ID ?row \<notin> set (map Organization_ID (organizations (sent w)))"
    using False by (simp add: row_ids)
  from Create_Organization_healthy [OF this] cr
  have r: "r = None"
    and w2: "organization_service_demo_uses w2 = organization_service_demo_uses w"
    by simp_all
  let ?loop = "range_loop (serviceDemoUse_body healthy (Hex (o_ID doc)) (o_CreatedAt doc))
      (o_ServiceDemoUses doc) k w2"
  obtain r3 w3 where ch: "?loop = (r3, w3)" by (cases ?loop)
  have "snd (migrateOrganizations_body healthy doc k w) = w3"
    using c cr r ch by (cases r3) (simp_all add: migrateOrganizations_body_def Let_def)
  moreover from serviceDemoUse_loop_healthy [of "Hex (o_ID doc)" "o_CreatedAt doc"
      "o_ServiceDemoUses doc" k w2] ch w2
  have "organization_service_demo_uses w3
        = organization_service_demo_uses w
          @ map (serviceDemoUseRow (Hex (o_ID doc)) (o_CreatedAt doc)) (o_ServiceDemoUses doc)"
    by simp
  ultimately show ?thesis by simp
qed

lemma migrateOrganizations_body_healthy_fst:
  "\<exists>k'. fst (migrateOrganizations_body healthy doc k w) = Inr k'"
proof (cases "Hex (o_ID doc) \<in> set (map Organization_ID (organizations w))")
  case True
  then have "migrateOrganizations_body healthy doc k w
      = range_loop (serviceDemoUse_body healthy (Hex (o_ID doc)) (o_CreatedAt doc))
          (o_ServiceDemoUses doc) (k\<lparr>skipped := skipped k + 1\<rparr>) (sent w)"
    by (simp add: migrateOrganizations_skip healthy_never_faulty)
  with serviceDemoUse_loop_healthy [of "Hex (o_ID doc)" "o_CreatedAt doc"
      "o_ServiceDemoUses doc" "k\<lparr>skipped := skipped k + 1\<rparr>" "sent w"]
  show ?thesis by simp
next
  case False
  let ?row = "organizationRow (Hex (o_ID doc)) doc"
  have c: "checkRecordExists healthy w Organization_TableName (Hex (o_ID doc))
           = (False, sent w)"
    using False by (simp add: healthy_checkRecordExists [OF id_column_parents(2)])
  obtain r w2 where cr: "Create_Organization healthy ?row (sent w) = (r, w2)"
    by (cases "Create_Organization healthy ?row (sent w)")
  have "Organization_ID ?row \<notin> set (map Organization_ID (organizations (sent w)))"
    using False by (simp add: row_ids)
  from Create_Organization_healthy(1) [OF this] cr have r: "r = None" by simp
  let ?loop = "range_loop (serviceDemoUse_body healthy (Hex (o_ID doc)) (o_CreatedAt doc))
      (o_ServiceDemoUses doc) k w2"
  obtain r3 w3 where ch: "?loop = (r3, w3)" by (cases ?loop)
  with serviceDemoUse_loop_healthy [of "Hex (o_ID doc)" "o_CreatedAt doc"
      "o_ServiceDemoUses doc" k w2]
  obtain k3 where "r3 = Inr k3" by auto
  with c cr r ch show ?thesis
    by (simp add: migrateOrganizations_body_def Let_def)
qed
section \<open>Two runs over the same source\<close>

lemma find_and_loop_single:
  "find_and_loop (Inr [Inr d]) body w
   = (case body d no_counts w of (Inl err, w') \<Rightarrow> (Some err, w') | (Inr k, w') \<Rightarrow> (None, w'))"
  by (simp add: find_and_loop_def split: prod.splits sum.splits)

lemma one_organization_one_package_collections:
  "coll_organizations (one_organization_one_package doc p) = Inr [Inr doc]"
  "coll_packages (one_organization_one_package doc p) = Inr [Inr p]"
  by (simp_all add: one_organization_one_package_def empty_source_def)

lemma migrateOrganizations_healthy_single:
  "fst (migrateOrganizations healthy (one_organization_one_package doc p) w) = None
   \<and> organization_service_demo_uses
       (snd (migrateOrganizations healthy (one_organization_one_package doc p) w))
     = organization_service_demo_uses w
       @ map (serviceDemoUseRow (Hex (o_ID doc)) (o_CreatedAt doc)) (o_ServiceDemoUses doc)"
proof -
  obtain r w1 where b: "migrateOrganizations_body healthy doc no_counts w = (r, w1)"
    by (cases "migrateOrganizations_body healthy doc no_counts w")
  with migrateOrganizations_body_healthy_fst [of doc no_counts w]
  obtain k1 where r: "r = Inr k1" by auto
  from b migrateOrganizations_body_healthy [of doc no_counts w]
  have "organization_service_demo_uses w1
        = organization_service_demo_uses w
          @ map (serviceDemoUseRow (Hex (o_ID doc)) (o_CreatedAt doc)) (o_ServiceDemoUses doc)"
    by simp
  with b r show ?thesis
    by (simp add: migrateOrganizations_def one_organization_one_package_collections
          find_and_loop_single)
qed

lemma migratePackages_healthy_single:
  assumes "\<forall>r \<in> set (package_items w). PackageItem_ID r = ''''"
  shows "fst (migratePackages healthy (one_organization_one_package doc p) w) = None
    \<and> package_items (snd (migratePackages healthy (one_organization_one_package doc p) w))
      = (if package_items w = [] then take 1 (map (packageItemRow (Hex (p_ID p))) (p_Items p))
         else package_items w)
    \<and> package_activation_bonus_packages
        (snd (migratePackages healthy (one_organization_one_package doc p) w))
      = package_activation_bonus_packages w
        @ map (bonusPackageRow (Hex (p_ID p))) (p_OnActivationBonusPackages p)"
proof -
  obtain r w1 where b: "migratePackages_body healthy p no_counts w = (r, w1)"
    by (cases "migratePackages_body healthy p no_counts w")
  with migratePackages_body_healthy [OF assms, of p no_counts]
  obtain k1 where r: "r = Inr k1"
    and rows: "package_items w1
         = (if package_items w = [] \<and> p_Items p \<noteq> []
            then [packageItemRow (Hex (p_ID p)) (hd (p_Items p))]
            else package_items w)"
    and bonus: "package_activation_bonus_packages w1
      = package_activation_bonus_packages w
        @ map (bonusPackageRow (Hex (p_ID p))) (p_OnActivationBonusPackages p)"
    by auto
  have "package_items w1
        = (if package_items w = [] then take 1 (map (packageItemRow (Hex (p_ID p))) (p_Items p))
           else package_items w)"
    unfolding rows by (cases "p_Items p") simp_all
  with b r bonus show ?thesis
    by (simp add: migratePackages_def one_organization_one_package_collections
          find_and_loop_single)
qed

text \<open>
  Claim C2. The tables of the demo uses and of the bonus packages have no unique key,
  so the insert-or-ignore write has nothing to compare and adds a row each time: in a
  run in which no statement fails, the organization migrator adds one row per demo use
  of the document to whatever the table holds, so a second run over the same source
  leaves every row twice; the same holds for the bonus packages of a package. The rows
  of the package items all carry the empty identifier, the primary key, so from an
  empty table a run leaves the row of the first item alone and a second run adds
  nothing. For the sample source (two demo uses, three items, one bonus package) two
  runs of \<open>migrateAll\<close> end without an error and leave four, one and two rows; two runs
  of \<open>main\<close>, each of which drops the tables first, leave two, one and one.
\<close>

theorem child_rows_after_two_runs:
  "fst (migrateOrganizations healthy (one_organization_one_package doc p) w) = None
   \<and> fst (migrateOrganizations healthy (one_organization_one_package doc p)
            (snd (migrateOrganizations healthy (one_organization_one_package doc p) w))) = None
   \<and> organization_service_demo_uses
       (snd (migrateOrganizations healthy (one_organization_one_package doc p)
              (snd (migrateOrganizations healthy (one_organization_one_package doc p) w))))
     = organization_service_demo_uses w
       @ map (serviceDemoUseRow (Hex (o_ID doc)) (o_CreatedAt doc)) (o_ServiceDemoUses doc)
       @ map (serviceDemoUseRow (Hex (o_ID doc)) (o_CreatedAt doc)) (o_ServiceDemoUses doc)
   \<and> fst (migratePackages healthy (one_organization_one_package doc p)
            (w\<lparr>package_items := []\<rparr>)) = None
   \<and> fst (migratePackages healthy (one_organization_one_package doc p)
            (snd (migratePackages healthy (one_organization_one_package doc p)
                   (w\<lparr>package_items := []\<rparr>)))) = None
   \<and> package_activation_bonus_packages
       (snd (migratePackages healthy (one_organization_one_package doc p)
              (snd (migratePackages healthy (one_organization_one_package doc p)
                     (w\<lparr>package_items := []\<rparr>)))))
     = package_activation_bonus_packages w
       @ map (bonusPackageRow (Hex (p_ID p))) (p_OnActivationBonusPackages p)
       @ map (bonusPackageRow (Hex (p_ID p))) (p_OnActivationBonusPackages p)
   \<and> package_items
       (snd (migratePackages healthy (one_organization_one_package doc p)
              (w\<lparr>package_items := []\<rparr>)))
     = take 1 (map (packageItemRow (Hex (p_ID p))) (p_Items p))
   \<and> package_items
       (snd (migratePackages healthy (one_organization_one_package doc p)
              (snd (migratePackages healthy (one_organization_one_package doc p)
                     (w\<lparr>package_items := []\<rparr>)))))
     = take 1 (map (packageItemRow (Hex (p_ID p))) (p_Items p))
   \<and> length (o_ServiceDemoUses organization_2) = 2
   \<and> length (p_Items package_3) = 3
   \<and> length (p_OnActivationBonusPackages package_3) = 1
   \<and> fst (migrateAll healthy organization_and_package empty_world) = None
   \<and> fst (migrateAll healthy organization_and_package
            (snd (migrateAll healthy organization_and_package empty_world))) = None
   \<and> length (organization_service_demo_uses
       (snd (migrateAll healthy organization_and_package
              (snd (migrateAll healthy organization_and_package empty_world))))) = 4
   \<and> length (package_items
       (snd (migrateAll healthy organization_and_package
              (snd (migrateAll healthy organization_and_package empty_world))))) = 1
   \<and> length (package_activation_bonus_packages
       (snd (migrateAll healthy organization_and_package
              (snd (migrateAll healthy organization_and_package empty_world))))) = 2
   \<and> fst (main healthy organization_and_package
            (snd (main healthy organization_and_package empty_world))) = None
   \<and> length (organization_service_demo_uses
       (snd (main healthy organization_and_package
              (snd (main healthy organization_and_package empty_world))))) = 2
   \<and> length (package_items
       (snd (main healthy organization_and_package
              (snd (main healthy organization_and_package empty_world))))) = 1
   \<and> length (package_activation_bonus_packages
       (snd (main healthy organization_and_package
              (snd (main healthy organization_and_package empty_world))))) = 1"
proof -
  let ?src = "one_organization_one_package doc p"
  let ?demo = "map (serviceDemoUseRow (Hex (o_ID doc)) (o_CreatedAt doc)) (o_ServiceDemoUses doc)"
  let ?bonus = "map (bonusPackageRow (Hex (p_ID p))) (p_OnActivationBonusPackages p)"
  let ?items = "take 1 (map (packageItemRow (Hex (p_ID p))) (p_Items p))"
  let ?o1 = "snd (migrateOrganizations healthy ?src w)"
  let ?w0 = "w\<lparr>package_items := []\<rparr>"
  let ?p1 = "snd (migratePackages healthy ?src ?w0)"
  let ?p2 = "snd (migratePackages healthy ?src ?p1)"
  note o_first = migrateOrganizations_healthy_single [of doc p w]
  note o_second = migrateOrganizations_healthy_single [of doc p ?o1]
  have c1: "fst (migrateOrganizations healthy ?src w) = None"
    using o_first by simp
  have c2: "fst (migrateOrganizations healthy ?src ?o1) = None"
    using o_second by simp
  have c3: "organization_service_demo_uses (snd (migrateOrganizations healthy ?src ?o1))
            = organization_service_demo_uses w @ ?demo @ ?demo"
    using o_first o_second by simp
  have k0: "\<forall>r \<in> set (package_items ?w0). PackageItem_ID r = ''''"
    by simp
  note p_first = migratePackages_healthy_single [OF k0, of doc p]
  have c4: "fst (migratePackages healthy ?src ?w0) = None"
    using p_first by simp
  have items1: "package_items ?p1 = ?items"
    using p_first by simp
  have bonus1: "package_activation_bonus_packages ?p1
                = package_activation_bonus_packages w @ ?bonus"
    using p_first by simp
  have k1: "\<forall>r \<in> set (package_items ?p1). PackageItem_ID r = ''''"
    unfolding items1 by (cases "p_Items p") (simp_all add: packageItemRow_ID)
  note p_second = migratePackages_healthy_single [OF k1, of doc p]
  have c5: "fst (migratePackages healthy ?src ?p1) = None"
    using p_second by simp
  have c6: "package_activation_bonus_packages ?p2
            = package_activation_bonus_packages w @ ?bonus @ ?bonus"
    using p_second bonus1 by simp
  have items2: "package_items ?p2 = (if package_items ?p1 = [] then ?items else package_items ?p1)"
    using p_second by simp
  have c8: "package_items ?p2 = ?items"
    unfolding items2 items1 by simp
  have s1: "length (o_ServiceDemoUses organization_2) = 2"
    by (simp add: organization_2_def)
  have s2: "length (p_Items package_3) = 3"
    by (simp add: package_3_def)
  have s3: "length (p_OnActivationBonusPackages package_3) = 1"
    by (simp add: package_3_def)
  have a1: "fst (migrateAll healthy organization_and_package empty_world) = None"
    by code_simp
  have a2: "fst (migrateAll healthy organization_and_package
                  (snd (migrateAll healthy organization_and_package empty_world))) = None"
    by code_simp
  have a3: "length (organization_service_demo_uses
       (snd (migrateAll healthy organization_and_package
              (snd (migrateAll healthy organization_and_package empty_world))))) = 4"
    by code_simp
  have a4: "length (package_items
       (snd (migrateAll healthy organization_and_package
              (snd (migrateAll healthy organization_and_package empty_world))))) = 1"
    by code_simp
  have a5: "length (package_activation_bonus_packages
       (snd (migrateAll healthy organization_and_package
              (snd (migrateAll healthy organization_and_package empty_world))))) = 2"
    by code_simp
  have m1: "fst (main healthy organization_and_package
                  (snd (main healthy organization_and_package empty_world))) = None"
    by code_simp
  have m2: "length (organization_service_demo_uses
       (snd (main healthy organization_and_package
              (snd (main healthy organization_and_package empty_world))))) = 2"
    by code_simp
  have m3: "length (package_items
       (snd (main healthy organization_and_package
              (snd (main healthy organization_and_package empty_world))))) = 1"
    by code_simp
  have m4: "length (package_activation_bonus_packages
       (snd (main healthy organization_and_package
              (snd (main healthy organization_and_package empty_world))))) = 1"
    by code_simp
  show ?thesis
    by (intro conjI c1 c2 c3 c4 c5 c6 items1 c8 s1 s2 s3 a1 a2 a3 a4 a5 m1 m2 m3 m4)
qed

end
